(* ===== verification/Prelude.thy ===== *)
theory Prelude
  imports Main "HOL-Library.Sublist"
begin

text \<open>
  Shared vocabulary of the development: the JavaScript string, truthiness and
  array primitives that the TypeScript sources call (\<open>startsWith\<close>, \<open>includes\<close>,
  \<open>toLowerCase\<close>, \<open>trim\<close>, \<open>a || b\<close>, \<open>arr[i]\<close>), written as executable HOL
  functions, with the lemmas that relate each to its library counterpart.
  Strings are \<open>char list\<close>; characters are the 8-bit \<open>char\<close> of HOL, so case
  conversion is modelled on ASCII letters only (the non-ASCII part of
  \<open>toLowerCase\<close> is not modelled).
\<close>

named_theorems js_simps "evaluation rules for the JavaScript primitives"

type_synonym path = string
type_synonym token = string

subsection \<open>String.prototype.startsWith and includes\<close>

fun starts_with :: "string \<Rightarrow> string \<Rightarrow> bool" where
  "starts_with s [] = True"
| "starts_with [] (c # cs) = False"
| "starts_with (d # ds) (c # cs) = (d = c \<and> starts_with ds cs)"

fun str_includes :: "string \<Rightarrow> string \<Rightarrow> bool" where
  "str_includes [] t = (t = [])"
| "str_includes (c # cs) t = (starts_with (c # cs) t \<or> str_includes cs t)"

subsection \<open>Truthiness and the \<open>||\<close> default\<close>

text \<open>
  A JavaScript string is falsy exactly when it is empty; \<open>undefined\<close> and
  \<open>null\<close> (both \<open>None\<close> here) are falsy.
\<close>

fun truthy :: "string option \<Rightarrow> bool" where
  "truthy None = False"
| "truthy (Some s) = (s \<noteq> [])"

definition js_or :: "string \<Rightarrow> string \<Rightarrow> string" where
  "js_or a b = (if a \<noteq> [] then a else b)"

fun js_or_opt :: "string option \<Rightarrow> string \<Rightarrow> string" where
  "js_or_opt None b = b"
| "js_or_opt (Some a) b = js_or a b"

subsection \<open>Case conversion and trim\<close>

definition js_lower_char :: "char \<Rightarrow> char" where
  "js_lower_char c =
     (if 65 \<le> (of_char c :: nat) \<and> (of_char c :: nat) \<le> 90
      then char_of (of_char c + (32::nat)) else c)"

definition js_upper_char :: "char \<Rightarrow> char" where
  "js_upper_char c =
     (if 97 \<le> (of_char c :: nat) \<and> (of_char c :: nat) \<le> 122
      then char_of (of_char c - (32::nat)) else c)"

definition to_lower :: "string \<Rightarrow> string" where
  "to_lower s = map js_lower_char s"

definition to_upper :: "string \<Rightarrow> string" where
  "to_upper s = map js_upper_char s"

definition js_space :: "char \<Rightarrow> bool" where
  "js_space c = (c = CHR '' '' \<or> (9 \<le> (of_char c :: nat) \<and> (of_char c :: nat) \<le> 13))"

definition trim :: "string \<Rightarrow> string" where
  "trim s = rev (dropWhile js_space (rev (dropWhile js_space s)))"

text \<open>\<open>arr.join(sep)\<close> on an array of strings.\<close>

fun join :: "string \<Rightarrow> string list \<Rightarrow> string" where
  "join sep [] = []"
| "join sep [x] = x"
| "join sep (x # y # ys) = x @ sep @ join sep (y # ys)"

text \<open>\<open>s.replace(pat, rep)\<close> with a string pattern: only the first occurrence is replaced.\<close>

fun replace_first :: "string \<Rightarrow> string \<Rightarrow> string \<Rightarrow> string" where
  "replace_first pat rep [] = (if pat = [] then rep else [])"
| "replace_first pat rep (c # cs) =
     (if starts_with (c # cs) pat then rep @ drop (length pat) (c # cs)
      else c # replace_first pat rep cs)"

subsection \<open>Array reads\<close>

text \<open>\<open>arr[i]\<close> is \<open>undefined\<close> outside \<open>0 \<le> i < length\<close>: \<open>None\<close> here.\<close>

definition nth_opt :: "'a list \<Rightarrow> int \<Rightarrow> 'a option" where
  "nth_opt xs i = (if 0 \<le> i \<and> i < int (length xs) then Some (xs ! nat i) else None)"

text \<open>\<open>arr.filter((_, i) => i !== k)\<close>: the array without its element at index \<open>k\<close>.\<close>

definition drop_index :: "nat \<Rightarrow> 'a list \<Rightarrow> 'a list" where
  "drop_index k xs = map fst (filter (\<lambda>(x, i). i \<noteq> k) (zip xs [0..<length xs]))"

subsection \<open>Lemmas\<close>

lemma starts_with_prefix [js_simps]: "starts_with s p \<longleftrightarrow> prefix p s"
  by (induction s p rule: starts_with.induct) auto

lemma includes_sublist [js_simps]: "str_includes s t \<longleftrightarrow> sublist t s"
  by (induction s) (auto simp: starts_with_prefix sublist_Cons_right)

lemma includes_Nil_right [simp]: "str_includes s []"
  by (simp add: includes_sublist)

lemma starts_with_append [simp]: "starts_with (p @ s) p"
  by (simp add: starts_with_prefix)

lemma truthy_iff [js_simps]: "truthy t \<longleftrightarrow> (\<exists>s. t = Some s \<and> s \<noteq> [])"
  by (cases t) auto

lemma js_or_nonempty [simp]: "a \<noteq> [] \<Longrightarrow> js_or a b = a"
  and js_or_empty [simp]: "js_or [] b = b"
  by (simp_all add: js_or_def)

lemma js_or_nonempty_result: "b \<noteq> [] \<Longrightarrow> js_or a b \<noteq> []"
  by (simp add: js_or_def)

lemma js_or_opt_nonempty [simp]: "b \<noteq> [] \<Longrightarrow> js_or_opt a b \<noteq> []"
  by (cases a) (simp_all add: js_or_def)

lemma length_to_lower [simp]: "length (to_lower s) = length s"
  by (simp add: to_lower_def)

lemma length_to_upper [simp]: "length (to_upper s) = length s"
  by (simp add: to_upper_def)

lemma nth_opt_Some [js_simps]:
  "nth_opt xs i = Some x \<longleftrightarrow> 0 \<le> i \<and> i < int (length xs) \<and> xs ! nat i = x"
  by (auto simp: nth_opt_def)

lemma nth_opt_None [js_simps]:
  "nth_opt xs i = None \<longleftrightarrow> i < 0 \<or> int (length xs) \<le> i"
  by (auto simp: nth_opt_def)

lemma drop_index_take_drop: "drop_index k xs = take k xs @ drop (Suc k) xs"
proof (induction xs rule: rev_induct)
  case Nil
  then show ?case by (simp add: drop_index_def)
next
  case (snoc x xs)
  then show ?case
    by (cases "k < length xs") (auto simp: drop_index_def take_append drop_append)
qed

lemma length_drop_index [simp]:
  "length (drop_index k xs) = (if k < length xs then length xs - 1 else length xs)"
  by (simp add: drop_index_take_drop)

lemma list_all_map_mem:
  "list_all P xs \<Longrightarrow> (\<And>y. y \<in> set xs \<Longrightarrow> P y \<Longrightarrow> P (f y)) \<Longrightarrow> list_all P (map f xs)"
  by (induction xs) auto

subsection \<open>Arithmetic\<close>

lemma nat_mod_succ:
  assumes "0 < n"
  shows "nat ((x + 1) mod int n) = (nat (x mod int n) + 1) mod n"
proof -
  let ?p = "x mod int n"
  have p: "0 \<le> ?p" using assms by simp
  have "(x + 1) mod int n = (?p + 1) mod int n" by (simp add: mod_add_left_eq)
  then have "nat ((x + 1) mod int n) = nat (?p + 1) mod n"
    using p by (simp add: nat_mod_distrib)
  also have "\<dots> = (nat ?p + 1) mod n" using p by (simp add: nat_add_distrib)
  finally show ?thesis .
qed

lemma nat_mod_pred:
  assumes "0 < n"
  shows "nat ((x - 1) mod int n) = (nat (x mod int n) + n - 1) mod n"
proof -
  let ?p = "x mod int n"
  have p: "0 \<le> ?p" using assms by simp
  have "(x - 1) mod int n = (?p - 1) mod int n" by (simp add: mod_diff_left_eq)
  also have "\<dots> = (?p - 1 + int n) mod int n" by simp
  finally have eq: "(x - 1) mod int n = (?p - 1 + int n) mod int n" .
  have nn: "0 \<le> ?p - 1 + int n" using p assms by linarith
  have "nat ((?p - 1 + int n) mod int n) = nat (?p - 1 + int n) mod nat (int n)"
    using nn by (rule nat_mod_distrib) simp
  moreover have "nat (?p - 1 + int n) = nat ?p + n - 1" using p assms by linarith
  ultimately show ?thesis using eq by (simp only: nat_int)
qed

text \<open>A counter modulo \<open>n\<close> reaches every residue: from \<open>c\<close>, \<open>(m + n - c) mod n\<close> steps
  lead to \<open>m\<close>.\<close>

lemma mod_rotate_to:
  assumes "(c::nat) < n" and "m < n"
  shows "(c + (m + n - c) mod n) mod n = m"
proof -
  have "c + (m + n - c) = m + n" using assms(1) by simp
  then have "(c + (m + n - c) mod n) mod n = (m + n) mod n" by (simp only: mod_add_right_eq)
  with assms(2) show ?thesis by simp
qed

end
