(* ===== verification/RouteGuard.thy ===== *)
theory RouteGuard
  imports Prelude
begin

text \<open>
  The route access guard of \<open>src/middleware.ts\<close>: the request as the pathname and
  the cookie jar the middleware reads, its response (\<open>NextResponse.next()\<close> or a
  redirect to a path of the same origin), the middleware function itself, the
  \<open>config.matcher\<close> that scopes it, and their composition \<open>handle_request\<close>, which
  is what the framework runs for every navigation. The abstract contract is the
  three-valued decision of the specification (\<open>decide\<close>); \<open>abs_response\<close> maps a
  response to it. The storefront layout's own admin test
  (\<open>src/app/ClientLayout.tsx\<close>) is \<open>is_admin_route\<close>.
\<close>

subsection \<open>Requests, responses and the middleware\<close>

record request =
  pathname :: path
  cookies :: "string \<Rightarrow> string option"

datatype response = Next | Redirect path

definition middleware :: "request \<Rightarrow> response" where
  "middleware r =
     (let token = cookies r ''authToken'' in
      if starts_with (pathname r) ''/admin'' \<and> \<not> truthy token then Redirect ''/login''
      else if pathname r = ''/login'' \<and> truthy token then Redirect ''/admin''
      else Next)"

text \<open>
  \<open>matcher: ['/admin/:path*', '/login']\<close>: \<open>:path*\<close> stands for zero or more
  further path segments, so the first pattern is \<open>/admin\<close> itself and every path
  below \<open>/admin/\<close>; the second is the exact path \<open>/login\<close>.
\<close>

definition under_admin :: "path \<Rightarrow> bool" where
  "under_admin p = (p = ''/admin'' \<or> starts_with p ''/admin/'')"

definition matcher :: "path \<Rightarrow> bool" where
  "matcher p = (under_admin p \<or> p = ''/login'')"

definition handle_request :: "request \<Rightarrow> response" where
  "handle_request r = (if matcher (pathname r) then middleware r else Next)"

definition is_admin_route :: "path \<Rightarrow> bool" where
  "is_admin_route p = starts_with p ''/admin''"

subsection \<open>The specification's decision\<close>

datatype decision = Allow | Redirect_to_login | Redirect_to_home

definition token_present :: "string option \<Rightarrow> bool" where
  "token_present t = (\<exists>s. t = Some s \<and> s \<noteq> [])"

definition decide :: "path \<Rightarrow> string option \<Rightarrow> decision" where
  "decide p t =
     (if under_admin p then (if token_present t then Allow else Redirect_to_login)
      else if p = ''/login'' then (if token_present t then Redirect_to_home else Allow)
      else Allow)"

fun abs_response :: "response \<Rightarrow> decision option" where
  "abs_response Next = Some Allow"
| "abs_response (Redirect p) =
     (if p = ''/login'' then Some Redirect_to_login
      else if p = ''/admin'' then Some Redirect_to_home else None)"

subsection \<open>Lemmas\<close>

lemma truthy_token_present: "truthy t = token_present t"
  by (simp add: truthy_iff token_present_def)

lemma token_present_None [simp]: "\<not> token_present None"
  and token_present_Some [simp]: "token_present (Some s) \<longleftrightarrow> s \<noteq> []"
  by (simp_all add: token_present_def)

lemma under_admin_starts_with: "under_admin p \<Longrightarrow> starts_with p ''/admin''"
  by (auto simp: under_admin_def starts_with_prefix prefix_def)

lemma login_not_admin: "\<not> starts_with ''/login'' ''/admin''"
  by simp

lemma under_admin_not_login: "under_admin p \<Longrightarrow> p \<noteq> ''/login''"
  using under_admin_starts_with login_not_admin by blast

lemmas guard_defs = handle_request_def matcher_def middleware_def decide_def
  truthy_token_present

lemma handle_request_under_admin:
  "under_admin p \<Longrightarrow> handle_request \<lparr>pathname = p, cookies = c\<rparr>
     = (if token_present (c ''authToken'') then Next else Redirect ''/login'')"
  by (simp add: guard_defs under_admin_starts_with under_admin_not_login Let_def)

subsection \<open>Properties of the guard\<close>

text \<open>
  C1. The guard as the framework runs it (matcher, then middleware) implements the
  specification's decision for every request: its response is \<open>next()\<close> exactly when
  the decision is Allow, a redirect to \<open>/login\<close> exactly when it is
  RedirectToLogin, a redirect to \<open>/admin\<close> exactly when it is RedirectToHome.
\<close>

theorem guard_refines_decide:
  "abs_response (handle_request r) = Some (decide (pathname r) (cookies r ''authToken''))"
proof (cases "under_admin (pathname r)")
  case True
  then show ?thesis
    by (simp add: guard_defs under_admin_starts_with under_admin_not_login Let_def)
next
  case False
  then show ?thesis
    by (auto simp: guard_defs Let_def)
qed

text \<open>
  C2. A navigation to \<open>/admin\<close> or any path below it without a session token (no
  \<open>authToken\<close> cookie, or an empty one) is redirected to \<open>/login\<close>.
\<close>

theorem admin_without_token_redirects:
  assumes "under_admin p" and "\<not> token_present (c ''authToken'')"
  shows "handle_request \<lparr>pathname = p, cookies = c\<rparr> = Redirect ''/login''"
  using assms by (simp add: handle_request_under_admin)

theorem admin_without_token_redirects_witness:
  "handle_request \<lparr>pathname = ''/admin/orders'', cookies = (\<lambda>_. None)(''authToken'' := Some '''')\<rparr>
     = Redirect ''/login''"
  by (rule admin_without_token_redirects) (simp_all add: under_admin_def token_present_def)

text \<open>
  A navigation to \<open>/admin\<close> or below with a non-empty token passes unmodified;
  the token's validity is not checked here.
\<close>

theorem admin_with_token_allowed:
  assumes "under_admin p" and "token_present (c ''authToken'')"
  shows "handle_request \<lparr>pathname = p, cookies = c\<rparr> = Next"
  using assms by (simp add: handle_request_under_admin)

theorem admin_with_token_allowed_witness:
  "handle_request \<lparr>pathname = ''/admin/products/add'',
     cookies = (\<lambda>_. None)(''authToken'' := Some ''abc123'')\<rparr> = Next"
  by (rule admin_with_token_allowed) (simp_all add: under_admin_def token_present_def)

text \<open>
  C3. On the exact path \<open>/login\<close> the guard redirects to \<open>/admin\<close> when a token is
  present and lets the request through otherwise.
\<close>

theorem login_route_decision:
  "handle_request \<lparr>pathname = ''/login'', cookies = c\<rparr>
     = (if token_present (c ''authToken'') then Redirect ''/admin'' else Next)"
  by (simp add: guard_defs under_admin_def Let_def)

text \<open>
  C4. An empty \<open>authToken\<close> cookie is treated exactly as an absent one, on every
  path: there is no bypass of the guard with an empty cookie value.
\<close>

theorem empty_token_is_absent:
  "handle_request \<lparr>pathname = p, cookies = c(''authToken'' := Some '''')\<rparr>
     = handle_request \<lparr>pathname = p, cookies = c(''authToken'' := None)\<rparr>"
  by (simp add: guard_defs Let_def)

text \<open>
  C5. Every path that is neither \<open>/admin\<close> nor below it nor exactly \<open>/login\<close>
  (the storefront, \<open>/login/reset\<close>, \<open>/administrator\<close>) passes unmodified,
  whatever the cookies.
\<close>

theorem unmatched_paths_pass:
  assumes "\<not> under_admin p" and "p \<noteq> ''/login''"
  shows "handle_request \<lparr>pathname = p, cookies = c\<rparr> = Next"
  using assms by (simp add: handle_request_def matcher_def)

theorem unmatched_paths_pass_witness:
  "handle_request \<lparr>pathname = ''/login/reset'', cookies = (\<lambda>_. Some ''abc123'')\<rparr> = Next"
  by (rule unmatched_paths_pass) (simp_all add: under_admin_def)

text \<open>
  C6. The middleware's own test is a raw prefix test, wider than "\<open>/admin\<close> and the
  paths nested below it": on every path that starts with \<open>/admin\<close> without being
  \<open>/admin\<close> or below it (\<open>/administrator\<close>, \<open>/admin-tools\<close>, ...) and without a
  token, the middleware alone would redirect to \<open>/login\<close>. Only the matcher keeps it
  from running there, so the request passes, and the storefront layout still treats the
  path as an admin route (no header, no footer).
\<close>

theorem middleware_prefix_overreach:
  assumes "starts_with p ''/admin''" and "\<not> under_admin p" and "\<not> token_present (c ''authToken'')"
  shows "middleware \<lparr>pathname = p, cookies = c\<rparr> = Redirect ''/login''
   \<and> handle_request \<lparr>pathname = p, cookies = c\<rparr> = Next
   \<and> is_admin_route p"
proof -
  have "p \<noteq> ''/login''" using assms(1) by auto
  then show ?thesis
    using assms by (auto simp: guard_defs is_admin_route_def Let_def)
qed

theorem middleware_prefix_overreach_witness:
  "middleware \<lparr>pathname = ''/administrator'', cookies = (\<lambda>_. None)\<rparr> = Redirect ''/login''
   \<and> handle_request \<lparr>pathname = ''/administrator'', cookies = (\<lambda>_. None)\<rparr> = Next
   \<and> is_admin_route ''/administrator''"
  by (rule middleware_prefix_overreach) (simp_all add: under_admin_def token_present_def)

end
