(* ===== verification/Session.thy ===== *)
theory Session
  imports RouteGuard
begin

text \<open>
  The session lifecycle around the guard. The browser state (\<open>browser\<close>) is the
  part of the browser the pages touch: \<open>localStorage\<close>, the cookie jar with each
  cookie's expiry, a clock in seconds and the current location. The login page
  (\<open>src/app/login/page.tsx\<close>) is \<open>login_page\<close> with \<open>handle_change\<close> and
  \<open>handle_submit\<close>, the latter taking the server's reply as an argument; the
  admin layout (\<open>src/app/admin/layout.tsx\<close>) contributes \<open>admin_user_display\<close>
  (its mount effect), \<open>nav_active\<close> (sidebar highlighting) and \<open>handle_logout\<close>.
  Every navigation goes through \<open>RouteGuard.handle_request\<close> (\<open>navigate\<close>).
  \<open>session_step\<close> is the step relation of the whole session, \<open>reach\<close> its
  reachable states and \<open>session_inv\<close> the invariant that ties cookie and storage.
\<close>

subsection \<open>Browser state\<close>

record user_info =
  user_id :: string
  user_email :: "string option"
  first_name :: "string option"
  last_name :: "string option"

text \<open>
  A \<open>localStorage\<close> value is a string; the one object the code stores, the
  \<open>userData\<close> entry, is written with \<open>JSON.stringify\<close> and read back with
  \<open>JSON.parse\<close>, so it is kept here as the object it encodes.
\<close>

datatype ls_value = LS_Text string | LS_User user_info

record browser =
  local_storage :: "string \<Rightarrow> ls_value option"
  cookie_jar :: "string \<Rightarrow> (string \<times> nat) option"
  clock :: nat
  location :: path

definition init_browser :: browser where
  "init_browser = \<lparr>local_storage = (\<lambda>_. None), cookie_jar = (\<lambda>_. None),
     clock = 0, location = ''/''\<rparr>"

text \<open>A cookie is sent while the clock is before its expiry (\<open>max-age\<close>).\<close>

definition visible_cookies :: "browser \<Rightarrow> string \<Rightarrow> string option" where
  "visible_cookies b n =
     (case cookie_jar b n of None \<Rightarrow> None
      | Some (v, e) \<Rightarrow> if clock b < e then Some v else None)"

definition set_cookie :: "string \<Rightarrow> string \<Rightarrow> nat \<Rightarrow> browser \<Rightarrow> browser" where
  "set_cookie n v max_age b =
     (if max_age = 0 then b\<lparr>cookie_jar := (cookie_jar b)(n := None)\<rparr>
      else b\<lparr>cookie_jar := (cookie_jar b)(n := Some (v, clock b + max_age))\<rparr>)"

text \<open>
  \<open>window.location.href = p\<close>: the request for \<open>p\<close> carries the visible cookies
  and passes the guard; a redirect moves the location to its target.
\<close>

definition navigate :: "browser \<Rightarrow> path \<Rightarrow> browser" where
  "navigate b p =
     (case handle_request \<lparr>pathname = p, cookies = visible_cookies b\<rparr> of
        Next \<Rightarrow> b\<lparr>location := p\<rparr>
      | Redirect q \<Rightarrow> b\<lparr>location := q\<rparr>)"

subsection \<open>The login page\<close>

record login_form =
  email :: string
  password :: string

record login_page =
  show_password :: bool
  loading :: bool
  form_data :: login_form
  error :: string

definition init_login_page :: login_page where
  "init_login_page = \<lparr>show_password = False, loading = False,
     form_data = \<lparr>email = [], password = []\<rparr>, error = []\<rparr>"

datatype form_field = Email_field | Password_field

fun handle_change :: "login_page \<Rightarrow> form_field \<Rightarrow> string \<Rightarrow> login_page" where
  "handle_change pg Email_field v = pg\<lparr>form_data := (form_data pg)\<lparr>email := v\<rparr>\<rparr>"
| "handle_change pg Password_field v = pg\<lparr>form_data := (form_data pg)\<lparr>password := v\<rparr>\<rparr>"

text \<open>
  The parsed JSON body of the login endpoint's reply: the token under
  \<open>accessToken\<close> or \<open>token\<close>, the user, and the \<open>message\<close> of an error body.
  \<open>fetch\<close> either fails (\<open>Network_error\<close>) or gives a reply with its \<open>ok\<close> flag and a
  body that parses (\<open>Some\<close>) or makes \<open>response.json()\<close> throw (\<open>None\<close>).
\<close>

record login_body =
  access_token :: "string option"
  token_field :: "string option"
  user :: "user_info option"
  message :: "string option"

datatype http_reply = Network_error | Reply bool "login_body option"

definition pick_token :: "login_body \<Rightarrow> string option" where
  "pick_token r = (if truthy (access_token r) then access_token r else token_field r)"

definition connect_error :: string where
  "connect_error = ''Failed to connect to server. Please try again.''"

definition store_session :: "login_form \<Rightarrow> login_body \<Rightarrow> token \<Rightarrow> browser \<Rightarrow> browser" where
  "store_session f r t b =
     (let ls = (local_storage b)(''authToken'' \<mapsto> LS_Text t,
                 ''userEmail'' \<mapsto> LS_Text (js_or_opt (Option.bind (user r) user_email) (email f)));
          ls' = (case user r of None \<Rightarrow> ls | Some u \<Rightarrow> ls(''userData'' \<mapsto> LS_User u))
      in set_cookie ''authToken'' t 86400 (b\<lparr>local_storage := ls'\<rparr>))"

definition handle_submit :: "login_page \<Rightarrow> browser \<Rightarrow> http_reply \<Rightarrow> login_page \<times> browser" where
  "handle_submit pg b reply =
     (let pg0 = pg\<lparr>error := [], loading := True\<rparr> in
      case reply of
        Network_error \<Rightarrow> (pg0\<lparr>error := connect_error, loading := False\<rparr>, b)
      | Reply ok body \<Rightarrow>
          (case body of
             None \<Rightarrow> (pg0\<lparr>error := connect_error, loading := False\<rparr>, b)
           | Some r \<Rightarrow>
               if ok then
                 (case pick_token r of
                    Some t \<Rightarrow> if t \<noteq> []
                      then (pg0, navigate (store_session (form_data pg) r t b) ''/admin'')
                      else (pg0\<lparr>error := ''Token not received from server'', loading := False\<rparr>, b)
                  | None \<Rightarrow> (pg0\<lparr>error := ''Token not received from server'', loading := False\<rparr>, b))
               else (pg0\<lparr>error := js_or_opt (message r) ''Invalid email or password'',
                          loading := False\<rparr>, b)))"

subsection \<open>The admin layout\<close>

record admin_header =
  hdr_email :: string
  hdr_name :: string
  hdr_initial :: string

text \<open>
  The mount effect of the admin layout. Decoding the JWT payload
  (\<open>atob\<close> of the second dot-separated part, then \<open>JSON.parse\<close>) is the parameter
  \<open>decode_jwt\<close>: \<open>None\<close> where it throws, else the payload's first and last names.
\<close>

definition ls_text :: "ls_value option \<Rightarrow> string option" where
  "ls_text v = (case v of Some (LS_Text s) \<Rightarrow> Some s | _ \<Rightarrow> None)"

definition jwt_names :: "(string \<Rightarrow> (string option \<times> string option) option) \<Rightarrow>
    string option \<Rightarrow> string \<Rightarrow> string \<Rightarrow> string \<times> string" where
  "jwt_names decode_jwt tok fn ln =
     (if fn = [] \<or> ln = [] then
        (if truthy tok then
           (case decode_jwt (the tok) of
              None \<Rightarrow> (fn, ln)
            | Some (jf, jl) \<Rightarrow> (js_or fn (js_or_opt jf []), js_or ln (js_or_opt jl [])))
         else (fn, ln))
      else (fn, ln))"

definition admin_user_display :: "(string \<Rightarrow> (string option \<times> string option) option) \<Rightarrow>
    (string \<Rightarrow> ls_value option) \<Rightarrow> admin_header" where
  "admin_user_display decode_jwt ls =
     (let em = js_or_opt (ls_text (ls ''userEmail'')) ''admin@ecom.com'';
          fallback = \<lparr>hdr_email = em, hdr_name = ''Admin User'', hdr_initial = to_upper [hd em]\<rparr>
      in case ls ''userData'' of
           Some (LS_User u) \<Rightarrow>
             (let (fn, ln) = jwt_names decode_jwt (ls_text (ls ''authToken''))
                               (js_or_opt (first_name u) []) (js_or_opt (last_name u) [])
              in \<lparr>hdr_email = em,
                  hdr_name = js_or (trim (fn @ '' '' @ ln)) ''Admin User'',
                  hdr_initial = (if fn \<noteq> [] then to_upper [hd fn] else to_upper [hd em])\<rparr>)
         | _ \<Rightarrow> fallback)"

definition nav_hrefs :: "path list" where
  "nav_hrefs = [''/admin'', ''/admin/products'', ''/admin/categories'', ''/admin/brands'',
     ''/admin/manufacturers'', ''/admin/orders'', ''/admin/customers'']"

definition nav_active :: "path \<Rightarrow> path \<Rightarrow> bool" where
  "nav_active cur href = (cur = href \<or> starts_with cur (href @ ''/''))"

definition handle_logout :: "browser \<Rightarrow> browser" where
  "handle_logout b =
     navigate (set_cookie ''authToken'' [] 0
       (b\<lparr>local_storage := (local_storage b)(''authToken'' := None, ''userEmail'' := None,
                                               ''userData'' := None)\<rparr>)) ''/login''"

text \<open>
  The admin product pages read the token back under the key \<open>token\<close> and send it
  as \<open>Authorization: Bearer ${token}\<close>; \<open>null\<close> prints as \<open>null\<close>.
\<close>

definition products_auth_header :: "(string \<Rightarrow> ls_value option) \<Rightarrow> string" where
  "products_auth_header ls =
     ''Bearer '' @ (case ls_text (ls ''token'') of None \<Rightarrow> ''null'' | Some t \<Rightarrow> t)"

subsection \<open>The session as a step relation\<close>

inductive session_step :: "browser \<Rightarrow> browser \<Rightarrow> bool" where
  submit: "\<not> loading pg \<Longrightarrow> session_step b (snd (handle_submit pg b reply))"
| logout: "session_step b (handle_logout b)"
| visit: "session_step b (navigate b p)"
| tick: "session_step b (b\<lparr>clock := clock b + d\<rparr>)"

inductive reach :: "browser \<Rightarrow> bool" where
  init: "reach init_browser"
| step: "reach b \<Longrightarrow> session_step b b' \<Longrightarrow> reach b'"

definition session_inv :: "browser \<Rightarrow> bool" where
  "session_inv b \<longleftrightarrow>
     (\<forall>v e. cookie_jar b ''authToken'' = Some (v, e) \<longrightarrow>
        local_storage b ''authToken'' = Some (LS_Text v) \<and> v \<noteq> [] \<and> e \<le> clock b + 86400)
     \<and> local_storage b ''token'' = None"

text \<open>
  The success condition of \<open>handleSubmit\<close>: a 2xx reply, a body that parses, and a
  truthy token.
\<close>

definition login_ok :: "http_reply \<Rightarrow> bool" where
  "login_ok reply = (case reply of Reply True (Some r) \<Rightarrow> truthy (pick_token r) | _ \<Rightarrow> False)"

subsection \<open>Sample data\<close>

definition sample_user :: user_info where
  "sample_user = \<lparr>user_id = ''1'', user_email = Some ''ada@shop.test'',
     first_name = Some ''ada'', last_name = Some ''Lovelace''\<rparr>"

definition sample_body :: login_body where
  "sample_body = \<lparr>access_token = Some ''abc123'', token_field = None,
     user = Some sample_user, message = None\<rparr>"

subsection \<open>Lemmas\<close>


lemma navigate_fields [simp]:
  "local_storage (navigate b p) = local_storage b"
  "cookie_jar (navigate b p) = cookie_jar b"
  "clock (navigate b p) = clock b"
  by (simp_all add: navigate_def split: response.split)

lemma visible_cookies_cong:
  "cookie_jar b' = cookie_jar b \<Longrightarrow> clock b' = clock b \<Longrightarrow> visible_cookies b' = visible_cookies b"
  by (simp add: visible_cookies_def fun_eq_iff split: option.split)

lemma set_cookie_fields [simp]:
  "local_storage (set_cookie n v m b) = local_storage b"
  "clock (set_cookie n v m b) = clock b"
  by (simp_all add: set_cookie_def)

lemma store_session_fields:
  "local_storage (store_session f r t b) ''authToken'' = Some (LS_Text t)"
  "local_storage (store_session f r t b) ''token'' = local_storage b ''token''"
  "cookie_jar (store_session f r t b) ''authToken'' = Some (t, clock b + 86400)"
  "clock (store_session f r t b) = clock b"
  by (simp_all add: store_session_def set_cookie_def Let_def split: option.split)

lemma visible_store_session:
  "visible_cookies (store_session f r t b) ''authToken'' = Some t"
  by (simp add: visible_cookies_def store_session_fields)

lemma handle_submit_cases:
  "snd (handle_submit pg b reply) = b \<or>
   (\<exists>r t. t \<noteq> [] \<and> snd (handle_submit pg b reply) = navigate (store_session (form_data pg) r t b) ''/admin'')"
  by (auto simp: handle_submit_def Let_def split: http_reply.split option.split if_split)

lemma handle_logout_fields:
  "local_storage (handle_logout b) ''authToken'' = None"
  "local_storage (handle_logout b) ''token'' = local_storage b ''token''"
  "cookie_jar (handle_logout b) ''authToken'' = None"
  "clock (handle_logout b) = clock b"
  by (simp_all add: handle_logout_def set_cookie_def)

lemma session_step_inv: "session_step b b' \<Longrightarrow> session_inv b \<Longrightarrow> session_inv b'"
proof (induction rule: session_step.induct)
  case (submit pg b reply)
  from handle_submit_cases[of pg b reply] show ?case
  proof
    assume "snd (handle_submit pg b reply) = b"
    with submit.prems show ?thesis by simp
  next
    assume "\<exists>r t. t \<noteq> [] \<and> snd (handle_submit pg b reply) = navigate (store_session (form_data pg) r t b) ''/admin''"
    then obtain r t where "t \<noteq> []" and eq: "snd (handle_submit pg b reply) = navigate (store_session (form_data pg) r t b) ''/admin''"
      by blast
    with submit.prems show ?thesis
      by (simp add: session_inv_def store_session_fields)
  qed
next
  case (logout b)
  then show ?case by (simp add: session_inv_def handle_logout_fields)
next
  case (visit b p)
  then show ?case by (simp add: session_inv_def)
next
  case (tick b d)
  then show ?case by (fastforce simp: session_inv_def)
qed

lemma reach_inv: "reach b \<Longrightarrow> session_inv b"
proof (induction rule: reach.induct)
  case init
  show ?case by (simp add: session_inv_def init_browser_def)
next
  case (step b b')
  then show ?case by (blast intro: session_step_inv)
qed

lemma visible_after_logout: "visible_cookies (set_cookie ''authToken'' [] 0 b) ''authToken'' = None"
  by (simp add: visible_cookies_def set_cookie_def)

lemma login_page_no_token:
  "\<not> token_present (c ''authToken'') \<Longrightarrow> handle_request \<lparr>pathname = ''/login'', cookies = c\<rparr> = Next"
  by (simp add: guard_defs under_admin_def Let_def)

lemma navigate_under_admin:
  "under_admin p \<Longrightarrow> location (navigate b p) =
     (if token_present (visible_cookies b ''authToken'') then p else ''/login'')"
  by (simp add: navigate_def handle_request_under_admin)

text \<open>
  C7. In every reachable state of the session, a session token that the guard can see
  (a live \<open>authToken\<close> cookie) is non-empty and equal to the token the pages keep under
  \<open>authToken\<close> in \<open>localStorage\<close>: the cookie is never a stale or foreign value.
\<close>

theorem reach_token_mirrors_storage:
  assumes "reach b" and "visible_cookies b ''authToken'' = Some v"
  shows "local_storage b ''authToken'' = Some (LS_Text v) \<and> v \<noteq> []"
proof -
  from assms(1) have "session_inv b" by (rule reach_inv)
  with assms(2) show ?thesis
    by (auto simp: session_inv_def visible_cookies_def split: option.splits if_splits)
qed

text \<open>
  C8. A successful login (a 2xx reply whose body carries a non-empty \<open>accessToken\<close>, or
  failing that a non-empty \<open>token\<close>) stores that token in \<open>localStorage\<close> and in the
  cookie, and the navigation to \<open>/admin\<close> that follows is let through by the guard;
  the page stays in its loading state.
\<close>

theorem login_success_enters_admin:
  assumes "pick_token r = Some t" and "t \<noteq> []"
  shows "location (snd (handle_submit pg b (Reply True (Some r)))) = ''/admin''
    \<and> visible_cookies (snd (handle_submit pg b (Reply True (Some r)))) ''authToken'' = Some t
    \<and> local_storage (snd (handle_submit pg b (Reply True (Some r)))) ''authToken'' = Some (LS_Text t)
    \<and> loading (fst (handle_submit pg b (Reply True (Some r))))"
proof -
  let ?b = "store_session (form_data pg) r t b"
  have eq: "handle_submit pg b (Reply True (Some r)) = (pg\<lparr>error := [], loading := True\<rparr>, navigate ?b ''/admin'')"
    using assms by (simp add: handle_submit_def)
  have vis: "visible_cookies (navigate ?b ''/admin'') = visible_cookies ?b"
    by (rule visible_cookies_cong) simp_all
  show ?thesis
    using assms by (simp add: eq vis navigate_under_admin visible_store_session store_session_fields under_admin_def)
qed

text \<open>
  C9. Logging out lands on \<open>/login\<close> (the guard lets it through) and every later
  navigation to \<open>/admin\<close> or below is redirected to \<open>/login\<close>.
\<close>

theorem logout_locks_admin:
  assumes "under_admin p"
  shows "location (handle_logout b) = ''/login'' \<and> location (navigate (handle_logout b) p) = ''/login''"
proof -
  let ?b = "set_cookie ''authToken'' [] 0
       (b\<lparr>local_storage := (local_storage b)(''authToken'' := None, ''userEmail'' := None, ''userData'' := None)\<rparr>)"
  have none: "visible_cookies ?b ''authToken'' = None" by (rule visible_after_logout)
  have vis: "visible_cookies (handle_logout b) = visible_cookies ?b"
    unfolding handle_logout_def by (rule visible_cookies_cong) simp_all
  have "location (handle_logout b) = ''/login''"
    using none by (simp add: handle_logout_def navigate_def login_page_no_token)
  moreover have "location (navigate (handle_logout b) p) = ''/login''"
    using assms none by (simp add: navigate_under_admin vis)
  ultimately show ?thesis ..
qed

text \<open>
  C10. From any reachable state, once 24 hours (86400 s, the cookie's \<open>max-age\<close>) have
  passed with no new login, every navigation into the admin area is redirected to
  \<open>/login\<close>.
\<close>

theorem session_expires_after_a_day:
  assumes "reach b" and "under_admin p"
  shows "location (navigate (b\<lparr>clock := clock b + 86400\<rparr>) p) = ''/login''"
proof -
  from assms(1) have "session_inv b" by (rule reach_inv)
  then have "visible_cookies (b\<lparr>clock := clock b + 86400\<rparr>) ''authToken'' = None"
    by (auto simp: session_inv_def visible_cookies_def split: option.split)
  with assms(2) show ?thesis by (simp add: navigate_under_admin)
qed

text \<open>
  C11. Every login attempt that does not succeed (network failure, unparsable body,
  non-2xx reply, or no usable token) leaves the browser state untouched, ends the
  loading state and shows a non-empty error message.
\<close>

theorem failed_login_keeps_browser:
  assumes "\<not> login_ok reply"
  shows "snd (handle_submit pg b reply) = b \<and> \<not> loading (fst (handle_submit pg b reply))
    \<and> error (fst (handle_submit pg b reply)) \<noteq> []"
  using assms
  by (auto simp: handle_submit_def login_ok_def Let_def connect_error_def
      split: http_reply.split option.split if_split bool.split)

text \<open>
  C12. The admin products list and the product form read the token from
  \<open>localStorage\<close> under the key \<open>token\<close>, which nothing ever writes: in every
  reachable state, also after a successful login, their requests carry the header
  \<open>Authorization: Bearer null\<close>.
\<close>

theorem admin_requests_send_bearer_null:
  assumes "reach b"
  shows "products_auth_header (local_storage b) = ''Bearer null''"
proof -
  from assms have "session_inv b" by (rule reach_inv)
  then show ?thesis by (simp add: session_inv_def products_auth_header_def ls_text_def)
qed

text \<open>
  The sidebar marks an entry active when the path equals its link or starts with
  the link followed by a slash; for the Dashboard link \<open>/admin\<close> that holds on every
  admin page, so two entries are highlighted at once, e.g. on \<open>/admin/products\<close>.
\<close>

theorem dashboard_always_highlighted:
  assumes "under_admin p"
  shows "nav_active p ''/admin''
    \<and> filter (nav_active ''/admin/products'') nav_hrefs = [''/admin'', ''/admin/products'']"
  using assms by (simp add: under_admin_def nav_active_def nav_hrefs_def)


text \<open>
  C13. After a successful login whose user has a first and a last name, the admin
  layout shows the user's email (or the typed one), the full name, and the
  upper-cased first letter of the first name.
\<close>

theorem admin_display_after_login:
  assumes "pick_token r = Some t" and "t \<noteq> []" and "user r = Some u"
    and "first_name u = Some f" and "last_name u = Some l" and "f \<noteq> []" and "l \<noteq> []"
  shows "admin_user_display decode_jwt (local_storage (snd (handle_submit pg b (Reply True (Some r)))))
    = \<lparr>hdr_email = js_or (js_or_opt (user_email u) (email (form_data pg))) ''admin@ecom.com'',
       hdr_name = js_or (trim (f @ '' '' @ l)) ''Admin User'', hdr_initial = to_upper [hd f]\<rparr>"
  using assms
  by (simp add: handle_submit_def store_session_def set_cookie_def admin_user_display_def
      jwt_names_def ls_text_def Let_def)

theorem admin_display_after_login_witness:
  "admin_user_display (\<lambda>_. None) (local_storage (snd (handle_submit init_login_page init_browser
       (Reply True (Some sample_body)))))
   = \<lparr>hdr_email = ''ada@shop.test'', hdr_name = ''ada Lovelace'', hdr_initial = ''A''\<rparr>"
proof -
  have "admin_user_display (\<lambda>_. None) (local_storage (snd (handle_submit init_login_page init_browser
       (Reply True (Some sample_body)))))
    = \<lparr>hdr_email = js_or (js_or_opt (user_email sample_user) (email (form_data init_login_page))) ''admin@ecom.com'',
       hdr_name = js_or (trim (''ada'' @ '' '' @ ''Lovelace'')) ''Admin User'', hdr_initial = to_upper [hd ''ada'']\<rparr>"
    by (rule admin_display_after_login [where t = "''abc123''"])
      (simp_all add: sample_body_def sample_user_def pick_token_def)
  moreover have "char_of (65::nat) = CHR ''A''" by code_simp
  ultimately show ?thesis
    by (simp add: sample_user_def trim_def js_space_def to_upper_def js_upper_char_def)
qed

lemma reach_after_login:
  "reach (snd (handle_submit init_login_page init_browser (Reply True (Some sample_body))))"
  by (rule reach.step[OF reach.init]) (rule session_step.submit, simp add: init_login_page_def)

theorem reach_token_mirrors_storage_witness:
  "local_storage (snd (handle_submit init_login_page init_browser (Reply True (Some sample_body)))) ''authToken''
     = Some (LS_Text ''abc123'') \<and> ''abc123'' \<noteq> []"
proof -
  let ?b = "snd (handle_submit init_login_page init_browser (Reply True (Some sample_body)))"
  have r: "reach ?b" by (rule reach_after_login)
  have v: "visible_cookies ?b ''authToken'' = Some ''abc123''"
    by (simp add: handle_submit_def sample_body_def pick_token_def visible_cookies_def navigate_def
        store_session_def set_cookie_def init_browser_def handle_request_under_admin under_admin_def
        split: response.split)
  show ?thesis using reach_token_mirrors_storage[OF r v] by simp
qed


theorem login_success_enters_admin_witness:
  "location (snd (handle_submit init_login_page init_browser (Reply True (Some sample_body)))) = ''/admin''
    \<and> visible_cookies (snd (handle_submit init_login_page init_browser (Reply True (Some sample_body))))
        ''authToken'' = Some ''abc123''
    \<and> local_storage (snd (handle_submit init_login_page init_browser (Reply True (Some sample_body))))
        ''authToken'' = Some (LS_Text ''abc123'')
    \<and> loading (fst (handle_submit init_login_page init_browser (Reply True (Some sample_body))))"
  by (rule login_success_enters_admin) (simp_all add: sample_body_def pick_token_def)

theorem logout_locks_admin_witness:
  "location (handle_logout init_browser) = ''/login''
    \<and> location (navigate (handle_logout init_browser) ''/admin'') = ''/login''"
  by (rule logout_locks_admin) (simp add: under_admin_def)

theorem session_expires_after_a_day_witness:
  "location (navigate ((snd (handle_submit init_login_page init_browser (Reply True (Some sample_body))))
       \<lparr>clock := clock (snd (handle_submit init_login_page init_browser (Reply True (Some sample_body))))
          + 86400\<rparr>) ''/admin/orders'') = ''/login''"
  by (rule session_expires_after_a_day[OF reach_after_login]) (simp add: under_admin_def)

theorem failed_login_keeps_browser_witness:
  "snd (handle_submit init_login_page init_browser Network_error) = init_browser
    \<and> \<not> loading (fst (handle_submit init_login_page init_browser Network_error))
    \<and> error (fst (handle_submit init_login_page init_browser Network_error)) \<noteq> []"
  by (rule failed_login_keeps_browser) (simp add: login_ok_def)

theorem admin_requests_send_bearer_null_witness:
  "products_auth_header (local_storage (snd (handle_submit init_login_page init_browser
     (Reply True (Some sample_body))))) = ''Bearer null''"
  by (rule admin_requests_send_bearer_null[OF reach_after_login])

theorem dashboard_always_highlighted_witness:
  "nav_active ''/admin/orders'' ''/admin''
    \<and> filter (nav_active ''/admin/products'') nav_hrefs = [''/admin'', ''/admin/products'']"
  by (rule dashboard_always_highlighted) (simp add: under_admin_def)

end
