(* ===== verification/Slider.thy ===== *)
theory Slider
  imports Prelude
begin

text \<open>
  The home page's infinite banner carousel (\<open>src/components/HomeBannerSlider.tsx\<close>).
  The rendered strip \<open>extended\<close> is the banner list with a clone of the last banner in
  front and a clone of the first at the back; the state (\<open>slider\<close>) is the index
  into that strip, the \<open>animate\<close> flag, the \<open>setTimeout\<close> callbacks still pending
  (due time and action, in firing order) and the clock in milliseconds. A change of
  the index runs the loop effect (\<open>loop_effect\<close>), which schedules the jump back
  from a clone to the real slide 690 to 710 ms later. Inputs are the 5-second
  interval, the Prev/Next buttons and the dots at a given time, and the firing of the
  earliest pending timer (\<open>slider_step\<close>); \<open>slider_run\<close> runs a list of them.
  \<open>calm_reach\<close> are the states reached when the user only acts while no timer is
  pending; the abstract view is the banner on screen (\<open>shown\<close>) and its position
  \<open>abs_pos\<close>, which every input rotates (\<open>rotate\<close>).
\<close>

subsection \<open>Banners and the rendered strip\<close>

record banner =
  banner_id :: string
  image_url :: string
  link :: "string option"

definition extended :: "banner list \<Rightarrow> banner list" where
  "extended bs = [last bs] @ bs @ [hd bs]"

definition slider_render :: "banner list \<Rightarrow> banner list option" where
  "slider_render bs = (if bs = [] then None else Some (extended bs))"

subsection \<open>State, timers and the loop effect\<close>

datatype slider_action = Set_animate bool | Set_index int

type_synonym timer = "nat \<times> slider_action"

record slider =
  idx :: int
  animate :: bool
  timers :: "timer list"
  now :: nat

definition init_slider :: slider where
  "init_slider = \<lparr>idx = 1, animate = True, timers = [], now = 0\<rparr>"

text \<open>A new timer fires after every pending timer due no later than it.\<close>

fun enqueue :: "timer \<Rightarrow> timer list \<Rightarrow> timer list" where
  "enqueue x [] = [x]"
| "enqueue x (y # ys) = (if fst x < fst y then x # y # ys else y # enqueue x ys)"

definition reset_timers :: "nat \<Rightarrow> int \<Rightarrow> timer list" where
  "reset_timers t j =
     [(t + 690, Set_animate False), (t + 700, Set_index j), (t + 710, Set_animate True)]"

definition loop_effect :: "nat \<Rightarrow> int \<Rightarrow> nat \<Rightarrow> timer list" where
  "loop_effect n i t =
     (if i = int n + 1 then reset_timers t 1 else [])
     @ (if i = 0 then reset_timers t (int n) else [])"

text \<open>
  \<open>setIndex\<close>: React keeps the state and runs no effect when the value is unchanged;
  otherwise the effect on \<open>[index]\<close> runs with the new value.
\<close>

definition set_index :: "nat \<Rightarrow> int \<Rightarrow> slider \<Rightarrow> slider" where
  "set_index n i s =
     (if i = idx s then s
      else s\<lparr>idx := i, timers := fold enqueue (loop_effect n i (now s)) (timers s)\<rparr>)"

fun apply_action :: "nat \<Rightarrow> slider_action \<Rightarrow> slider \<Rightarrow> slider" where
  "apply_action n (Set_animate b) s = s\<lparr>animate := b\<rparr>"
| "apply_action n (Set_index i) s = set_index n i s"

subsection \<open>Inputs\<close>

datatype slider_event = Auto_tick | Next_button | Prev_button | Dot_button nat

fun user_event :: "nat \<Rightarrow> slider_event \<Rightarrow> slider \<Rightarrow> slider" where
  "user_event n Auto_tick s = set_index n (idx s + 1) s"
| "user_event n Next_button s = set_index n (idx s + 1) s"
| "user_event n Prev_button s = set_index n (idx s - 1) s"
| "user_event n (Dot_button k) s = set_index n (int k + 1) s"

text \<open>An input at time \<open>t\<close> comes after every timer due before \<open>t\<close>.\<close>

definition ready :: "slider \<Rightarrow> nat \<Rightarrow> bool" where
  "ready s t = (now s \<le> t \<and> (case timers s of [] \<Rightarrow> True | (d, _) # _ \<Rightarrow> t \<le> d))"

fun event_ok :: "nat \<Rightarrow> slider_event \<Rightarrow> bool" where
  "event_ok n (Dot_button k) = (k < n)"
| "event_ok n e = True"

definition fire :: "nat \<Rightarrow> slider \<Rightarrow> slider option" where
  "fire n s = (case timers s of [] \<Rightarrow> None
     | (d, a) # rest \<Rightarrow> Some (apply_action n a (s\<lparr>now := d, timers := rest\<rparr>)))"

datatype slider_input = Input nat slider_event | Timer_fires

fun slider_step :: "nat \<Rightarrow> slider \<Rightarrow> slider_input \<Rightarrow> slider option" where
  "slider_step n s (Input t e) =
     (if ready s t \<and> event_ok n e then Some (user_event n e (s\<lparr>now := t\<rparr>)) else None)"
| "slider_step n s Timer_fires = fire n s"

fun slider_run :: "nat \<Rightarrow> slider \<Rightarrow> slider_input list \<Rightarrow> slider option" where
  "slider_run n s [] = Some s"
| "slider_run n s (x # xs) =
     (case slider_step n s x of None \<Rightarrow> None | Some s' \<Rightarrow> slider_run n s' xs)"

subsection \<open>What is on screen\<close>

definition shown :: "banner list \<Rightarrow> slider \<Rightarrow> banner option" where
  "shown bs s = nth_opt (extended bs) (idx s)"

definition abs_pos :: "nat \<Rightarrow> slider \<Rightarrow> nat" where
  "abs_pos n s = nat ((idx s - 1) mod int n)"

fun rotate :: "nat \<Rightarrow> slider_event \<Rightarrow> nat \<Rightarrow> nat" where
  "rotate n Auto_tick p = (p + 1) mod n"
| "rotate n Next_button p = (p + 1) mod n"
| "rotate n Prev_button p = (p + n - 1) mod n"
| "rotate n (Dot_button k) p = k"

subsection \<open>Calm runs\<close>

inductive calm_reach :: "nat \<Rightarrow> slider \<Rightarrow> bool" for n where
  start: "calm_reach n init_slider"
| user: "calm_reach n s \<Longrightarrow> timers s = [] \<Longrightarrow> slider_step n s (Input t e) = Some s'
           \<Longrightarrow> calm_reach n s'"
| timer: "calm_reach n s \<Longrightarrow> slider_step n s Timer_fires = Some s' \<Longrightarrow> calm_reach n s'"

definition calm_inv :: "nat \<Rightarrow> slider \<Rightarrow> bool" where
  "calm_inv n s =
     ((map snd (timers s) \<in> {[], [Set_animate True]} \<and> 1 \<le> idx s \<and> idx s \<le> int n)
      \<or> (idx s = int n + 1 \<and> map snd (timers s) \<in>
           {[Set_animate False, Set_index 1, Set_animate True], [Set_index 1, Set_animate True]})
      \<or> (idx s = 0 \<and> map snd (timers s) \<in>
           {[Set_animate False, Set_index (int n), Set_animate True],
            [Set_index (int n), Set_animate True]}))"

subsection \<open>Sample data\<close>

definition banner_a :: banner where
  "banner_a = \<lparr>banner_id = ''a'', image_url = ''/uploads/a.jpg'', link = None\<rparr>"

definition banner_b :: banner where
  "banner_b = \<lparr>banner_id = ''b'', image_url = ''/uploads/b.jpg'', link = Some ''/sale''\<rparr>"

definition wrapped_slider :: slider where
  "wrapped_slider = \<lparr>idx = 0, animate = True, timers = reset_timers 0 2, now = 0\<rparr>"

subsection \<open>Lemmas\<close>

lemma fold_enqueue_reset [simp]: "fold enqueue (reset_timers t j) [] = reset_timers t j"
  by (simp add: reset_timers_def)

lemma loop_effect_inner [simp]:
  "1 \<le> i \<Longrightarrow> i \<le> int n \<Longrightarrow> loop_effect n i t = []"
  by (simp add: loop_effect_def)

lemma loop_effect_wrap_end [simp]: "loop_effect n (int n + 1) t = reset_timers t 1"
  by (simp add: loop_effect_def)

lemma loop_effect_wrap_start [simp]: "loop_effect n 0 t = reset_timers t (int n)"
  by (simp add: loop_effect_def)

lemma map_snd_reset [simp]:
  "map snd (reset_timers t j) = [Set_animate False, Set_index j, Set_animate True]"
  by (simp add: reset_timers_def)

lemma extended_nth:
  assumes "bs \<noteq> []" and "0 \<le> i" and "i \<le> int (length bs) + 1"
  shows "nth_opt (extended bs) i = Some (bs ! nat ((i - 1) mod int (length bs)))"
proof -
  let ?n = "int (length bs)"
  have len: "length (extended bs) = length bs + 2" by (simp add: extended_def)
  consider "i = 0" | "1 \<le> i \<and> i \<le> ?n" | "i = ?n + 1" using assms(2,3) by linarith
  then show ?thesis
  proof cases
    case 1
    have "(i - 1) mod ?n = ?n - 1" using 1 assms(1) by (simp add: zmod_minus1)
    moreover have "nat (?n - 1) = length bs - 1" by arith
    ultimately show ?thesis using 1 assms(1)
      by (simp add: nth_opt_def len extended_def last_conv_nth nat_diff_distrib)
  next
    case 2
    then have "(i - 1) mod ?n = i - 1" by simp
    moreover have "nat i - Suc 0 < length bs" using 2 by arith
    ultimately show ?thesis using 2
      by (simp add: nth_opt_def len extended_def nth_append nat_diff_distrib)
  next
    case 3
    with assms(1) show ?thesis
      by (simp add: nth_opt_def len extended_def nth_append hd_conv_nth)
  qed
qed


lemma calm_inv_init: "0 < n \<Longrightarrow> calm_inv n init_slider"
  by (simp add: calm_inv_def init_slider_def)

lemma set_index_calm:
  assumes "0 < n" and "1 \<le> idx s" and "idx s \<le> int n" and "timers s = []"
    and "0 \<le> i" and "i \<le> int n + 1"
  shows "calm_inv n (set_index n i s)"
proof -
  consider "i = 0" | "1 \<le> i \<and> i \<le> int n" | "i = int n + 1" using assms(5,6) by linarith
  then show ?thesis
    by cases (use assms in \<open>auto simp: calm_inv_def set_index_def\<close>)
qed

lemma user_step_calm:
  assumes "0 < n" and "calm_inv n s" and "timers s = []"
    and "slider_step n s (Input t e) = Some s'"
  shows "calm_inv n s'"
proof -
  from assms(2,3) have rng: "1 \<le> idx s" "idx s \<le> int n" by (auto simp: calm_inv_def)
  from assms(4) have ok: "event_ok n e" and s': "s' = user_event n e (s\<lparr>now := t\<rparr>)"
    by (auto split: if_splits)
  show ?thesis
    unfolding s' using ok assms(1,3) rng
    by (cases e) (auto intro!: set_index_calm)
qed

lemma timer_step_calm:
  assumes "0 < n" and "calm_inv n s" and "slider_step n s Timer_fires = Some s'"
  shows "calm_inv n s'"
proof -
  from assms(3) obtain d a rest where ts: "timers s = (d, a) # rest"
    and s': "s' = apply_action n a (s\<lparr>now := d, timers := rest\<rparr>)"
    by (auto simp: fire_def split: list.splits)
  from assms(2) ts have "calm_inv n s" by simp
  then show ?thesis
    using assms(1) ts unfolding s'
    by (auto simp: calm_inv_def set_index_def)
qed

lemma calm_reach_inv: "calm_reach n s \<Longrightarrow> 0 < n \<Longrightarrow> calm_inv n s"
proof (induction rule: calm_reach.induct)
  case start
  then show ?case by (rule calm_inv_init)
next
  case (user s t e s')
  then show ?case by (blast intro: user_step_calm)
next
  case (timer s s')
  then show ?case by (blast intro: timer_step_calm)
qed


lemma idx_set_index [simp]: "idx (set_index n i s) = i"
  by (simp add: set_index_def)

lemma calm_inv_range: "calm_inv n s \<Longrightarrow> 0 \<le> idx s \<and> idx s \<le> int n + 1"
  by (auto simp: calm_inv_def)

lemma shown_pos:
  assumes "bs \<noteq> []" and "calm_inv (length bs) s"
  shows "shown bs s = Some (bs ! abs_pos (length bs) s)"
  using extended_nth[OF assms(1)] calm_inv_range[OF assms(2)]
  by (simp add: shown_def abs_pos_def)

lemma timer_step_pos:
  assumes "0 < n" and "calm_inv n s" and "slider_step n s Timer_fires = Some s'"
  shows "abs_pos n s' = abs_pos n s"
proof -
  from assms(3) obtain d a rest where ts: "timers s = (d, a) # rest"
    and s': "s' = apply_action n a (s\<lparr>now := d, timers := rest\<rparr>)"
    by (auto simp: fire_def split: list.splits)
  show ?thesis
    using assms(1,2) ts unfolding s'
    by (auto simp: calm_inv_def abs_pos_def zmod_minus1)
qed

lemma user_step_pos:
  assumes "0 < n" and "slider_step n s (Input t e) = Some s'"
  shows "abs_pos n s' = rotate n e (abs_pos n s)"
proof -
  from assms(2) have ok: "event_ok n e" and s': "s' = user_event n e (s\<lparr>now := t\<rparr>)"
    by (auto split: if_splits)
  show ?thesis
  proof (cases e)
    case Auto_tick
    then show ?thesis unfolding s' abs_pos_def using nat_mod_succ[OF assms(1), of "idx s - 1"] by simp
  next
    case Next_button
    then show ?thesis unfolding s' abs_pos_def using nat_mod_succ[OF assms(1), of "idx s - 1"] by simp
  next
    case Prev_button
    then show ?thesis unfolding s' abs_pos_def using nat_mod_pred[OF assms(1), of "idx s - 1"] by simp
  next
    case (Dot_button k)
    with ok show ?thesis unfolding s' abs_pos_def by simp
  qed
qed


lemma set_enqueue [simp]: "set (enqueue x ys) = insert x (set ys)"
  by (induction ys) auto

lemma set_fold_enqueue [simp]: "set (fold enqueue xs ys) = set xs \<union> set ys"
  by (induction xs arbitrary: ys) auto

lemma wrapped_slider_calm: "calm_reach 2 wrapped_slider"
proof -
  have st: "slider_step 2 init_slider (Input 0 Prev_button) = Some wrapped_slider"
    by (simp add: init_slider_def ready_def set_index_def wrapped_slider_def)
  show ?thesis by (rule calm_reach.user [OF calm_reach.start _ st]) (simp add: init_slider_def)
qed

subsection \<open>Properties of the carousel\<close>

text \<open>
  C15. As long as the user acts only while no jump-back timer is pending, the slide on
  screen is always one of the banners (never a position past the strip), namely the
  banner at the abstract position \<open>abs_pos\<close>; clones show the banner they copy.
\<close>

theorem calm_shown_banner:
  assumes "calm_reach (length bs) s" and "bs \<noteq> []"
  shows "shown bs s = Some (bs ! abs_pos (length bs) s)"
proof -
  from assms have "calm_inv (length bs) s" by (simp add: calm_reach_inv)
  with assms(2) show ?thesis by (rule shown_pos)
qed

theorem calm_shown_banner_witness:
  "shown [banner_a, banner_b] init_slider = Some banner_a"
proof -
  have "shown [banner_a, banner_b] init_slider
      = Some ([banner_a, banner_b] ! abs_pos (length [banner_a, banner_b]) init_slider)"
    by (rule calm_shown_banner [OF calm_reach.start]) simp
  then show ?thesis by (simp add: abs_pos_def init_slider_def)
qed

text \<open>
  C16. In a calm state, the interval tick and the Next button show the next banner,
  Prev the previous one (cyclically), and dot \<open>k\<close> banner \<open>k\<close>: the carousel
  refines a rotation of the banner position.
\<close>

theorem calm_user_input_rotates:
  assumes "calm_reach (length bs) s" and "bs \<noteq> []" and "timers s = []"
    and "slider_step (length bs) s (Input t e) = Some s'"
  shows "shown bs s' = Some (bs ! rotate (length bs) e (abs_pos (length bs) s))"
proof -
  from assms(1,3,4) have "calm_reach (length bs) s'" by (rule calm_reach.user)
  then have "calm_inv (length bs) s'" using assms(2) by (simp add: calm_reach_inv)
  with assms(2) have "shown bs s' = Some (bs ! abs_pos (length bs) s')" by (rule shown_pos)
  moreover have "abs_pos (length bs) s' = rotate (length bs) e (abs_pos (length bs) s)"
    using assms(2,4) by (simp add: user_step_pos)
  ultimately show ?thesis by simp
qed

theorem calm_user_input_rotates_witness:
  "shown [banner_a, banner_b] (set_index 2 2 (init_slider\<lparr>now := 0\<rparr>)) = Some banner_b"
proof -
  have step: "slider_step (length [banner_a, banner_b]) init_slider (Input 0 Auto_tick)
      = Some (set_index 2 2 (init_slider\<lparr>now := 0\<rparr>))"
    by (simp add: init_slider_def ready_def numeral_2_eq_2)
  have "shown [banner_a, banner_b] (set_index 2 2 (init_slider\<lparr>now := 0\<rparr>))
      = Some ([banner_a, banner_b] ! rotate (length [banner_a, banner_b]) Auto_tick
               (abs_pos (length [banner_a, banner_b]) init_slider))"
    by (rule calm_user_input_rotates [OF calm_reach.start _ _ step]) (simp_all add: init_slider_def)
  then show ?thesis by (simp add: abs_pos_def init_slider_def)
qed

text \<open>
  C17. In a calm run, a timer firing (the animation toggles and the jump from a clone
  back to the real slide) never changes the banner on screen.
\<close>

theorem calm_timer_keeps_banner:
  assumes "calm_reach (length bs) s" and "bs \<noteq> []"
    and "slider_step (length bs) s Timer_fires = Some s'"
  shows "shown bs s' = shown bs s"
proof -
  have s': "calm_reach (length bs) s'" using assms(1,3) by (rule calm_reach.timer)
  have inv: "calm_inv (length bs) s" "calm_inv (length bs) s'"
    using assms(1,2) s' by (simp_all add: calm_reach_inv)
  have "abs_pos (length bs) s' = abs_pos (length bs) s"
    using assms(2,3) inv(1) by (simp add: timer_step_pos)
  then show ?thesis using shown_pos[OF assms(2) inv(1)] shown_pos[OF assms(2) inv(2)] by simp
qed

theorem calm_timer_keeps_banner_witness:
  "shown [banner_a, banner_b] (wrapped_slider\<lparr>now := 690, timers := tl (reset_timers 0 2), animate := False\<rparr>)
     = shown [banner_a, banner_b] wrapped_slider"
proof -
  let ?n = "length [banner_a, banner_b]"
  have r: "calm_reach ?n wrapped_slider" using wrapped_slider_calm by (simp add: numeral_2_eq_2)
  have fi: "slider_step ?n wrapped_slider Timer_fires
     = Some (wrapped_slider\<lparr>now := 690, timers := tl (reset_timers 0 2), animate := False\<rparr>)"
    by (simp add: fire_def wrapped_slider_def reset_timers_def)
  show ?thesis by (rule calm_timer_keeps_banner [OF r _ fi]) simp
qed

text \<open>
  C18. The loop logic only recognises the exact clone positions. In every calm run, while
  the carousel stands on a clone waiting for its jump back, a timer is pending, and the
  input that moves away from the strip's middle (Next or a tick on the trailing clone,
  Prev on the leading one) moves the index past the strip: no banner is shown until the
  pending timer resets it.
\<close>

theorem next_during_wrap_leaves_strip:
  assumes "calm_reach (length bs) s" and "bs \<noteq> []" and "idx s = int (length bs) + 1 \<or> idx s = 0"
  shows "timers s \<noteq> []
    \<and> (if idx s = 0 then shown bs (user_event (length bs) Prev_button s) = None
       else shown bs (user_event (length bs) Next_button s) = None
            \<and> shown bs (user_event (length bs) Auto_tick s) = None)"
proof -
  have "calm_inv (length bs) s" using assms(1,2) by (simp add: calm_reach_inv)
  then have "timers s \<noteq> []" using assms(3) by (auto simp: calm_inv_def)
  then show ?thesis
    using assms(3) by (auto simp: shown_def extended_def nth_opt_def)
qed

theorem next_during_wrap_leaves_strip_witness:
  "timers wrapped_slider \<noteq> [] \<and> shown [banner_a, banner_b] (user_event 2 Prev_button wrapped_slider) = None"
proof -
  have r: "calm_reach (length [banner_a, banner_b]) wrapped_slider"
    using wrapped_slider_calm by (simp add: numeral_2_eq_2)
  have "idx wrapped_slider = 0" by (simp add: wrapped_slider_def)
  with next_during_wrap_leaves_strip [OF r] show ?thesis by (simp add: numeral_2_eq_2)
qed

text \<open>
  C19. The jump-back timers are never cancelled: no user input (tick, Next, Prev, dot)
  removes a pending timer, so a timer scheduled by the loop effect always fires later,
  whatever the user chose meanwhile (\<open>dot_click_overridden\<close> shows a dot choice undone
  this way).
\<close>

theorem user_input_keeps_timers:
  assumes "x \<in> set (timers s)"
  shows "x \<in> set (timers (user_event n e s))"
  using assms by (cases e) (simp_all add: set_index_def)

theorem user_input_keeps_timers_witness:
  "(700, Set_index 2) \<in> set (timers (user_event 2 (Dot_button 1) wrapped_slider))"
  by (rule user_input_keeps_timers) (simp add: wrapped_slider_def reset_timers_def)

text \<open>A dot clicked while the jump back from the trailing clone is pending: the dot's
  banner is shown at first, and 600 ms later the pending timer moves the carousel to the
  first banner.\<close>

lemma dot_click_overridden:
  "slider_run 2 init_slider [Input 0 Auto_tick, Input 5000 Auto_tick, Input 5100 (Dot_button 1)]
     = Some \<lparr>idx = 2, animate = True, timers = reset_timers 5000 1, now = 5100\<rparr>
   \<and> shown [banner_a, banner_b] \<lparr>idx = 2, animate = True, timers = reset_timers 5000 1, now = 5100\<rparr>
       = Some banner_b
   \<and> slider_run 2 \<lparr>idx = 2, animate = True, timers = reset_timers 5000 1, now = 5100\<rparr>
       [Timer_fires, Timer_fires, Timer_fires]
     = Some \<lparr>idx = 1, animate = True, timers = [], now = 5710\<rparr>
   \<and> shown [banner_a, banner_b] \<lparr>idx = 1, animate = True, timers = [], now = 5710\<rparr> = Some banner_a"
  by (simp add: init_slider_def ready_def set_index_def loop_effect_def reset_timers_def
      fire_def shown_def extended_def nth_opt_def)

end
