(* ===== verification/JsNumber.thy ===== *)
theory JsNumber
  imports Complex_Main Prelude
begin

text \<open>
  The JavaScript number primitives the form code calls: \<open>parseInt(s)\<close> (no radix: a
  \<open>0x\<close> prefix selects base 16), \<open>parseFloat(s)\<close>, truthiness of a number and
  \<open>x || d\<close>, and the JSON value \<open>JSON.stringify\<close> writes for a number (\<open>NaN\<close> and
  the infinities become \<open>null\<close>). Numbers are kept exact (\<open>rat\<close>); the rounding to a
  64-bit double is not modelled, and \<open>-0\<close> is 0 (its JSON text is \<open>0\<close> as well).
  \<open>decimal n\<close> is \<open>String(n)\<close> for a natural number; the round-trip lemmas show
  both parsers read it back.
\<close>

datatype js_num = Finite rat | NaN | Infinite bool

datatype json = JNull | JBool bool | JStr string | JNum rat

subsection \<open>Digits\<close>

definition is_digit :: "char \<Rightarrow> bool" where
  "is_digit c = (48 \<le> (of_char c :: nat) \<and> (of_char c :: nat) \<le> 57)"

definition digit_val :: "char \<Rightarrow> nat" where
  "digit_val c = of_char c - 48"

definition is_hex :: "char \<Rightarrow> bool" where
  "is_hex c = (is_digit c \<or> (97 \<le> (of_char c :: nat) \<and> (of_char c :: nat) \<le> 102)
     \<or> (65 \<le> (of_char c :: nat) \<and> (of_char c :: nat) \<le> 70))"

definition hex_val :: "char \<Rightarrow> nat" where
  "hex_val c = (if is_digit c then digit_val c
     else if 97 \<le> (of_char c :: nat) then of_char c - 87 else of_char c - 55)"

definition digits_in :: "nat \<Rightarrow> (char \<Rightarrow> nat) \<Rightarrow> string \<Rightarrow> nat" where
  "digits_in base val ds = foldl (\<lambda>a c. base * a + val c) 0 ds"

definition sign_split :: "string \<Rightarrow> bool \<times> string" where
  "sign_split s = (case s of [] \<Rightarrow> (False, [])
     | c # r \<Rightarrow> if c = CHR ''-'' then (True, r) else if c = CHR ''+'' then (False, r) else (False, s))"

subsection \<open>parseInt and parseFloat\<close>

definition parse_int :: "string \<Rightarrow> js_num" where
  "parse_int s =
     (let (neg, s2) = sign_split (dropWhile js_space s);
          hex = (starts_with s2 ''0x'' \<or> starts_with s2 ''0X'');
          s3 = (if hex then drop 2 s2 else s2);
          ds = (if hex then takeWhile is_hex s3 else takeWhile is_digit s3)
      in if ds = [] then NaN
         else let v = (if hex then digits_in 16 hex_val ds else digits_in 10 digit_val ds)
              in Finite (if neg then - of_nat v else of_nat v))"

definition exponent_part :: "string \<Rightarrow> int" where
  "exponent_part r = (case r of [] \<Rightarrow> 0
     | c # r' \<Rightarrow>
         if c = CHR ''e'' \<or> c = CHR ''E'' then
           (let (neg, r'') = sign_split r'; ds = takeWhile is_digit r''
            in if ds = [] then 0
               else if neg then - int (digits_in 10 digit_val ds) else int (digits_in 10 digit_val ds))
         else 0)"

definition scale10 :: "rat \<Rightarrow> int \<Rightarrow> rat" where
  "scale10 x e = (if 0 \<le> e then x * 10 ^ nat e else x / 10 ^ nat (- e))"

definition parse_float :: "string \<Rightarrow> js_num" where
  "parse_float s =
     (let (neg, s2) = sign_split (dropWhile js_space s) in
      if starts_with s2 ''Infinity'' then Infinite neg
      else
        let ip = takeWhile is_digit s2; r1 = dropWhile is_digit s2;
            (fp, r2) = (case r1 of [] \<Rightarrow> ([], [])
                        | c # r \<Rightarrow> if c = CHR ''.'' then (takeWhile is_digit r, dropWhile is_digit r)
                                   else ([], r1))
        in if ip = [] \<and> fp = [] then NaN
           else let v = scale10 (of_nat (digits_in 10 digit_val (ip @ fp)) / 10 ^ length fp)
                                (exponent_part r2)
                in Finite (if neg then - v else v))"

subsection \<open>Truthiness, defaults and JSON\<close>

fun num_truthy :: "js_num \<Rightarrow> bool" where
  "num_truthy (Finite r) = (r \<noteq> 0)"
| "num_truthy NaN = False"
| "num_truthy (Infinite b) = True"

definition num_or :: "js_num \<Rightarrow> js_num \<Rightarrow> js_num" where
  "num_or x d = (if num_truthy x then x else d)"

fun num_json :: "js_num \<Rightarrow> json" where
  "num_json (Finite r) = JNum r"
| "num_json NaN = JNull"
| "num_json (Infinite b) = JNull"

subsection \<open>String(n)\<close>

definition digit_char :: "nat \<Rightarrow> char" where
  "digit_char d = char_of (48 + d)"

fun decimal :: "nat \<Rightarrow> string" where
  "decimal n = (if n < 10 then [digit_char n] else decimal (n div 10) @ [digit_char (n mod 10)])"

declare decimal.simps [simp del]

subsection \<open>Reading back String(n)\<close>

lemma digit_char_props:
  assumes "d < 10"
  shows "is_digit (digit_char d)" and "digit_val (digit_char d) = d"
  using assms by (simp_all add: is_digit_def digit_val_def digit_char_def of_char_of)

lemma decimal_digits: "\<forall>c \<in> set (decimal n). is_digit c"
  by (induction n rule: decimal.induct) (subst decimal.simps, simp add: digit_char_props)

lemma decimal_nonempty: "decimal n \<noteq> []"
  by (subst decimal.simps) simp

lemma digits_in_snoc: "digits_in b v (xs @ [c]) = b * digits_in b v xs + v c"
  by (simp add: digits_in_def)

lemma digits_in_decimal: "digits_in 10 digit_val (decimal n) = n"
proof (induction n rule: decimal.induct)
  case (1 n)
  show ?case
  proof (cases "n < 10")
    case True
    then show ?thesis by (subst decimal.simps) (simp add: digits_in_def digit_char_props)
  next
    case False
    with "1.IH" have "digits_in 10 digit_val (decimal (n div 10)) = n div 10" by simp
    with False show ?thesis
      by (subst decimal.simps) (simp add: digits_in_snoc digit_char_props)
  qed
qed

lemma digit_not_space: "is_digit c \<Longrightarrow> \<not> js_space c"
  by (auto simp: is_digit_def js_space_def)

lemma all_digits_clean:
  assumes "\<forall>c \<in> set s. is_digit c" and "s \<noteq> []"
  shows "dropWhile js_space s = s" and "sign_split s = (False, s)"
    and "\<not> starts_with s ''0x''" and "\<not> starts_with s ''0X''"
    and "\<not> starts_with s ''Infinity''"
    and "takeWhile is_digit s = s" and "dropWhile is_digit s = []"
proof -
  obtain c r where s: "s = c # r" using assms(2) by (cases s) auto
  have c: "is_digit c" using assms(1) s by simp
  show "dropWhile js_space s = s" using s c by (simp add: digit_not_space)
  show "sign_split s = (False, s)" using s c by (auto simp: sign_split_def is_digit_def)
  show "\<not> starts_with s ''0x''" "\<not> starts_with s ''0X''"
    using assms(1) by (auto simp: starts_with_prefix prefix_def is_digit_def)
  show "\<not> starts_with s ''Infinity''"
    using s c by (auto simp: is_digit_def)
  show "takeWhile is_digit s = s" "dropWhile is_digit s = []"
    using assms(1) by (simp_all add: takeWhile_eq_all_conv dropWhile_eq_Nil_conv)
qed

lemma parse_int_decimal: "parse_int (decimal n) = Finite (of_nat n)"
proof -
  note c = all_digits_clean[OF decimal_digits decimal_nonempty, of n]
  show ?thesis
    by (simp add: parse_int_def Let_def c decimal_nonempty digits_in_decimal)
qed

lemma parse_float_decimal: "parse_float (decimal n) = Finite (of_nat n)"
proof -
  note c = all_digits_clean[OF decimal_digits decimal_nonempty, of n]
  show ?thesis
    by (simp add: parse_float_def Let_def c decimal_nonempty digits_in_decimal
        scale10_def exponent_part_def)
qed

lemma decimal_inj: "decimal m = decimal n \<Longrightarrow> m = n"
  by (metis digits_in_decimal)

end
