(* ===== verification/ProductForm.thy ===== *)
theory ProductForm
  imports Session JsNumber
begin

text \<open>
  The product creation page \<open>src/app/admin/products/add/page.tsx\<close>. Its state is the
  \<open>formData\<close> object (the scalar fields as a map from field name to a string or a
  boolean, the five array fields as lists), the two search boxes and the attribute
  list. Every handler of the page is a function on that state, in the order the
  file declares them; \<open>product_data\<close> is the object \<open>handleSubmit\<close> builds and
  \<open>JSON.stringify\<close>s, and \<open>submit_request\<close>/\<open>submit_reply\<close> are the two halves of
  \<open>handleSubmit\<close> around the \<open>fetch\<close>. The clock (\<open>Date.now()\<close>) and the
  object URLs of uploaded files are parameters.
\<close>

subsection \<open>State\<close>

text \<open>A scalar field of \<open>formData\<close> holds a string or, for a checkbox, a boolean;
  \<open>None\<close> is \<open>undefined\<close> (a name the object does not have).\<close>

datatype fval = FStr string | FBool bool

type_synonym form = "string \<Rightarrow> fval option"

record image =
  img_id :: string
  img_url :: string
  alt_text :: string
  img_order :: rat

record spec =
  spec_id :: string
  spec_name :: string
  spec_value :: string
  spec_order :: rat

record attribute =
  attr_id :: string
  attr_name :: string
  attr_values :: "string list"

record product_page =
  form_data :: form
  related_products :: "string list"
  cross_sell_products :: "string list"
  product_images :: "image list"
  video_urls :: "string list"
  specifications :: "spec list"
  search_term :: string
  search_term_cross :: string
  attributes :: "attribute list"

record product_option =
  p_id :: string
  p_name :: string
  p_sku :: string
  p_price :: string

definition available_products :: "product_option list" where
  \<open>available_products =
     [\<lparr>p_id = ''1'', p_name = ''Wireless Headphones'', p_sku = ''WH-001'', p_price = ''$299''\<rparr>,
      \<lparr>p_id = ''2'', p_name = ''Smart Watch Pro'', p_sku = ''SW-002'', p_price = ''$399''\<rparr>,
      \<lparr>p_id = ''3'', p_name = ''Laptop Stand'', p_sku = ''LS-003'', p_price = ''$49''\<rparr>,
      \<lparr>p_id = ''4'', p_name = ''USB-C Hub'', p_sku = ''UCH-004'', p_price = ''$79''\<rparr>,
      \<lparr>p_id = ''5'', p_name = ''Mechanical Keyboard'', p_sku = ''MK-005'', p_price = ''$149''\<rparr>,
      \<lparr>p_id = ''6'', p_name = ''Wireless Mouse'', p_sku = ''WM-006'', p_price = ''$59''\<rparr>,
      \<lparr>p_id = ''7'', p_name = ''Monitor 27"'', p_sku = ''MON-007'', p_price = ''$349''\<rparr>,
      \<lparr>p_id = ''8'', p_name = ''Webcam HD'', p_sku = ''WC-008'', p_price = ''$89''\<rparr>]\<close>

text \<open>The scalar part of the \<open>useState\<close> initialiser, field by field.\<close>

definition init_form_fields :: "(string \<times> fval) list" where
  "init_form_fields =
    [(''name'', FStr ''''),
     (''shortDescription'', FStr ''''),
     (''fullDescription'', FStr ''''),
     (''sku'', FStr ''''),
     (''categories'', FStr ''''),
     (''manufacturer'', FStr ''''),
     (''published'', FBool True),
     (''productType'', FStr ''simple''),
     (''visibleIndividually'', FBool True),
     (''customerRoles'', FStr ''all''),
     (''limitedToStores'', FBool False),
     (''vendorId'', FStr ''''),
     (''requireOtherProducts'', FBool False),
     (''requiredProductIds'', FStr ''''),
     (''automaticallyAddProducts'', FBool False),
     (''showOnHomepage'', FBool False),
     (''displayOrder'', FStr ''1''),
     (''productTags'', FStr ''''),
     (''gtin'', FStr ''''),
     (''manufacturerPartNumber'', FStr ''''),
     (''adminComment'', FStr ''''),
     (''price'', FStr ''''),
     (''oldPrice'', FStr ''''),
     (''cost'', FStr ''''),
     (''disableBuyButton'', FBool False),
     (''disableWishlistButton'', FBool False),
     (''availableForPreOrder'', FBool False),
     (''preOrderAvailabilityStartDate'', FStr ''''),
     (''callForPrice'', FBool False),
     (''customerEntersPrice'', FBool False),
     (''minimumCustomerEnteredPrice'', FStr ''''),
     (''maximumCustomerEnteredPrice'', FStr ''''),
     (''basepriceEnabled'', FBool False),
     (''basepriceAmount'', FStr ''''),
     (''basepriceUnit'', FStr ''''),
     (''basepriceBaseAmount'', FStr ''''),
     (''basepriceBaseUnit'', FStr ''''),
     (''markAsNew'', FBool False),
     (''markAsNewStartDate'', FStr ''''),
     (''markAsNewEndDate'', FStr ''''),
     (''hasDiscountsApplied'', FBool False),
     (''availableStartDate'', FStr ''''),
     (''availableEndDate'', FStr ''''),
     (''taxExempt'', FBool False),
     (''taxCategoryId'', FStr ''''),
     (''telecommunicationsBroadcastingElectronicServices'', FBool False),
     (''metaTitle'', FStr ''''),
     (''metaKeywords'', FStr ''''),
     (''metaDescription'', FStr ''''),
     (''searchEngineFriendlyPageName'', FStr ''''),
     (''manageInventory'', FStr ''track''),
     (''stockQuantity'', FStr ''''),
     (''displayStockAvailability'', FBool True),
     (''displayStockQuantity'', FBool False),
     (''minStockQuantity'', FStr ''''),
     (''lowStockActivity'', FStr ''nothing''),
     (''notifyAdminForQuantityBelow'', FStr ''''),
     (''backorders'', FStr ''no-backorders''),
     (''allowBackInStockSubscriptions'', FBool False),
     (''productAvailabilityRange'', FStr ''''),
     (''minCartQuantity'', FStr ''1''),
     (''maxCartQuantity'', FStr ''10000''),
     (''allowedQuantities'', FStr ''''),
     (''allowAddingOnlyExistingAttributeCombinations'', FBool False),
     (''notReturnable'', FBool False),
     (''isShipEnabled'', FBool True),
     (''isFreeShipping'', FBool False),
     (''shipSeparately'', FBool False),
     (''additionalShippingCharge'', FStr ''''),
     (''deliveryDateId'', FStr ''''),
     (''weight'', FStr ''''),
     (''length'', FStr ''''),
     (''width'', FStr ''''),
     (''height'', FStr ''''),
     (''isGiftCard'', FBool False),
     (''giftCardType'', FStr ''virtual''),
     (''overriddenGiftCardAmount'', FStr ''''),
     (''isDownload'', FBool False),
     (''downloadId'', FStr ''''),
     (''unlimitedDownloads'', FBool True),
     (''maxNumberOfDownloads'', FStr ''''),
     (''downloadExpirationDays'', FStr ''''),
     (''downloadActivationType'', FStr ''when-order-is-paid''),
     (''hasUserAgreement'', FBool False),
     (''userAgreementText'', FStr ''''),
     (''hasSampleDownload'', FBool False),
     (''sampleDownloadId'', FStr ''''),
     (''isRecurring'', FBool False),
     (''recurringCycleLength'', FStr ''''),
     (''recurringCyclePeriod'', FStr ''days''),
     (''recurringTotalCycles'', FStr ''''),
     (''isRental'', FBool False),
     (''rentalPriceLength'', FStr ''''),
     (''rentalPricePeriod'', FStr ''days'')]"

definition init_form :: form where
  "init_form = map_of init_form_fields"

definition init_product_page :: product_page where
  "init_product_page =
     \<lparr>form_data = init_form, related_products = [], cross_sell_products = [],
      product_images = [], video_urls = [], specifications = [],
      search_term = [], search_term_cross = [], attributes = []\<rparr>"

subsection \<open>Reading a field\<close>

fun fv_truthy :: "fval option \<Rightarrow> bool" where
  "fv_truthy None = False"
| "fv_truthy (Some (FStr s)) = (s \<noteq> [])"
| "fv_truthy (Some (FBool b)) = b"

text \<open>\<open>String(v)\<close>, the argument \<open>parseInt\<close> and \<open>parseFloat\<close> convert their input to.\<close>

fun fv_str :: "fval option \<Rightarrow> string" where
  "fv_str None = ''undefined''"
| "fv_str (Some (FStr s)) = s"
| "fv_str (Some (FBool b)) = (if b then ''true'' else ''false'')"

text \<open>The JSON of a field as an object member: \<open>None\<close> is \<open>undefined\<close>, which
  \<open>JSON.stringify\<close> leaves out.\<close>

fun fv_json :: "fval option \<Rightarrow> json option" where
  "fv_json None = None"
| "fv_json (Some (FStr s)) = Some (JStr s)"
| "fv_json (Some (FBool b)) = Some (JBool b)"

definition fv_or :: "fval option \<Rightarrow> json \<Rightarrow> json option" where
  "fv_or v d = (if fv_truthy v then fv_json v else Some d)"

text \<open>\<open>parseInt(s) || d\<close> and \<open>parseFloat(s) || d\<close> for a number \<open>d\<close>, as a number.\<close>

definition int_or :: "string \<Rightarrow> rat \<Rightarrow> js_num" where
  "int_or s d = num_or (parse_int s) (Finite d)"

definition float_or :: "string \<Rightarrow> rat \<Rightarrow> js_num" where
  "float_or s d = num_or (parse_float s) (Finite d)"

fun num_rat :: "js_num \<Rightarrow> rat" where
  "num_rat (Finite r) = r"
| "num_rat NaN = 0"
| "num_rat (Infinite b) = 0"

subsection \<open>Handlers\<close>

text \<open>\<open>handleChange\<close>: \<open>[name]: type === 'checkbox' ? checked : value\<close>.\<close>

definition handle_change_product :: "string \<Rightarrow> string \<Rightarrow> string \<Rightarrow> bool \<Rightarrow> product_page \<Rightarrow> product_page" where
  "handle_change_product name value typ checked pg =
     pg\<lparr>form_data := (form_data pg)(name \<mapsto> (if typ = ''checkbox'' then FBool checked else FStr value))\<rparr>"

definition add_related_product :: "string \<Rightarrow> product_page \<Rightarrow> product_page" where
  "add_related_product pid pg =
     (let pg' = (if pid \<notin> set (related_products pg)
                 then pg\<lparr>related_products := related_products pg @ [pid]\<rparr> else pg)
      in pg'\<lparr>search_term := []\<rparr>)"

definition remove_related_product :: "string \<Rightarrow> product_page \<Rightarrow> product_page" where
  "remove_related_product pid pg =
     pg\<lparr>related_products := filter (\<lambda>i. i \<noteq> pid) (related_products pg)\<rparr>"

definition add_cross_sell_product :: "string \<Rightarrow> product_page \<Rightarrow> product_page" where
  "add_cross_sell_product pid pg =
     (let pg' = (if pid \<notin> set (cross_sell_products pg)
                 then pg\<lparr>cross_sell_products := cross_sell_products pg @ [pid]\<rparr> else pg)
      in pg'\<lparr>search_term_cross := []\<rparr>)"

definition remove_cross_sell_product :: "string \<Rightarrow> product_page \<Rightarrow> product_page" where
  "remove_cross_sell_product pid pg =
     pg\<lparr>cross_sell_products := filter (\<lambda>i. i \<noteq> pid) (cross_sell_products pg)\<rparr>"

definition filtered_products :: "string \<Rightarrow> product_option list" where
  "filtered_products term =
     filter (\<lambda>p. str_includes (to_lower (p_name p)) (to_lower term)
                \<or> str_includes (to_lower (p_sku p)) (to_lower term)) available_products"

definition add_attribute :: "nat \<Rightarrow> product_page \<Rightarrow> product_page" where
  "add_attribute now pg =
     pg\<lparr>attributes := attributes pg @ [\<lparr>attr_id = decimal now, attr_name = [], attr_values = [[]]\<rparr>]\<rparr>"

definition remove_attribute :: "string \<Rightarrow> product_page \<Rightarrow> product_page" where
  "remove_attribute aid pg = pg\<lparr>attributes := filter (\<lambda>a. attr_id a \<noteq> aid) (attributes pg)\<rparr>"

definition update_attribute_name :: "string \<Rightarrow> string \<Rightarrow> product_page \<Rightarrow> product_page" where
  "update_attribute_name aid name pg =
     pg\<lparr>attributes := map (\<lambda>a. if attr_id a = aid then a\<lparr>attr_name := name\<rparr> else a) (attributes pg)\<rparr>"

text \<open>\<open>newValues[valueIndex] = value\<close>; the page calls it with the index of a rendered
  value only, so the index is always inside the array.\<close>

definition update_attribute_value :: "string \<Rightarrow> nat \<Rightarrow> string \<Rightarrow> product_page \<Rightarrow> product_page" where
  "update_attribute_value aid k v pg =
     pg\<lparr>attributes := map (\<lambda>a. if attr_id a = aid then a\<lparr>attr_values := (attr_values a)[k := v]\<rparr> else a)
                        (attributes pg)\<rparr>"

definition add_attribute_value :: "string \<Rightarrow> product_page \<Rightarrow> product_page" where
  "add_attribute_value aid pg =
     pg\<lparr>attributes := map (\<lambda>a. if attr_id a = aid then a\<lparr>attr_values := attr_values a @ [[]]\<rparr> else a)
                        (attributes pg)\<rparr>"

definition remove_attribute_value :: "string \<Rightarrow> nat \<Rightarrow> product_page \<Rightarrow> product_page" where
  "remove_attribute_value aid k pg =
     pg\<lparr>attributes := map (\<lambda>a. if attr_id a = aid then a\<lparr>attr_values := drop_index k (attr_values a)\<rparr> else a)
                        (attributes pg)\<rparr>"

text \<open>\<open>handleImageUpload\<close>: the selected files are given by their object URLs
  (\<open>URL.createObjectURL\<close>), in selection order.\<close>

definition new_images :: "nat \<Rightarrow> nat \<Rightarrow> string list \<Rightarrow> image list" where
  "new_images now n urls =
     map (\<lambda>(index, url). \<lparr>img_id = decimal now @ ''-'' @ decimal index, img_url = url, alt_text = [],
                          img_order = of_nat (n + index + 1)\<rparr>) (enumerate 0 urls)"

definition handle_image_upload :: "nat \<Rightarrow> string list \<Rightarrow> product_page \<Rightarrow> product_page" where
  "handle_image_upload now urls pg =
     (if urls \<noteq> [] then
        pg\<lparr>product_images := product_images pg @ new_images now (length (product_images pg)) urls\<rparr>
      else pg)"

definition remove_image :: "string \<Rightarrow> product_page \<Rightarrow> product_page" where
  "remove_image iid pg = pg\<lparr>product_images := filter (\<lambda>i. img_id i \<noteq> iid) (product_images pg)\<rparr>"

text \<open>The handlers written inline in the pictures, videos and specifications tabs.\<close>

definition set_image_alt :: "string \<Rightarrow> string \<Rightarrow> product_page \<Rightarrow> product_page" where
  "set_image_alt iid v pg =
     pg\<lparr>product_images := map (\<lambda>i. if img_id i = iid then i\<lparr>alt_text := v\<rparr> else i) (product_images pg)\<rparr>"

definition set_image_order :: "string \<Rightarrow> string \<Rightarrow> product_page \<Rightarrow> product_page" where
  "set_image_order iid v pg =
     pg\<lparr>product_images := map (\<lambda>i. if img_id i = iid then i\<lparr>img_order := num_rat (int_or v 0)\<rparr> else i)
                            (product_images pg)\<rparr>"

definition set_video_url :: "nat \<Rightarrow> string \<Rightarrow> product_page \<Rightarrow> product_page" where
  "set_video_url k v pg = pg\<lparr>video_urls := (video_urls pg)[k := v]\<rparr>"

definition remove_video :: "nat \<Rightarrow> product_page \<Rightarrow> product_page" where
  "remove_video k pg = pg\<lparr>video_urls := drop_index k (video_urls pg)\<rparr>"

definition add_video :: "product_page \<Rightarrow> product_page" where
  "add_video pg = pg\<lparr>video_urls := video_urls pg @ [[]]\<rparr>"

definition add_specification :: "nat \<Rightarrow> product_page \<Rightarrow> product_page" where
  "add_specification now pg =
     pg\<lparr>specifications := specifications pg @
        [\<lparr>spec_id = decimal now, spec_name = [], spec_value = [],
          spec_order = of_nat (length (specifications pg) + 1)\<rparr>]\<rparr>"

definition set_spec_name :: "string \<Rightarrow> string \<Rightarrow> product_page \<Rightarrow> product_page" where
  "set_spec_name sid v pg =
     pg\<lparr>specifications := map (\<lambda>s. if spec_id s = sid then s\<lparr>spec_name := v\<rparr> else s) (specifications pg)\<rparr>"

definition set_spec_value :: "string \<Rightarrow> string \<Rightarrow> product_page \<Rightarrow> product_page" where
  "set_spec_value sid v pg =
     pg\<lparr>specifications := map (\<lambda>s. if spec_id s = sid then s\<lparr>spec_value := v\<rparr> else s) (specifications pg)\<rparr>"

definition set_spec_order :: "string \<Rightarrow> string \<Rightarrow> product_page \<Rightarrow> product_page" where
  "set_spec_order sid v pg =
     pg\<lparr>specifications := map (\<lambda>s. if spec_id s = sid then s\<lparr>spec_order := num_rat (int_or v 0)\<rparr> else s)
                           (specifications pg)\<rparr>"

definition remove_specification :: "string \<Rightarrow> product_page \<Rightarrow> product_page" where
  "remove_specification sid pg =
     pg\<lparr>specifications := filter (\<lambda>s. spec_id s \<noteq> sid) (specifications pg)\<rparr>"

subsection \<open>The submitted product\<close>

text \<open>\<open>/^[0-9a-f]{8}-[0-9a-f]{4}-[0-9a-f]{4}-[0-9a-f]{4}-[0-9a-f]{12}$/i\<close>: runs of
  hexadecimal digits of the given lengths separated by single hyphens.\<close>

fun hex_groups :: "nat list \<Rightarrow> string \<Rightarrow> bool" where
  "hex_groups [] s = (s = [])"
| "hex_groups [n] s = (length s = n \<and> list_all is_hex s)"
| "hex_groups (n # m # ns) s =
     (n < length s \<and> list_all is_hex (take n s) \<and> s ! n = CHR ''-''
      \<and> hex_groups (m # ns) (drop (Suc n) s))"

definition is_guid :: "string \<Rightarrow> bool" where
  "is_guid s = hex_groups [8, 4, 4, 4, 12] s"

text \<open>The \<open>categoryId\<close> preparation. \<open>formData.categories.trim()\<close> on a truthy value
  that is not a string throws a \<open>TypeError\<close> (\<open>None\<close> here), which the surrounding
  \<open>try\<close> catches.\<close>

definition category_id :: "form \<Rightarrow> json option" where
  "category_id f =
     (case f ''categories'' of
        Some (FStr c) \<Rightarrow>
          (if c \<noteq> [] then (let t = trim c in if t \<noteq> [] \<and> is_guid t then Some (JStr t) else Some JNull)
           else Some JNull)
      | Some (FBool True) \<Rightarrow> None
      | _ \<Rightarrow> Some JNull)"

definition ids_json :: "string list \<Rightarrow> json" where
  "ids_json xs = (if xs \<noteq> [] then JStr (join '','' xs) else JNull)"

definition product_data :: "product_page \<Rightarrow> bool \<Rightarrow> json \<Rightarrow> (string \<times> json option) list" where
  "product_data pg is_draft cat =
     (let f = form_data pg in
      [(''name'', fv_json (f ''name'')),
       (''description'',
          if fv_truthy (f ''fullDescription'') then fv_json (f ''fullDescription'')
          else if fv_truthy (f ''shortDescription'') then fv_json (f ''shortDescription'')
          else fv_or (f ''name'') (JStr ''Product description'')),
       (''shortDescription'', fv_or (f ''shortDescription'') (JStr [])),
       (''sku'', fv_json (f ''sku'')),
       (''gtin'', fv_or (f ''gtin'') JNull),
       (''manufacturerPartNumber'', fv_or (f ''manufacturerPartNumber'') JNull),
       (''displayOrder'', Some (num_json (int_or (fv_str (f ''displayOrder'')) 1))),
       (''adminComment'', fv_or (f ''adminComment'') JNull),
       (''price'', Some (num_json (float_or (fv_str (f ''price'')) 0))),
       (''oldPrice'', Some (if fv_truthy (f ''oldPrice'') then num_json (parse_float (fv_str (f ''oldPrice''))) else JNull)),
       (''compareAtPrice'', Some (if fv_truthy (f ''oldPrice'') then num_json (parse_float (fv_str (f ''oldPrice''))) else JNull)),
       (''costPrice'', Some (if fv_truthy (f ''cost'') then num_json (parse_float (fv_str (f ''cost''))) else JNull)),
       (''weight'', Some (num_json (float_or (fv_str (f ''weight'')) 0))),
       (''length'', Some (if fv_truthy (f ''length'') then num_json (parse_float (fv_str (f ''length''))) else JNull)),
       (''width'', Some (if fv_truthy (f ''width'') then num_json (parse_float (fv_str (f ''width''))) else JNull)),
       (''height'', Some (if fv_truthy (f ''height'') then num_json (parse_float (fv_str (f ''height''))) else JNull)),
       (''requiresShipping'', Some (JBool True)),
       (''stockQuantity'', Some (num_json (int_or (fv_str (f ''stockQuantity'')) 0))),
       (''trackQuantity'', Some (JBool True)),
       (''categoryId'', Some cat),
       (''availableStartDate'', fv_or (f ''availableStartDate'') JNull),
       (''availableEndDate'', fv_or (f ''availableEndDate'') JNull),
       (''isPublished'', if is_draft then Some (JBool False) else fv_json (f ''published'')),
       (''status'', Some (JNum (if is_draft then 1 else 2))),
       (''visibleIndividually'', fv_json (f ''visibleIndividually'')),
       (''showOnHomepage'', fv_or (f ''showOnHomepage'') (JBool False)),
       (''metaTitle'', fv_or (f ''metaTitle'') JNull),
       (''metaDescription'', fv_or (f ''metaDescription'') JNull),
       (''metaKeywords'', fv_or (f ''metaKeywords'') JNull),
       (''brandId'', Some JNull),
       (''manufacturerId'', Some JNull),
       (''manufacturer'', fv_or (f ''manufacturer'') JNull),
       (''vendor'', fv_or (f ''manufacturer'') JNull),
       (''tags'', fv_or (f ''productTags'') JNull),
       (''relatedProductIds'', Some (ids_json (related_products pg))),
       (''crossSellProductIds'', Some (ids_json (cross_sell_products pg)))])"

text \<open>\<open>JSON.stringify\<close> of an object leaves out the members whose value is \<open>undefined\<close>.\<close>

fun stringify_obj :: "(string \<times> json option) list \<Rightarrow> (string \<times> json) list" where
  "stringify_obj [] = []"
| "stringify_obj ((k, None) # kvs) = stringify_obj kvs"
| "stringify_obj ((k, Some v) # kvs) = (k, v) # stringify_obj kvs"

record api_request =
  req_url :: string
  req_auth :: string
  req_body :: "(string \<times> json) list"

definition required_alert :: string where
  "required_alert = ''Please fill in required fields: Product Name and SKU''"

definition submit_failed_alert :: string where
  "submit_failed_alert = ''Error submitting form. Please check console for details.''"

text \<open>\<open>handleSubmit\<close> up to the \<open>fetch\<close>: an alert and no request (\<open>Inl\<close>), or the request
  sent. \<open>api_url\<close> is \<open>process.env.NEXT_PUBLIC_API_URL\<close>, \<open>ls\<close> the local storage.\<close>

definition submit_request :: "product_page \<Rightarrow> bool \<Rightarrow> string option \<Rightarrow> (string \<Rightarrow> ls_value option)
    \<Rightarrow> string + api_request" where
  "submit_request pg is_draft api_url ls =
     (let f = form_data pg in
      if \<not> fv_truthy (f ''name'') \<or> \<not> fv_truthy (f ''sku'') then Inl required_alert
      else case category_id f of
        None \<Rightarrow> Inl submit_failed_alert
      | Some cat \<Rightarrow>
          Inr \<lparr>req_url = js_or_opt api_url ''http://localhost:5285'' @ ''/api/Products'',
               req_auth = products_auth_header ls,
               req_body = stringify_obj (product_data pg is_draft cat)\<rparr>)"

subsection \<open>The server's reply\<close>

text \<open>What \<open>handleSubmit\<close> reads of a failed reply: the text of the body (\<open>None\<close> when
  \<open>response.text()\<close> throws) and the result of \<open>JSON.parse\<close> on it (\<open>None\<close> when it
  throws), of which the members \<open>errors\<close>, \<open>message\<close> and \<open>title\<close> are used.\<close>

record error_json =
  ej_errors :: "(string \<times> string list) list option"
  ej_message :: "string option"
  ej_title :: "string option"

datatype product_reply = Fetch_failed | Reply_ok | Reply_error nat "string option" "error_json option"

definition field_label :: "string \<Rightarrow> string" where
  "field_label fld = replace_first ''.'' '' '' (replace_first ''$'' [] fld)"

definition validation_message :: "(string \<times> string list) list \<Rightarrow> string" where
  "validation_message es =
     ''Validation errors:'' @ [CHR 0x0A]
     @ concat (map (\<lambda>(fld, msgs). [CHR 0x0A] @ field_label fld @ '': '' @ join '', '' msgs) es)"

definition submit_reply :: "bool \<Rightarrow> product_reply \<Rightarrow> string \<times> path option" where
  "submit_reply is_draft reply =
     (case reply of
        Fetch_failed \<Rightarrow> (submit_failed_alert, None)
      | Reply_ok \<Rightarrow>
          (if is_draft then ''Product saved as draft!'' else ''Product created successfully!'',
           Some ''/admin/products'')
      | Reply_error status None _ \<Rightarrow> (''Error creating product: Status '' @ decimal status, None)
      | Reply_error status (Some txt) None \<Rightarrow>
          (''Error creating product: '' @ js_or txt (''Status: '' @ decimal status), None)
      | Reply_error status (Some txt) (Some ej) \<Rightarrow>
          (case ej_errors ej of
             Some es \<Rightarrow> (validation_message es, None)
           | None \<Rightarrow> (''Error creating product: ''
                       @ js_or_opt (ej_message ej) (js_or_opt (ej_title ej) ''Unknown error''), None)))"

text \<open>The whole of \<open>handleSubmit\<close>: the alert shown, the route pushed, and the request
  sent, with \<open>server\<close> the reply the API gives to a request.\<close>

definition handle_submit_product :: "product_page \<Rightarrow> bool \<Rightarrow> string option \<Rightarrow> (string \<Rightarrow> ls_value option)
    \<Rightarrow> (api_request \<Rightarrow> product_reply) \<Rightarrow> string \<times> path option \<times> api_request option" where
  "handle_submit_product pg is_draft api_url ls server =
     (case submit_request pg is_draft api_url ls of
        Inl msg \<Rightarrow> (msg, None, None)
      | Inr req \<Rightarrow> (let (msg, nav) = submit_reply is_draft (server req) in (msg, nav, Some req)))"

text \<open>The page header's controls: the back arrow (a link) and Cancel
  (\<open>router.push('/admin/products')\<close>) leave for the product list without a request;
  Save as Draft and Save \& Continue call \<open>handleSubmit(e, true)\<close> and
  \<open>handleSubmit(e, false)\<close>.\<close>

datatype header_button = Back_arrow | Save_draft_button | Cancel_button | Save_continue_button

definition header_click :: "header_button \<Rightarrow> product_page \<Rightarrow> string option \<Rightarrow> (string \<Rightarrow> ls_value option)
    \<Rightarrow> (api_request \<Rightarrow> product_reply) \<Rightarrow> string \<times> path option \<times> api_request option" where
  "header_click b pg api_url ls server =
     (case b of
        Back_arrow \<Rightarrow> ([], Some ''/admin/products'', None)
      | Cancel_button \<Rightarrow> ([], Some ''/admin/products'', None)
      | Save_draft_button \<Rightarrow> handle_submit_product pg True api_url ls server
      | Save_continue_button \<Rightarrow> handle_submit_product pg False api_url ls server)"

text \<open>The fields of \<open>formData\<close> that \<open>productData\<close> reads.\<close>

definition payload_fields :: "string list" where
  "payload_fields = [''name'', ''fullDescription'', ''shortDescription'', ''sku'', ''gtin'',
     ''manufacturerPartNumber'', ''displayOrder'', ''adminComment'', ''price'', ''oldPrice'', ''cost'',
     ''weight'', ''length'', ''width'', ''height'', ''stockQuantity'', ''availableStartDate'',
     ''availableEndDate'', ''published'', ''visibleIndividually'', ''showOnHomepage'', ''metaTitle'',
     ''metaDescription'', ''metaKeywords'', ''manufacturer'', ''productTags'']"

subsection \<open>Lemmas\<close>

lemma map_of_stringify_None: "k \<notin> fst ` set kvs \<Longrightarrow> map_of (stringify_obj kvs) k = None"
  by (induction kvs rule: stringify_obj.induct) auto

lemma map_of_stringify:
  "distinct (map fst kvs) \<Longrightarrow> map_of (stringify_obj kvs) k = (case map_of kvs k of Some v \<Rightarrow> v | None \<Rightarrow> None)"
  by (induction kvs rule: stringify_obj.induct) (auto simp: map_of_stringify_None)

lemma product_data_keys: "distinct (map fst (product_data pg d c))"
  by (simp add: product_data_def Let_def)

lemma length_filter_distinct_map:
  "distinct (map f xs) \<Longrightarrow> i < length xs \<Longrightarrow> length (filter (\<lambda>x. f x \<noteq> f (xs ! i)) xs) = length xs - 1"
proof (induction xs arbitrary: i)
  case (Cons x xs)
  show ?case
  proof (cases i)
    case 0
    then have "filter (\<lambda>y. f y \<noteq> f x) xs = xs" using Cons.prems(1) by (auto simp: filter_id_conv) (metis image_eqI)
    then show ?thesis using 0 by simp
  next
    case (Suc j)
    then have "xs ! j \<in> set xs" using Cons.prems(2) by simp
    then have "f x \<noteq> f (xs ! j)" using Cons.prems(1) by (auto simp del: nth_mem)
    then show ?thesis using Suc Cons by auto
  qed
qed simp

lemma int_or_decimal: "int_or (decimal n) d = (if n = 0 then Finite d else Finite (of_nat n))"
  by (simp add: int_or_def num_or_def parse_int_decimal)

lemma float_or_decimal: "float_or (decimal n) d = (if n = 0 then Finite d else Finite (of_nat n))"
  by (simp add: float_or_def num_or_def parse_float_decimal)

lemma product_data_cong:
  assumes "list_all (\<lambda>k. form_data pg k = form_data pg' k) payload_fields"
    and "related_products pg = related_products pg'" and "cross_sell_products pg = cross_sell_products pg'"
  shows "product_data pg d c = product_data pg' d c"
  using assms by (simp add: product_data_def payload_fields_def Let_def)

subsection \<open>Properties of the submission\<close>

text \<open>
  C20. Submitting with an empty product name or SKU (either button, draft or not) shows the
  required-fields alert, sends no request and stays on the page.
\<close>

theorem submit_requires_name_and_sku:
  assumes "\<not> fv_truthy (form_data pg ''name'') \<or> \<not> fv_truthy (form_data pg ''sku'')"
  shows "handle_submit_product pg d api_url ls server = (required_alert, None, None)"
  using assms by (auto simp: handle_submit_product_def submit_request_def Let_def)

theorem submit_requires_name_and_sku_witness:
  "handle_submit_product init_product_page False None (\<lambda>_. None) (\<lambda>_. Reply_ok) = (required_alert, None, None)"
proof -
  have "\<not> fv_truthy (form_data init_product_page ''name'')"
    by (simp add: init_product_page_def init_form_def init_form_fields_def)
  then show ?thesis using submit_requires_name_and_sku by blast
qed

text \<open>
  C22. A whole number below 2^53 (the range in which a JavaScript number holds every
  integer exactly) typed as its decimal digits is sent as that number for the stock
  quantity and the price; for the display order every positive number is, but 0 is sent
  as 1 (\<open>parseInt(...) || 1\<close>), so a display order of 0 cannot be set.
\<close>

theorem whole_numbers_roundtrip:
  assumes "form_data pg ''stockQuantity'' = Some (FStr (decimal q))"
    and "form_data pg ''displayOrder'' = Some (FStr (decimal n))"
    and "form_data pg ''price'' = Some (FStr (decimal p))"
    and "q < 2 ^ 53" and "n < 2 ^ 53" and "p < 2 ^ 53"
  shows "map_of (product_data pg d c) ''stockQuantity'' = Some (Some (JNum (of_nat q)))
    \<and> map_of (product_data pg d c) ''displayOrder'' = Some (Some (JNum (if n = 0 then 1 else of_nat n)))
    \<and> map_of (product_data pg d c) ''price'' = Some (Some (JNum (of_nat p)))"
  using assms by (simp add: product_data_def Let_def int_or_decimal float_or_decimal)

theorem whole_numbers_roundtrip_witness:
  "map_of (product_data (init_product_page\<lparr>form_data := (\<lambda>_. None)(''stockQuantity'' \<mapsto> FStr (decimal 12),
       ''displayOrder'' \<mapsto> FStr (decimal 0), ''price'' \<mapsto> FStr (decimal 30))\<rparr>) False JNull) ''displayOrder''
     = Some (Some (JNum 1))"
  using whole_numbers_roundtrip[of "init_product_page\<lparr>form_data := (\<lambda>_. None)(''stockQuantity'' \<mapsto> FStr (decimal 12),
       ''displayOrder'' \<mapsto> FStr (decimal 0), ''price'' \<mapsto> FStr (decimal 30))\<rparr>" 12 0 30 False JNull]
  by simp

text \<open>
  "Save as Draft" sends isPublished false and status 1; "Save \<open>&\<close> Continue" sends the
  Published checkbox as isPublished and status 2.
\<close>

theorem draft_unpublished:
  "map_of (product_data pg d c) ''isPublished''
     = Some (if d then Some (JBool False) else fv_json (form_data pg ''published''))
   \<and> map_of (product_data pg d c) ''status'' = Some (Some (JNum (if d then 1 else 2)))"
  by (simp add: product_data_def Let_def)

text \<open>
  C25. After the reply the page navigates (to \<open>/admin/products\<close>) exactly when the API
  accepted the product; every failure keeps the user on the form.
\<close>

theorem leaves_page_only_on_success:
  "snd (submit_reply d reply) = (if reply = Reply_ok then Some ''/admin/products'' else None)"
  by (simp add: submit_reply_def split: product_reply.split option.split)

text \<open>
  C28. Image display orders are assigned as "current count + position + 1", so deleting
  an image other than the last and uploading more gives two images the same display
  order: the first new image takes the order of the last one kept, whenever the list was
  numbered 1, 2, ... by earlier uploads.
\<close>

theorem image_orders_collide:
  assumes "distinct (map img_id (product_images pg))" and "Suc i < length (product_images pg)"
    and "img_order (last (product_images pg)) = of_nat (length (product_images pg))"
    and "urls \<noteq> []"
  shows "\<not> distinct (map img_order (product_images
           (handle_image_upload now urls (remove_image (img_id (product_images pg ! i)) pg))))"
proof -
  let ?ims = "product_images pg"
  let ?kept = "filter (\<lambda>x. img_id x \<noteq> img_id (?ims ! i)) ?ims"
  have ne: "?ims \<noteq> []" using assms(2) by auto
  have "last ?ims = ?ims ! (length ?ims - 1)" using ne by (simp add: last_conv_nth)
  moreover have "map img_id ?ims ! (length ?ims - 1) \<noteq> map img_id ?ims ! i"
    using assms(2) nth_eq_iff_index_eq [OF assms(1), of "length ?ims - 1" i] by simp
  ultimately have "img_id (last ?ims) \<noteq> img_id (?ims ! i)"
    using assms(2) by simp
  then have last_kept: "last ?ims \<in> set ?kept" using ne by simp
  have len: "length ?kept = length ?ims - 1"
    using assms(1,2) by (simp add: length_filter_distinct_map)
  obtain u us where u: "urls = u # us" using assms(4) by (cases urls) auto
  have "img_order (hd (new_images now (length ?kept) urls)) = img_order (last ?ims)"
    using assms(2,3) len by (simp add: u new_images_def)
  moreover have "hd (new_images now (length ?kept) urls) \<in> set (new_images now (length ?kept) urls)"
    by (simp add: u new_images_def)
  ultimately show ?thesis
    using last_kept assms(4)
    by (auto simp: handle_image_upload_def remove_image_def distinct_map inj_on_def)
qed

theorem image_orders_collide_witness:
  "\<not> distinct (map img_order (product_images
     (handle_image_upload 3 [''blob:c'']
       (remove_image ''1-0'' (handle_image_upload 1 [''blob:a'', ''blob:b''] init_product_page)))))"
proof -
  let ?pg = "handle_image_upload 1 [''blob:a'', ''blob:b''] init_product_page"
  have ims: "product_images ?pg = [\<lparr>img_id = ''1-0'', img_url = ''blob:a'', alt_text = [], img_order = 1\<rparr>,
      \<lparr>img_id = ''1-1'', img_url = ''blob:b'', alt_text = [], img_order = 2\<rparr>]"
    by code_simp
  have "\<not> distinct (map img_order (product_images
     (handle_image_upload 3 [''blob:c''] (remove_image (img_id (product_images ?pg ! 0)) ?pg))))"
    by (rule image_orders_collide) (simp_all only: ims, simp_all)
  moreover have "img_id (product_images ?pg ! 0) = ''1-0''" by (simp only: ims) simp
  ultimately show ?thesis by simp
qed

end
