(* ===== verification/ProductView.thy ===== *)
theory ProductView
  imports ProductForm
begin

text \<open>
  The rendering of \<open>src/app/admin/products/add/page.tsx\<close>: for each tab, the form
  controls the JSX puts on the screen for the current state (its conditional sections
  included), and so the user events the page can receive. \<open>page_step\<close> dispatches an
  event to its handler of \<open>ProductForm\<close>, \<open>event_enabled\<close> says whether the control
  that raises it is rendered, and \<open>page_reach\<close> is the set of states a user reaches
  from the initial state, one event per millisecond.
\<close>

subsection \<open>Tabs and their inputs\<close>

datatype tab = Product_info | Prices | Inventory | Shipping | Related_products
  | Attributes_tab | Seo | Pictures | Videos | Specifications_tab

datatype input_kind = Text_input | Number_input | Date_input | Text_area | Check_box
  | Select "string list"

text \<open>\<open>e.target.type\<close> of the element, which \<open>handleChange\<close> tests.\<close>

fun kind_type :: "input_kind \<Rightarrow> string" where
  "kind_type Text_input = ''text''"
| "kind_type Number_input = ''number''"
| "kind_type Date_input = ''datetime-local''"
| "kind_type Text_area = ''textarea''"
| "kind_type Check_box = ''checkbox''"
| "kind_type (Select opts) = ''select-one''"

definition category_options :: "string list" where
  "category_options = ['''', ''electronics'', ''fashion'', ''sports'', ''home'', ''books'', ''toys'']"

text \<open>The product-info tab: its Basic Info, Publishing and Admin Comment cards.\<close>

definition basic_info_inputs :: "(string \<times> input_kind) list" where
  "basic_info_inputs =
     [(''name'', Text_input), (''shortDescription'', Text_area), (''fullDescription'', Text_area),
      (''sku'', Text_input), (''categories'', Select category_options),
      (''manufacturer'', Text_input), (''productType'', Select [''simple'', ''grouped'']),
      (''gtin'', Text_input), (''manufacturerPartNumber'', Text_input),
      (''displayOrder'', Number_input), (''productTags'', Text_input)]"

definition publishing_inputs :: "(string \<times> input_kind) list" where
  "publishing_inputs =
     [(''published'', Check_box), (''visibleIndividually'', Check_box), (''showOnHomepage'', Check_box),
      (''availableStartDate'', Date_input), (''availableEndDate'', Date_input)]"

definition admin_comment_inputs :: "(string \<times> input_kind) list" where
  "admin_comment_inputs = [(''adminComment'', Text_area)]"

definition product_info_inputs :: "(string \<times> input_kind) list" where
  "product_info_inputs = basic_info_inputs @ publishing_inputs @ admin_comment_inputs"

text \<open>The prices tab: its Price, Pre-order, Mark as New and Tax cards; the inputs under
  a checkbox are rendered while it is ticked.\<close>

definition price_inputs :: "form \<Rightarrow> (string \<times> input_kind) list" where
  "price_inputs f =
     [(''price'', Number_input), (''oldPrice'', Number_input), (''cost'', Number_input),
      (''disableBuyButton'', Check_box), (''disableWishlistButton'', Check_box),
      (''callForPrice'', Check_box), (''customerEntersPrice'', Check_box)]
     @ (if fv_truthy (f ''customerEntersPrice'') then
          [(''minimumCustomerEnteredPrice'', Number_input), (''maximumCustomerEnteredPrice'', Number_input)]
        else [])"

definition pre_order_inputs :: "form \<Rightarrow> (string \<times> input_kind) list" where
  "pre_order_inputs f =
     [(''availableForPreOrder'', Check_box)]
     @ (if fv_truthy (f ''availableForPreOrder'') then [(''preOrderAvailabilityStartDate'', Date_input)] else [])"

definition mark_as_new_inputs :: "form \<Rightarrow> (string \<times> input_kind) list" where
  "mark_as_new_inputs f =
     [(''markAsNew'', Check_box)]
     @ (if fv_truthy (f ''markAsNew'') then
          [(''markAsNewStartDate'', Date_input), (''markAsNewEndDate'', Date_input)] else [])"

definition tax_inputs :: "(string \<times> input_kind) list" where
  "tax_inputs = [(''taxExempt'', Check_box), (''taxCategoryId'', Select ['''', ''1'', ''2'', ''3'', ''4''])]"

definition prices_inputs :: "form \<Rightarrow> (string \<times> input_kind) list" where
  "prices_inputs f = price_inputs f @ pre_order_inputs f @ mark_as_new_inputs f @ tax_inputs"

text \<open>The inventory tab: the inventory method, then, while it is \<open>track\<close>, the Stock
  Quantity and Multiple Warehouses cards, and the Cart Settings card.\<close>

definition inventory_method_inputs :: "(string \<times> input_kind) list" where
  "inventory_method_inputs = [(''manageInventory'', Select [''dont-track'', ''track'', ''track-by-attributes''])]"

definition stock_quantity_inputs :: "(string \<times> input_kind) list" where
  "stock_quantity_inputs =
     [(''stockQuantity'', Number_input), (''minStockQuantity'', Number_input),
      (''lowStockActivity'', Select [''nothing'', ''disable-buy'', ''unpublish'']),
      (''notifyAdminForQuantityBelow'', Number_input),
      (''backorders'', Select [''no-backorders'', ''allow-qty-below-zero'', ''allow-qty-below-zero-and-notify'']),
      (''displayStockAvailability'', Check_box), (''displayStockQuantity'', Check_box),
      (''allowBackInStockSubscriptions'', Check_box)]"

definition warehouse_inputs :: "(string \<times> input_kind) list" where
  "warehouse_inputs =
     [(''productAvailabilityRange'', Select ['''', ''1-2-days'', ''3-5-days'', ''1-week'', ''2-weeks''])]"

definition cart_settings_inputs :: "(string \<times> input_kind) list" where
  "cart_settings_inputs =
     [(''minCartQuantity'', Number_input), (''maxCartQuantity'', Number_input),
      (''allowedQuantities'', Text_input), (''notReturnable'', Check_box)]"

definition inventory_inputs :: "form \<Rightarrow> (string \<times> input_kind) list" where
  "inventory_inputs f =
     inventory_method_inputs
     @ (if f ''manageInventory'' = Some (FStr ''track'') then stock_quantity_inputs @ warehouse_inputs else [])
     @ cart_settings_inputs"

definition shipping_inputs :: "form \<Rightarrow> (string \<times> input_kind) list" where
  "shipping_inputs f =
     [(''isShipEnabled'', Check_box)]
     @ (if fv_truthy (f ''isShipEnabled'') then
          [(''isFreeShipping'', Check_box), (''shipSeparately'', Check_box),
           (''additionalShippingCharge'', Number_input),
           (''deliveryDateId'', Select ['''', ''1'', ''2'', ''3'', ''4''])] else [])
     @ (if fv_truthy (f ''isShipEnabled'') then
          [(''weight'', Number_input), (''length'', Number_input), (''width'', Number_input),
           (''height'', Number_input)] else [])"

definition seo_inputs :: "(string \<times> input_kind) list" where
  "seo_inputs =
     [(''metaTitle'', Text_input), (''metaDescription'', Text_area), (''metaKeywords'', Text_input),
      (''searchEngineFriendlyPageName'', Text_input)]"

fun tab_inputs :: "tab \<Rightarrow> form \<Rightarrow> (string \<times> input_kind) list" where
  "tab_inputs Product_info f = product_info_inputs"
| "tab_inputs Prices f = prices_inputs f"
| "tab_inputs Inventory f = inventory_inputs f"
| "tab_inputs Shipping f = shipping_inputs f"
| "tab_inputs Seo f = seo_inputs"
| "tab_inputs t f = []"

subsection \<open>Events\<close>

datatype page_event =
    Change tab string input_kind string bool
  | Search_related string | Add_related string | Remove_related string
  | Search_cross string | Add_cross string | Remove_cross string
  | Add_attr | Remove_attr string | Attr_name string string | Attr_value string nat string
  | Add_attr_value string | Remove_attr_value string nat
  | Upload "string list" | Image_alt string string | Image_order string string | Remove_img string
  | Video_url nat string | Remove_video nat | Add_video
  | Add_spec | Spec_name string string | Spec_value string string | Spec_order string string
  | Remove_spec string

fun page_step :: "nat \<Rightarrow> page_event \<Rightarrow> product_page \<Rightarrow> product_page" where
  "page_step now (Change t n k v c) pg = handle_change_product n v (kind_type k) c pg"
| "page_step now (Search_related v) pg = pg\<lparr>search_term := v\<rparr>"
| "page_step now (Add_related i) pg = add_related_product i pg"
| "page_step now (Remove_related i) pg = remove_related_product i pg"
| "page_step now (Search_cross v) pg = pg\<lparr>search_term_cross := v\<rparr>"
| "page_step now (Add_cross i) pg = add_cross_sell_product i pg"
| "page_step now (Remove_cross i) pg = remove_cross_sell_product i pg"
| "page_step now Add_attr pg = add_attribute now pg"
| "page_step now (Remove_attr a) pg = remove_attribute a pg"
| "page_step now (Attr_name a v) pg = update_attribute_name a v pg"
| "page_step now (Attr_value a k v) pg = update_attribute_value a k v pg"
| "page_step now (Add_attr_value a) pg = add_attribute_value a pg"
| "page_step now (Remove_attr_value a k) pg = remove_attribute_value a k pg"
| "page_step now (Upload urls) pg = handle_image_upload now urls pg"
| "page_step now (Image_alt i v) pg = set_image_alt i v pg"
| "page_step now (Image_order i v) pg = set_image_order i v pg"
| "page_step now (Remove_img i) pg = remove_image i pg"
| "page_step now (Video_url k v) pg = set_video_url k v pg"
| "page_step now (Remove_video k) pg = remove_video k pg"
| "page_step now Add_video pg = add_video pg"
| "page_step now Add_spec pg = add_specification now pg"
| "page_step now (Spec_name i v) pg = set_spec_name i v pg"
| "page_step now (Spec_value i v) pg = set_spec_value i v pg"
| "page_step now (Spec_order i v) pg = set_spec_order i v pg"
| "page_step now (Remove_spec i) pg = remove_specification i pg"

subsection \<open>Rendered controls\<close>

text \<open>A changed input is one the tab renders; a \<open><select>\<close> yields one of its options.\<close>

definition change_enabled :: "product_page \<Rightarrow> tab \<Rightarrow> string \<Rightarrow> input_kind \<Rightarrow> string \<Rightarrow> bool" where
  "change_enabled pg t n k v =
     ((n, k) \<in> set (tab_inputs t (form_data pg)) \<and> (case k of Select opts \<Rightarrow> v \<in> set opts | _ \<Rightarrow> True))"

text \<open>The related-products tab: a selected product is listed (with its remove button)
  when it is one of \<open>availableProducts\<close>; the search results, each a clickable row,
  are rendered when the search box is not empty.\<close>

fun related_section_enabled :: "product_page \<Rightarrow> page_event \<Rightarrow> bool" where
  "related_section_enabled pg (Add_related i) =
     (search_term pg \<noteq> [] \<and> i \<in> set (map p_id (filtered_products (search_term pg))))"
| "related_section_enabled pg (Remove_related i) =
     (i \<in> set (related_products pg) \<and> i \<in> set (map p_id available_products))"
| "related_section_enabled pg e = True"

fun cross_sell_section_enabled :: "product_page \<Rightarrow> page_event \<Rightarrow> bool" where
  "cross_sell_section_enabled pg (Add_cross i) =
     (search_term_cross pg \<noteq> [] \<and> i \<in> set (map p_id (filtered_products (search_term_cross pg))))"
| "cross_sell_section_enabled pg (Remove_cross i) =
     (i \<in> set (cross_sell_products pg) \<and> i \<in> set (map p_id available_products))"
| "cross_sell_section_enabled pg e = True"

definition related_enabled :: "product_page \<Rightarrow> page_event \<Rightarrow> bool" where
  "related_enabled pg e = (related_section_enabled pg e \<and> cross_sell_section_enabled pg e)"

declare related_enabled_def [simp]

text \<open>The attributes tab: one block per attribute, one input per value, the value's
  remove button only while the attribute has more than one value.\<close>

fun attributes_enabled :: "product_page \<Rightarrow> page_event \<Rightarrow> bool" where
  "attributes_enabled pg (Remove_attr a) = (a \<in> set (map attr_id (attributes pg)))"
| "attributes_enabled pg (Attr_name a v) = (a \<in> set (map attr_id (attributes pg)))"
| "attributes_enabled pg (Add_attr_value a) = (a \<in> set (map attr_id (attributes pg)))"
| "attributes_enabled pg (Attr_value a k v) =
     list_ex (\<lambda>x. attr_id x = a \<and> k < length (attr_values x)) (attributes pg)"
| "attributes_enabled pg (Remove_attr_value a k) =
     list_ex (\<lambda>x. attr_id x = a \<and> k < length (attr_values x) \<and> 1 < length (attr_values x)) (attributes pg)"
| "attributes_enabled pg e = True"

text \<open>\<open>attributes.reduce((acc, attr) => acc * attr.values.filter(v => v).length, 1)\<close>,
  shown for a grouped product with at least one attribute.\<close>

definition variation_count :: "attribute list \<Rightarrow> nat" where
  "variation_count attrs = foldl (\<lambda>acc a. acc * length (filter (\<lambda>v. v \<noteq> []) (attr_values a))) 1 attrs"

definition variations_shown :: "product_page \<Rightarrow> bool" where
  "variations_shown pg = (form_data pg ''productType'' = Some (FStr ''grouped'') \<and> attributes pg \<noteq> [])"

text \<open>The pictures, videos and specifications tabs: each listed image, video URL and
  specification has its inputs and its remove button.\<close>

fun pictures_enabled :: "product_page \<Rightarrow> page_event \<Rightarrow> bool" where
  "pictures_enabled pg (Image_alt i v) = (i \<in> set (map img_id (product_images pg)))"
| "pictures_enabled pg (Image_order i v) = (i \<in> set (map img_id (product_images pg)))"
| "pictures_enabled pg (Remove_img i) = (i \<in> set (map img_id (product_images pg)))"
| "pictures_enabled pg e = True"

fun videos_enabled :: "product_page \<Rightarrow> page_event \<Rightarrow> bool" where
  "videos_enabled pg (Video_url k v) = (k < length (video_urls pg))"
| "videos_enabled pg (Remove_video k) = (k < length (video_urls pg))"
| "videos_enabled pg e = True"

fun specifications_enabled :: "product_page \<Rightarrow> page_event \<Rightarrow> bool" where
  "specifications_enabled pg (Spec_name i v) = (i \<in> set (map spec_id (specifications pg)))"
| "specifications_enabled pg (Spec_value i v) = (i \<in> set (map spec_id (specifications pg)))"
| "specifications_enabled pg (Spec_order i v) = (i \<in> set (map spec_id (specifications pg)))"
| "specifications_enabled pg (Remove_spec i) = (i \<in> set (map spec_id (specifications pg)))"
| "specifications_enabled pg e = True"

definition media_enabled :: "product_page \<Rightarrow> page_event \<Rightarrow> bool" where
  "media_enabled pg e = (pictures_enabled pg e \<and> videos_enabled pg e \<and> specifications_enabled pg e)"

declare media_enabled_def [simp]

fun event_enabled :: "product_page \<Rightarrow> page_event \<Rightarrow> bool" where
  "event_enabled pg (Change t n k v c) = change_enabled pg t n k v"
| "event_enabled pg e = (related_enabled pg e \<and> attributes_enabled pg e \<and> media_enabled pg e)"

text \<open>The states a user reaches, each event at a later millisecond than the one before
  (\<open>Date.now()\<close> is the event's time).\<close>

inductive page_reach :: "nat \<Rightarrow> product_page \<Rightarrow> bool" where
  start: "page_reach 0 init_product_page"
| step: "page_reach t pg \<Longrightarrow> t < now \<Longrightarrow> event_enabled pg e \<Longrightarrow> page_reach now (page_step now e pg)"

definition kind_ok :: "string \<Rightarrow> input_kind \<Rightarrow> bool" where
  "kind_ok n k = (case init_form n of Some (FBool b) \<Rightarrow> k = Check_box
                   | Some (FStr s) \<Rightarrow> k \<noteq> Check_box | None \<Rightarrow> False)"

definition open_form :: form where
  "open_form n = (if n = ''manageInventory'' then Some (FStr ''track'') else Some (FBool True))"

fun same_kind :: "fval option \<Rightarrow> fval \<Rightarrow> bool" where
  "same_kind (Some (FStr a)) (FStr b) = True"
| "same_kind (Some (FBool a)) (FBool b) = True"
| "same_kind _ _ = False"

definition form_schema :: "form \<Rightarrow> bool" where
  "form_schema f = (dom f = dom init_form \<and> (\<forall>n v. init_form n = Some v \<longrightarrow> same_kind (f n) v))"

definition category_ok :: "form \<Rightarrow> bool" where
  "category_ok f = (case f ''categories'' of Some (FStr c) \<Rightarrow> c \<in> set category_options | _ \<Rightarrow> False)"

definition attr_clock :: "nat \<Rightarrow> attribute list \<Rightarrow> bool" where
  "attr_clock t attrs =
     (\<exists>ms. map attr_id attrs = map decimal ms \<and> sorted_wrt (<) ms \<and> list_all (\<lambda>m. m \<le> t) ms)"

definition related_ok :: "string list \<Rightarrow> bool" where
  "related_ok xs = (distinct xs \<and> set xs \<subseteq> set (map p_id available_products))"

definition page_inv :: "nat \<Rightarrow> product_page \<Rightarrow> bool" where
  "page_inv t pg =
     (form_schema (form_data pg) \<and> category_ok (form_data pg)
      \<and> related_ok (related_products pg) \<and> related_ok (cross_sell_products pg)
      \<and> attr_clock t (attributes pg) \<and> list_all (\<lambda>a. attr_values a \<noteq> []) (attributes pg))"

text \<open>Sample states reached by a user: the name and SKU typed in; and an attribute, a
  related product and a second attribute value added.\<close>

definition sample_filled :: product_page where
  "sample_filled = page_step 2 (Change Product_info ''sku'' Text_input ''LMP-1'' False)
     (page_step 1 (Change Product_info ''name'' Text_input ''Desk lamp'' False) init_product_page)"

definition sample_edited :: product_page where
  "sample_edited = page_step 4 (Add_attr_value ''1'')
     (page_step 3 (Add_related ''6'') (page_step 2 (Search_related ''mouse'')
       (page_step 1 Add_attr init_product_page)))"

subsection \<open>Invariants\<close>

lemmas page_defs = handle_change_product_def add_related_product_def remove_related_product_def
  add_cross_sell_product_def remove_cross_sell_product_def add_attribute_def remove_attribute_def
  update_attribute_name_def update_attribute_value_def add_attribute_value_def
  remove_attribute_value_def handle_image_upload_def remove_image_def set_image_alt_def
  set_image_order_def set_video_url_def remove_video_def add_video_def add_specification_def
  set_spec_name_def set_spec_value_def set_spec_order_def remove_specification_def

lemmas tab_section_defs = product_info_inputs_def basic_info_inputs_def publishing_inputs_def
  admin_comment_inputs_def prices_inputs_def price_inputs_def pre_order_inputs_def mark_as_new_inputs_def
  tax_inputs_def inventory_inputs_def inventory_method_inputs_def stock_quantity_inputs_def
  warehouse_inputs_def cart_settings_inputs_def shipping_inputs_def

lemma tab_inputs_open: "set (tab_inputs t f) \<subseteq> set (tab_inputs t open_form)"
  by (cases t) (auto simp: tab_section_defs open_form_def)

lemma open_inputs_kind_ok: "list_all (\<lambda>(n, k). kind_ok n k) (tab_inputs t open_form)"
  by (induction t; code_simp)

lemma open_inputs_category:
  "list_all (\<lambda>(n, k). n = ''categories'' \<longrightarrow> k = Select category_options) (tab_inputs t open_form)"
  by (induction t; code_simp)

lemma tab_input_open:
  assumes "(n, k) \<in> set (tab_inputs t f)" and "list_all P (tab_inputs t open_form)"
  shows "P (n, k)"
  using assms tab_inputs_open by (auto simp: list_all_iff)

lemma kind_type_checkbox [simp]: "kind_type k = ''checkbox'' \<longleftrightarrow> k = Check_box"
  by (cases k) simp_all

lemma form_schema_init: "form_schema init_form"
proof -
  have "same_kind (Some v) v" for v by (cases v) simp_all
  then show ?thesis by (simp add: form_schema_def)
qed

lemma form_schema_change:
  assumes "form_schema f" and "kind_ok n k"
  shows "form_schema (f(n \<mapsto> (if k = Check_box then FBool c else FStr v)))"
proof -
  obtain w where w: "init_form n = Some w" using assms(2) by (auto simp: kind_ok_def split: option.splits)
  have "n \<in> dom f" using assms(1) w by (auto simp: form_schema_def)
  then have "dom (f(n \<mapsto> x)) = dom f" for x by auto
  moreover have "same_kind (Some (if k = Check_box then FBool c else FStr v)) w"
    using assms(2) w by (cases w) (auto simp: kind_ok_def)
  ultimately show ?thesis using assms(1) w by (auto simp: form_schema_def)
qed

lemma form_category_step:
  assumes inv: "form_schema (form_data pg) \<and> category_ok (form_data pg)"
    and en: "event_enabled pg e"
  shows "form_schema (form_data (page_step now e pg)) \<and> category_ok (form_data (page_step now e pg))"
proof (cases e)
  case (Change tb n k v c)
  then have inp: "(n, k) \<in> set (tab_inputs tb (form_data pg))"
    and sel: "case k of Select opts \<Rightarrow> v \<in> set opts | _ \<Rightarrow> True"
    using en by (simp_all add: change_enabled_def)
  have kind: "kind_ok n k" using tab_input_open[OF inp open_inputs_kind_ok] by simp
  have cat: "n = ''categories'' \<Longrightarrow> k = Select category_options"
    using tab_input_open[OF inp open_inputs_category] by simp
  have f': "form_data (page_step now e pg)
      = (form_data pg)(n \<mapsto> (if k = Check_box then FBool c else FStr v))"
    using Change by (simp add: handle_change_product_def)
  have "form_schema (form_data (page_step now e pg))"
    unfolding f' by (rule form_schema_change[OF conjunct1[OF inv] kind])
  moreover have "category_ok (form_data (page_step now e pg))"
    unfolding f' using inv sel cat by (cases "n = ''categories''") (simp_all add: category_ok_def)
  ultimately show ?thesis by simp
qed (use inv in \<open>simp_all add: page_defs Let_def\<close>)

lemma attr_ids_page_step:
  "map attr_id (attributes (page_step now e pg)) =
     (case e of Add_attr \<Rightarrow> map attr_id (attributes pg) @ [decimal now]
      | Remove_attr a \<Rightarrow> filter (\<lambda>i. i \<noteq> a) (map attr_id (attributes pg))
      | _ \<Rightarrow> map attr_id (attributes pg))"
  by (cases e) (simp_all add: page_defs Let_def comp_def filter_map)

lemma list_all_map_values:
  "list_all (\<lambda>a. attr_values a \<noteq> []) xs \<Longrightarrow> (\<And>a. attr_values a \<noteq> [] \<Longrightarrow> attr_values (f a) \<noteq> [])
   \<Longrightarrow> list_all (\<lambda>a. attr_values a \<noteq> []) (map f xs)"
  by (induction xs) auto

lemma attr_values_page_step:
  assumes ne: "list_all (\<lambda>a. attr_values a \<noteq> []) (attributes pg)"
    and d: "distinct (map attr_id (attributes pg))" and en: "attributes_enabled pg e"
  shows "list_all (\<lambda>a. attr_values a \<noteq> []) (attributes (page_step now e pg))"
proof (cases e)
  case (Remove_attr_value a k)
  have "list_ex (\<lambda>x. attr_id x = a \<and> k < length (attr_values x) \<and> 1 < length (attr_values x))
      (attributes pg)" using en Remove_attr_value by simp
  then obtain x where x: "x \<in> set (attributes pg)" "attr_id x = a" "k < length (attr_values x)"
    "1 < length (attr_values x)" by (auto simp: list_ex_iff)
  have len: "length (drop_index k (attr_values x)) = length (attr_values x) - 1"
    using x(3) by simp
  have step: "attr_values (if attr_id y = a then y\<lparr>attr_values := drop_index k (attr_values y)\<rparr> else y) \<noteq> []"
    if y: "y \<in> set (attributes pg)" "attr_values y \<noteq> []" for y
  proof (cases "attr_id y = a")
    case True
    then have "y = x" using d x(1,2) y(1) by (auto simp: distinct_map inj_on_def)
    then show ?thesis using True len x(4) by (auto simp del: length_drop_index)
  qed (simp add: y)
  have "list_all (\<lambda>a. attr_values a \<noteq> [])
      (map (\<lambda>y. if attr_id y = a then y\<lparr>attr_values := drop_index k (attr_values y)\<rparr> else y) (attributes pg))"
    by (rule list_all_map_mem[OF ne]) (rule step)
  then show ?thesis using Remove_attr_value by (simp add: remove_attribute_value_def)
next
  case (Attr_value a k v)
  then show ?thesis using ne by (simp add: update_attribute_value_def list_all_map_values)
next
  case (Attr_name a v)
  then show ?thesis using ne by (simp add: update_attribute_name_def list_all_map_values)
next
  case (Add_attr_value a)
  then show ?thesis using ne by (simp add: add_attribute_value_def list_all_map_values)
next
  case (Remove_attr a)
  then show ?thesis using ne by (simp add: remove_attribute_def list_all_iff)
qed (simp_all add: page_defs Let_def ne)

lemma attr_clock_distinct: "attr_clock t attrs \<Longrightarrow> distinct (map attr_id attrs)"
proof -
  assume "attr_clock t attrs"
  then obtain ms where ms: "map attr_id attrs = map decimal ms" "sorted_wrt (<) ms"
    by (auto simp: attr_clock_def)
  have "distinct ms" using ms(2) by (simp add: strict_sorted_iff)
  moreover have "inj_on decimal (set ms)" by (meson decimal_inj inj_onI)
  ultimately show ?thesis using ms(1) by (metis distinct_map)
qed

lemma attr_clock_step:
  assumes "attr_clock t (attributes pg)" and "t < now"
  shows "attr_clock now (attributes (page_step now e pg))"
proof -
  obtain ms where ms: "map attr_id (attributes pg) = map decimal ms" "sorted_wrt (<) ms"
    "list_all (\<lambda>m. m \<le> t) ms" using assms(1) by (auto simp: attr_clock_def)
  have le: "list_all (\<lambda>m. m \<le> now) ms" using ms(3) assms(2) by (auto simp: list_all_iff)
  have ids: "map attr_id (attributes (page_step now e pg)) =
     (case e of Add_attr \<Rightarrow> map decimal (ms @ [now])
      | Remove_attr a \<Rightarrow> map decimal (filter (\<lambda>m. decimal m \<noteq> a) ms)
      | _ \<Rightarrow> map decimal ms)"
    using attr_ids_page_step[of now e pg] ms(1) by (simp add: filter_map comp_def split: page_event.split)
  show ?thesis
  proof (cases "e = Add_attr")
    case True
    have "sorted_wrt (<) (ms @ [now])" using ms(2,3) assms(2) by (auto simp: sorted_wrt_append list_all_iff)
    then show ?thesis using True ids le unfolding attr_clock_def
      by (intro exI[of _ "ms @ [now]"]) simp
  next
    case notadd: False
    show ?thesis
    proof (cases "\<exists>a. e = Remove_attr a")
      case True
      then obtain a where a: "e = Remove_attr a" by blast
      show ?thesis using a ids ms(2) le unfolding attr_clock_def
        by (intro exI[of _ "filter (\<lambda>m. decimal m \<noteq> a) ms"]) (simp add: sorted_wrt_filter list_all_iff)
    next
      case False
      then have "map attr_id (attributes (page_step now e pg)) = map decimal ms"
        using ids notadd by (cases e) simp_all
      then show ?thesis using ms(2) le unfolding attr_clock_def by blast
    qed
  qed
qed

lemma related_page_step:
  "related_products (page_step now e pg) =
     (case e of Add_related i \<Rightarrow>
        (if i \<notin> set (related_products pg) then related_products pg @ [i] else related_products pg)
      | Remove_related i \<Rightarrow> filter (\<lambda>x. x \<noteq> i) (related_products pg)
      | _ \<Rightarrow> related_products pg)"
  and cross_page_step:
  "cross_sell_products (page_step now e pg) =
     (case e of Add_cross i \<Rightarrow>
        (if i \<notin> set (cross_sell_products pg) then cross_sell_products pg @ [i] else cross_sell_products pg)
      | Remove_cross i \<Rightarrow> filter (\<lambda>x. x \<noteq> i) (cross_sell_products pg)
      | _ \<Rightarrow> cross_sell_products pg)"
  by (cases e; simp add: page_defs Let_def)+

lemma filtered_products_ids: "set (filtered_products s) \<subseteq> set available_products"
  by (auto simp: filtered_products_def)

lemma page_inv_init: "page_inv 0 init_product_page"
proof -
  have "category_ok init_form" by code_simp
  then show ?thesis
    by (simp add: page_inv_def form_schema_init init_product_page_def related_ok_def attr_clock_def)
qed

lemma page_inv_step:
  assumes inv: "page_inv t pg" and lt: "t < now" and en: "event_enabled pg e"
  shows "page_inv now (page_step now e pg)"
proof -
  have ren: "related_enabled pg e" and aen: "attributes_enabled pg e"
    using en by (cases e; simp)+
  have rel: "related_ok (related_products (page_step now e pg))"
    using related_page_step[of now e pg] inv ren filtered_products_ids
    by (cases e) (auto simp: page_inv_def related_ok_def)
  have cross: "related_ok (cross_sell_products (page_step now e pg))"
    using cross_page_step[of now e pg] inv ren filtered_products_ids
    by (cases e) (auto simp: page_inv_def related_ok_def)
  have clock: "attr_clock now (attributes (page_step now e pg))"
    using inv lt by (intro attr_clock_step) (simp_all add: page_inv_def)
  have vals: "list_all (\<lambda>a. attr_values a \<noteq> []) (attributes (page_step now e pg))"
    using inv aen attr_clock_distinct[of t "attributes pg"]
    by (intro attr_values_page_step) (simp_all add: page_inv_def)
  have "form_schema (form_data (page_step now e pg)) \<and> category_ok (form_data (page_step now e pg))"
    using inv en form_category_step by (simp add: page_inv_def)
  then show ?thesis using rel cross clock vals by (simp add: page_inv_def)
qed

lemma page_reach_inv: "page_reach t pg \<Longrightarrow> page_inv t pg"
  by (induction rule: page_reach.induct) (simp_all add: page_inv_init page_inv_step)

lemma category_ok_null: "category_ok f \<Longrightarrow> category_id f = Some JNull"
proof -
  assume ok: "category_ok f"
  have "list_all (\<lambda>c. \<not> (c \<noteq> [] \<and> trim c \<noteq> [] \<and> is_guid (trim c))) category_options"
    by code_simp
  then show ?thesis using ok
    by (auto simp: category_id_def category_ok_def list_all_iff Let_def split: option.splits fval.splits)
qed

lemma foldl_times: "foldl (\<lambda>acc a. acc * g a) acc xs = acc * prod_list (map g xs)"
  by (induction xs arbitrary: acc) (simp_all add: mult.assoc)

lemma unsent_tab_inputs:
  "t \<in> {Prices, Inventory, Shipping} \<Longrightarrow>
   list_all (\<lambda>(n, k). n \<in> set payload_fields \<longrightarrow>
       n \<in> {''price'', ''oldPrice'', ''cost'', ''stockQuantity'', ''weight'', ''length'', ''width'', ''height''})
     (tab_inputs t open_form)"
  by (elim insertE emptyE; simp only:; code_simp)

subsection \<open>Properties of the page\<close>

text \<open>
  C21. The category select offers only slugs (\<open>electronics\<close>, \<open>fashion\<close>, ...), none of
  which passes the GUID test of \<open>handleSubmit\<close>: every product request the page can send
  carries \<open>categoryId: null\<close>, whatever category the user picked.
\<close>

theorem requests_send_null_category:
  assumes "page_reach t pg" and "submit_request pg d api_url ls = Inr r"
  shows "map_of (req_body r) ''categoryId'' = Some JNull"
proof -
  have "category_id (form_data pg) = Some JNull"
    using page_reach_inv[OF assms(1)] by (simp add: page_inv_def category_ok_null)
  then have "req_body r = stringify_obj (product_data pg d JNull)"
    using assms(2) by (auto simp: submit_request_def Let_def split: if_splits)
  then show ?thesis by (simp add: map_of_stringify product_data_keys product_data_def Let_def)
qed

lemma sample_filled_reach: "page_reach 2 sample_filled"
  unfolding sample_filled_def
  by (intro page_reach.step[of 1 _ 2] page_reach.step[of 0 _ 1] page_reach.start)
     (simp_all add: change_enabled_def product_info_inputs_def basic_info_inputs_def)

theorem requests_send_null_category_witness:
  "\<exists>r. submit_request sample_filled False None (\<lambda>_. None) = Inr r
     \<and> map_of (req_body r) ''categoryId'' = Some JNull"
proof -
  have "\<not> isl (submit_request sample_filled False None (\<lambda>_. None))" by code_simp
  then obtain r where r: "submit_request sample_filled False None (\<lambda>_. None) = Inr r"
    by (cases "submit_request sample_filled False None (\<lambda>_. None)") auto
  then show ?thesis using requests_send_null_category[OF sample_filled_reach r] by blast
qed

text \<open>
  C26. Every state the user reaches keeps the shape of \<open>formData\<close> (the same field names,
  each still a string or a boolean as initialised), lists each related and cross-sell
  product at most once and only from \<open>availableProducts\<close>, gives distinct ids to the
  attributes (one click per millisecond), and never leaves an attribute without a value.
\<close>

theorem page_invariant:
  assumes "page_reach t pg"
  shows "form_schema (form_data pg) \<and> related_ok (related_products pg) \<and> related_ok (cross_sell_products pg)
    \<and> distinct (map attr_id (attributes pg)) \<and> list_all (\<lambda>a. attr_values a \<noteq> []) (attributes pg)"
  using page_reach_inv[OF assms] attr_clock_distinct by (auto simp: page_inv_def)

lemma sample_edited_reach: "page_reach 4 sample_edited"
proof -
  let ?p1 = "page_step 1 Add_attr init_product_page"
  let ?p2 = "page_step 2 (Search_related ''mouse'') ?p1"
  let ?p3 = "page_step 3 (Add_related ''6'') ?p2"
  have r1: "page_reach 1 ?p1" by (rule page_reach.step[OF page_reach.start]) simp_all
  have r2: "page_reach 2 ?p2" by (rule page_reach.step[OF r1]) simp_all
  have e3: "event_enabled ?p2 (Add_related ''6'')" by code_simp
  have r3: "page_reach 3 ?p3" by (rule page_reach.step[OF r2 _ e3]) simp
  have e4: "event_enabled ?p3 (Add_attr_value ''1'')" by code_simp
  show ?thesis unfolding sample_edited_def by (rule page_reach.step[OF r3 _ e4]) simp
qed

theorem page_invariant_witness:
  "form_schema (form_data sample_edited) \<and> related_ok (related_products sample_edited)
   \<and> related_ok (cross_sell_products sample_edited) \<and> distinct (map attr_id (attributes sample_edited))
   \<and> list_all (\<lambda>a. attr_values a \<noteq> []) (attributes sample_edited)"
  by (rule page_invariant[OF sample_edited_reach])

text \<open>
  C27. The variation count the attributes tab announces is 0 exactly when some attribute
  has no non-empty value; in particular it is 0 right after "Add Attribute", whose new
  attribute has the single value \<open>''\<close>.
\<close>

theorem variation_count_zero:
  "(variation_count attrs = 0 \<longleftrightarrow> list_ex (\<lambda>a. list_all (\<lambda>v. v = []) (attr_values a)) attrs)
   \<and> variation_count (attributes (add_attribute now pg)) = 0"
proof -
  have len0: "length (filter (\<lambda>v. v \<noteq> []) vs) = 0 \<longleftrightarrow> list_all (\<lambda>v. v = []) vs" for vs :: "string list"
    by (simp add: filter_empty_conv list_all_iff)
  have "variation_count xs = prod_list (map (\<lambda>a. length (filter (\<lambda>v. v \<noteq> []) (attr_values a))) xs)" for xs
    by (simp add: variation_count_def foldl_times)
  then have iff: "variation_count xs = 0 \<longleftrightarrow> list_ex (\<lambda>a. list_all (\<lambda>v. v = []) (attr_values a)) xs" for xs
    by (auto simp: prod_list_zero_iff list_ex_iff len0 [symmetric] image_iff)
  show ?thesis by (simp add: iff add_attribute_def)
qed

text \<open>
  C24. Every control of the prices, inventory and shipping tabs other than the price,
  old price, cost, stock quantity, weight and dimensions inputs (tax, pre-order, mark as
  new, inventory method, stock thresholds, backorders, cart limits, shipping flags, ...)
  is lost on submission: changing it leaves the product \<open>productData\<close> builds unchanged.
  In particular trackQuantity is sent as true whatever the inventory method.
\<close>

theorem unsent_fields_ignored:
  assumes "(n, k) \<in> set (tab_inputs t (form_data pg))" and "t \<in> {Prices, Inventory, Shipping}"
    and "n \<notin> {''price'', ''oldPrice'', ''cost'', ''stockQuantity'', ''weight'', ''length'', ''width'', ''height''}"
  shows "product_data (page_step now (Change t n k v c) pg) d cat = product_data pg d cat"
proof -
  have "n \<notin> set payload_fields"
    using tab_input_open [OF assms(1) unsent_tab_inputs [OF assms(2)]] assms(3) by auto
  then show ?thesis
    by (intro product_data_cong) (auto simp: handle_change_product_def list_all_iff)
qed

theorem unsent_fields_ignored_witness:
  "product_data (page_step 1 (Change Inventory ''manageInventory''
       (Select [''dont-track'', ''track'', ''track-by-attributes'']) ''dont-track'' False) init_product_page) False JNull
   = product_data init_product_page False JNull"
  by (rule unsent_fields_ignored) (simp_all add: tab_section_defs)

end
