(* ===== verification/Catalog.thy ===== *)
theory Catalog
  imports JsNumber
begin

text \<open>
  The brand and manufacturer administration pages, \<open>src/app/admin/brands/page.tsx\<close> and
  \<open>src/app/admin/manufacturers/page.tsx\<close>, and the endpoint table of
  \<open>src/lib/api-config.ts\<close> they use. The two pages are the same code up to the entity's
  name, its endpoint and its icon, so one model serves both: the definitions take a
  \<open>catalog_cfg\<close> (endpoint, noun for messages, label for titles), and
  \<open>brands_cfg\<close>/\<open>manufacturers_cfg\<close> instantiate it. A \<open>Manufacturer\<close> has exactly the
  fields of a \<open>Brand\<close>. Requests are values (method, URL, headers, JSON body); the replies
  of the API and the dates' \<open>toLocaleString\<close> are parameters. The emoji of the modal
  titles are left out of the strings.
\<close>

subsection \<open>API configuration\<close>

definition api_base_url :: "string option \<Rightarrow> string" where
  "api_base_url env = js_or_opt env ''http://localhost:5285''"

datatype resource = Login_res | Register_res | Categories_res | Brands_res | Manufacturers_res
  | Products_res | Orders_res | Customers_res

fun api_endpoint :: "string option \<Rightarrow> resource \<Rightarrow> string" where
  "api_endpoint env Login_res = api_base_url env @ ''/api/auth/login''"
| "api_endpoint env Register_res = api_base_url env @ ''/api/auth/register''"
| "api_endpoint env Categories_res = api_base_url env @ ''/api/categories''"
| "api_endpoint env Brands_res = api_base_url env @ ''/api/brands''"
| "api_endpoint env Manufacturers_res = api_base_url env @ ''/api/manufacturers''"
| "api_endpoint env Products_res = api_base_url env @ ''/api/products''"
| "api_endpoint env Orders_res = api_base_url env @ ''/api/orders''"
| "api_endpoint env Customers_res = api_base_url env @ ''/api/customers''"

record http_request =
  http_method :: string
  url :: string
  headers :: "(string \<times> string) list"
  body :: "(string \<times> json) list option"

text \<open>\<open>...(token && { 'Authorization': `Bearer ${token}` })\<close>.\<close>

definition auth_headers :: "string option \<Rightarrow> (string \<times> string) list" where
  "auth_headers tok = (case tok of Some t \<Rightarrow> if t \<noteq> [] then [(''Authorization'', ''Bearer '' @ t)] else []
                      | None \<Rightarrow> [])"

definition status_ok :: "nat \<Rightarrow> bool" where
  "status_ok st = (200 \<le> st \<and> st < 300)"

datatype 'a load_reply = Load_failed | Load_reply nat "'a list option"

datatype save_reply = Save_failed | Save_reply nat

subsection \<open>State\<close>

record catalog_cfg =
  endpoint :: string
  noun :: string
  label :: string

definition brands_cfg :: "string option \<Rightarrow> catalog_cfg" where
  "brands_cfg env = \<lparr>endpoint = api_endpoint env Brands_res, noun = ''brand'', label = ''Brand''\<rparr>"

definition manufacturers_cfg :: "string option \<Rightarrow> catalog_cfg" where
  "manufacturers_cfg env =
     \<lparr>endpoint = api_endpoint env Manufacturers_res, noun = ''manufacturer'', label = ''Manufacturer''\<rparr>"

record brand =
  b_id :: string
  b_name :: string
  b_description :: string
  b_slug :: string
  b_logo :: "string option"
  b_published :: bool
  b_homepage :: bool
  b_order :: js_num
  b_products :: nat
  b_meta_title :: "string option"
  b_meta_description :: "string option"
  b_meta_keywords :: "string option"
  b_created_at :: "string option"
  b_updated_at :: "string option"
  b_created_by :: "string option"
  b_updated_by :: "string option"

record brand_form =
  f_name :: string
  f_description :: string
  f_logo :: string
  f_published :: bool
  f_homepage :: bool
  f_order :: js_num
  f_meta_title :: string
  f_meta_description :: string
  f_meta_keywords :: string

record brand_page =
  brands :: "brand list"
  loading :: bool
  search :: string
  show_modal :: bool
  editing :: "brand option"
  selected_image :: "string option"
  viewing :: "brand option"
  form :: brand_form

definition init_brand_form :: brand_form where
  "init_brand_form =
     \<lparr>f_name = [], f_description = [], f_logo = [], f_published = True, f_homepage = False,
      f_order = Finite 1, f_meta_title = [], f_meta_description = [], f_meta_keywords = []\<rparr>"

definition init_brand_page :: brand_page where
  "init_brand_page =
     \<lparr>brands = [], loading = True, search = [], show_modal = False, editing = None,
      selected_image = None, viewing = None, form = init_brand_form\<rparr>"

subsection \<open>Handlers\<close>

definition get_image_url :: "string option \<Rightarrow> string option \<Rightarrow> string" where
  "get_image_url env u =
     (case u of None \<Rightarrow> [] | Some s \<Rightarrow>
        if s = [] then [] else if starts_with s ''http'' then s else api_base_url env @ s)"

definition brand_fetch_url :: "catalog_cfg \<Rightarrow> string" where
  "brand_fetch_url cfg = endpoint cfg @ ''?includeUnpublished=true''"

definition fetch_brands :: "brand load_reply \<Rightarrow> brand_page \<Rightarrow> brand_page" where
  "fetch_brands r pg =
     (case r of Load_reply st d \<Rightarrow>
        if status_ok st then pg\<lparr>brands := (case d of Some xs \<Rightarrow> xs | None \<Rightarrow> []), loading := False\<rparr>
        else pg\<lparr>loading := False\<rparr>
      | Load_failed \<Rightarrow> pg\<lparr>loading := False\<rparr>)"

definition brand_payload :: "brand_form \<Rightarrow> brand option \<Rightarrow> (string \<times> json) list" where
  "brand_payload f ed =
     [(''name'', JStr (f_name f)), (''description'', JStr (f_description f)), (''logoUrl'', JStr (f_logo f)),
      (''isPublished'', JBool (f_published f)), (''showOnHomepage'', JBool (f_homepage f)),
      (''displayOrder'', num_json (f_order f)), (''metaTitle'', JStr (f_meta_title f)),
      (''metaDescription'', JStr (f_meta_description f)), (''metaKeywords'', JStr (f_meta_keywords f))]
     @ (case ed of Some b \<Rightarrow> [(''id'', JStr (b_id b))] | None \<Rightarrow> [])"

definition brand_submit_request :: "catalog_cfg \<Rightarrow> brand_page \<Rightarrow> string option \<Rightarrow> string + http_request" where
  "brand_submit_request cfg pg tok =
     (if \<not> truthy tok then Inl ''Please login first''
      else Inr \<lparr>http_method = (if editing pg \<noteq> None then ''PUT'' else ''POST''),
                url = (case editing pg of Some b \<Rightarrow> endpoint cfg @ ''/'' @ b_id b | None \<Rightarrow> endpoint cfg),
                headers = [(''Content-Type'', ''application/json''), (''Authorization'', ''Bearer '' @ the tok)],
                body = Some (brand_payload (form pg) (editing pg))\<rparr>)"

definition brand_reset_form :: "brand_page \<Rightarrow> brand_page" where
  "brand_reset_form pg = pg\<lparr>form := init_brand_form, editing := None\<rparr>"

definition brand_submit_reply :: "catalog_cfg \<Rightarrow> save_reply \<Rightarrow> brand load_reply \<Rightarrow> brand_page
    \<Rightarrow> brand_page \<times> string option" where
  "brand_submit_reply cfg r refetch pg =
     (case r of
        Save_reply st \<Rightarrow>
          if status_ok st \<or> st = 201 then (brand_reset_form ((fetch_brands refetch pg)\<lparr>show_modal := False\<rparr>), None)
          else if st = 401 then (pg, Some ''Unauthorized. Please login again.'')
          else (pg, Some (''Failed to save '' @ noun cfg))
      | Save_failed \<Rightarrow> (pg, Some (''Failed to save '' @ noun cfg)))"

definition brand_handle_submit :: "catalog_cfg \<Rightarrow> brand_page \<Rightarrow> string option \<Rightarrow> (http_request \<Rightarrow> save_reply)
    \<Rightarrow> brand load_reply \<Rightarrow> brand_page \<times> string option \<times> http_request option" where
  "brand_handle_submit cfg pg tok server refetch =
     (case brand_submit_request cfg pg tok of
        Inl msg \<Rightarrow> (pg, Some msg, None)
      | Inr req \<Rightarrow> (let (pg', msg) = brand_submit_reply cfg (server req) refetch pg in (pg', msg, Some req)))"

definition form_of_brand :: "brand \<Rightarrow> brand_form" where
  "form_of_brand b =
     \<lparr>f_name = b_name b, f_description = b_description b, f_logo = js_or_opt (b_logo b) [],
      f_published = b_published b, f_homepage = b_homepage b, f_order = b_order b,
      f_meta_title = js_or_opt (b_meta_title b) [], f_meta_description = js_or_opt (b_meta_description b) [],
      f_meta_keywords = js_or_opt (b_meta_keywords b) []\<rparr>"

definition brand_handle_edit :: "brand \<Rightarrow> brand_page \<Rightarrow> brand_page" where
  "brand_handle_edit b pg = pg\<lparr>editing := Some b, form := form_of_brand b, show_modal := True\<rparr>"

text \<open>\<open>handleDelete\<close>: nothing unless the user confirms; then a \<open>DELETE\<close>, and on success
  the list is fetched again.\<close>

definition brand_handle_delete :: "catalog_cfg \<Rightarrow> string \<Rightarrow> bool \<Rightarrow> string option \<Rightarrow> (http_request \<Rightarrow> save_reply)
    \<Rightarrow> brand load_reply \<Rightarrow> brand_page \<Rightarrow> brand_page \<times> string option \<times> http_request option" where
  "brand_handle_delete cfg i confirmed tok server refetch pg =
     (if \<not> confirmed then (pg, None, None)
      else let req = \<lparr>http_method = ''DELETE'', url = endpoint cfg @ ''/'' @ i, headers = auth_headers tok, body = None\<rparr>
           in (case server req of
                 Save_reply st \<Rightarrow>
                   if status_ok st then (fetch_brands refetch pg, None, Some req)
                   else (pg, Some (''Failed to delete '' @ noun cfg), Some req)
               | Save_failed \<Rightarrow> (pg, Some (''Failed to delete '' @ noun cfg), Some req)))"

definition filtered_brands :: "string \<Rightarrow> brand list \<Rightarrow> brand list" where
  "filtered_brands s bs =
     filter (\<lambda>b. str_includes (to_lower (b_name b)) (to_lower s)
                \<or> str_includes (to_lower (b_description b)) (to_lower s)) bs"

text \<open>The inputs of the create/edit modal, each \<open>setFormData({...formData, field: value})\<close>;
  the display order is \<open>parseInt(e.target.value)\<close>.\<close>

datatype brand_field = Name_in string | Order_in string | Description_in string | Logo_url_in string
  | Meta_title_in string | Meta_description_in string | Meta_keywords_in string
  | Published_in bool | Homepage_in bool

fun brand_edit_field :: "brand_field \<Rightarrow> brand_form \<Rightarrow> brand_form" where
  "brand_edit_field (Name_in v) f = f\<lparr>f_name := v\<rparr>"
| "brand_edit_field (Order_in v) f = f\<lparr>f_order := parse_int v\<rparr>"
| "brand_edit_field (Description_in v) f = f\<lparr>f_description := v\<rparr>"
| "brand_edit_field (Logo_url_in v) f = f\<lparr>f_logo := v\<rparr>"
| "brand_edit_field (Meta_title_in v) f = f\<lparr>f_meta_title := v\<rparr>"
| "brand_edit_field (Meta_description_in v) f = f\<lparr>f_meta_description := v\<rparr>"
| "brand_edit_field (Meta_keywords_in v) f = f\<lparr>f_meta_keywords := v\<rparr>"
| "brand_edit_field (Published_in b) f = f\<lparr>f_published := b\<rparr>"
| "brand_edit_field (Homepage_in b) f = f\<lparr>f_homepage := b\<rparr>"

text \<open>The logo file input: with a file chosen, a \<open>POST\<close> to \<open>upload-logo\<close> (without the
  token); on success \<open>logoUrl\<close> becomes \<open>result.data\<close>.\<close>

datatype upload_reply = Upload_failed | Upload_reply nat string

definition logo_upload :: "catalog_cfg \<Rightarrow> bool \<Rightarrow> upload_reply \<Rightarrow> brand_page \<Rightarrow> brand_page \<times> string option" where
  "logo_upload cfg has_file r pg =
     (if \<not> has_file then (pg, None)
      else case r of
        Upload_reply st d \<Rightarrow>
          if status_ok st then (pg\<lparr>form := (form pg)\<lparr>f_logo := d\<rparr>\<rparr>, None) else (pg, Some ''Failed to upload logo'')
      | Upload_failed \<Rightarrow> (pg, Some ''Failed to upload logo''))"

subsection \<open>Rendering\<close>

definition count_label :: "catalog_cfg \<Rightarrow> nat \<Rightarrow> string" where
  "count_label cfg n = decimal n @ '' '' @ noun cfg @ (if n \<noteq> 1 then ''s'' else [])"

record brand_row =
  row_logo :: "string option"
  row_name :: string
  row_slug :: string
  row_products :: nat
  row_status :: string
  row_homepage :: string
  row_order :: js_num
  row_created :: string
  row_updated :: string
  row_updated_by :: string

definition date_or :: "(string \<Rightarrow> string) \<Rightarrow> string option \<Rightarrow> string \<Rightarrow> string" where
  "date_or fmt d dflt = (if truthy d then fmt (the d) else dflt)"

definition brand_row_view :: "string option \<Rightarrow> (string \<Rightarrow> string) \<Rightarrow> brand \<Rightarrow> brand_row" where
  "brand_row_view env fmt b =
     \<lparr>row_logo = (if truthy (b_logo b) then Some (get_image_url env (b_logo b)) else None),
      row_name = b_name b, row_slug = b_slug b, row_products = b_products b,
      row_status = (if b_published b then ''Published'' else ''Unpublished''),
      row_homepage = (if b_homepage b then ''Yes'' else ''No''), row_order = b_order b,
      row_created = date_or fmt (b_created_at b) ''-'', row_updated = date_or fmt (b_updated_at b) ''-'',
      row_updated_by = js_or_opt (b_updated_by b) ''-''\<rparr>"

record brand_modal =
  modal_title :: string
  submit_label :: string
  logo_preview :: "string option"

definition brand_modal_view :: "catalog_cfg \<Rightarrow> string option \<Rightarrow> brand_page \<Rightarrow> brand_modal option" where
  "brand_modal_view cfg env pg =
     (if show_modal pg then
        Some \<lparr>modal_title = (if editing pg \<noteq> None then ''Edit '' @ label cfg else ''Create New '' @ label cfg),
              submit_label = (if editing pg \<noteq> None then ''Update '' @ label cfg else ''+ Create '' @ label cfg),
              logo_preview = (if f_logo (form pg) \<noteq> [] then Some (get_image_url env (Some (f_logo (form pg)))) else None)\<rparr>
      else None)"

record brand_details =
  d_name :: string
  d_slug :: string
  d_description :: string
  d_order :: js_num
  d_meta_title :: string
  d_meta_description :: string
  d_meta_keywords :: string
  d_logo :: "string option"
  d_products :: nat
  d_status :: string
  d_created :: string
  d_created_by :: string
  d_updated :: string
  d_updated_by :: string

definition brand_details_view :: "string option \<Rightarrow> (string \<Rightarrow> string) \<Rightarrow> brand \<Rightarrow> brand_details" where
  "brand_details_view env fmt b =
     \<lparr>d_name = b_name b, d_slug = b_slug b, d_description = js_or (b_description b) ''No description'',
      d_order = b_order b, d_meta_title = js_or_opt (b_meta_title b) ''Not set'',
      d_meta_description = js_or_opt (b_meta_description b) ''Not set'',
      d_meta_keywords = js_or_opt (b_meta_keywords b) ''Not set'',
      d_logo = (if truthy (b_logo b) then Some (get_image_url env (b_logo b)) else None),
      d_products = b_products b, d_status = (if b_published b then ''Published'' else ''Unpublished''),
      d_created = date_or fmt (b_created_at b) ''N/A'', d_created_by = js_or_opt (b_created_by b) ''N/A'',
      d_updated = date_or fmt (b_updated_at b) ''N/A'', d_updated_by = js_or_opt (b_updated_by b) ''N/A''\<rparr>"

datatype brand_screen =
    Loading_screen string
  | Brand_screen string "brand_row list" "brand_modal option" "brand_details option" "string option"

text \<open>The whole page: the loading screen, or the count, the table (empty: "No brands
  found"), the modal, the details dialog and the enlarged image.\<close>

definition brand_view :: "catalog_cfg \<Rightarrow> string option \<Rightarrow> (string \<Rightarrow> string) \<Rightarrow> brand_page \<Rightarrow> brand_screen" where
  "brand_view cfg env fmt pg =
     (if loading pg then Loading_screen (''Loading '' @ noun cfg @ ''s...'')
      else let shown = filtered_brands (search pg) (brands pg) in
        Brand_screen (count_label cfg (length shown)) (map (brand_row_view env fmt) shown)
          (brand_modal_view cfg env pg) (map_option (brand_details_view env fmt) (viewing pg))
          (selected_image pg))"

subsection \<open>Events\<close>

datatype brand_event =
    B_loaded "brand load_reply"
  | B_search string
  | B_add
  | B_view brand
  | B_edit brand
  | B_delete string bool save_reply "brand load_reply"
  | B_preview brand
  | B_close_modal
  | B_field brand_field
  | B_logo bool upload_reply
  | B_submit save_reply "brand load_reply"
  | B_close_details
  | B_edit_from_details
  | B_close_preview

text \<open>The dialogs' inline handlers: Cancel and the modal's close button
  (\<open>setShowModal(false); resetForm()\<close>), the details dialog's Edit and Close, and a
  click on the picture preview.\<close>

definition brand_close_modal :: "brand_page \<Rightarrow> brand_page" where
  "brand_close_modal pg = brand_reset_form (pg\<lparr>show_modal := False\<rparr>)"

definition brand_edit_from_details :: "brand_page \<Rightarrow> brand_page" where
  "brand_edit_from_details pg =
     (case viewing pg of Some b \<Rightarrow> (brand_handle_edit b pg)\<lparr>viewing := None\<rparr> | None \<Rightarrow> pg)"

definition brand_close_details :: "brand_page \<Rightarrow> brand_page" where
  "brand_close_details pg = pg\<lparr>viewing := None\<rparr>"

definition brand_close_preview :: "brand_page \<Rightarrow> brand_page" where
  "brand_close_preview pg = pg\<lparr>selected_image := None\<rparr>"

text \<open>One event on the page with token \<open>tok\<close> in local storage: the new state and the
  alert shown. The server's replies are part of the event.\<close>

fun brand_step :: "catalog_cfg \<Rightarrow> string option \<Rightarrow> string option \<Rightarrow> brand_event \<Rightarrow> brand_page
    \<Rightarrow> brand_page \<times> string option" where
  "brand_step cfg env tok (B_loaded r) pg = (fetch_brands r pg, None)"
| "brand_step cfg env tok (B_search v) pg = (pg\<lparr>search := v\<rparr>, None)"
| "brand_step cfg env tok B_add pg = ((brand_reset_form pg)\<lparr>show_modal := True\<rparr>, None)"
| "brand_step cfg env tok (B_view b) pg = (pg\<lparr>viewing := Some b\<rparr>, None)"
| "brand_step cfg env tok (B_edit b) pg = (brand_handle_edit b pg, None)"
| "brand_step cfg env tok (B_delete i c r rf) pg =
     (let (pg', msg, _) = brand_handle_delete cfg i c tok (\<lambda>_. r) rf pg in (pg', msg))"
| "brand_step cfg env tok (B_preview b) pg = (pg\<lparr>selected_image := Some (get_image_url env (b_logo b))\<rparr>, None)"
| "brand_step cfg env tok B_close_modal pg = (brand_close_modal pg, None)"
| "brand_step cfg env tok (B_field fe) pg = (pg\<lparr>form := brand_edit_field fe (form pg)\<rparr>, None)"
| "brand_step cfg env tok (B_logo has r) pg = logo_upload cfg has r pg"
| "brand_step cfg env tok (B_submit r rf) pg =
     (let (pg', msg, _) = brand_handle_submit cfg pg tok (\<lambda>_. r) rf in (pg', msg))"
| "brand_step cfg env tok B_close_details pg = (brand_close_details pg, None)"
| "brand_step cfg env tok B_edit_from_details pg = (brand_edit_from_details pg, None)"
| "brand_step cfg env tok B_close_preview pg = (brand_close_preview pg, None)"

text \<open>Whether the control raising the event is on the screen: the table's buttons for a
  listed brand, the modal's controls while it is open (submission also needs a name, the
  input being \<open>required\<close>), the dialogs' buttons while they are open.\<close>

fun brand_enabled :: "brand_page \<Rightarrow> brand_event \<Rightarrow> bool" where
  "brand_enabled pg (B_loaded r) = True"
| "brand_enabled pg (B_view b) = (\<not> loading pg \<and> b \<in> set (filtered_brands (search pg) (brands pg)))"
| "brand_enabled pg (B_edit b) = (\<not> loading pg \<and> b \<in> set (filtered_brands (search pg) (brands pg)))"
| "brand_enabled pg (B_delete i c r rf) =
     (\<not> loading pg \<and> i \<in> set (map b_id (filtered_brands (search pg) (brands pg))))"
| "brand_enabled pg (B_preview b) =
     (\<not> loading pg \<and> b \<in> set (filtered_brands (search pg) (brands pg)) \<and> truthy (b_logo b))"
| "brand_enabled pg B_close_modal = show_modal pg"
| "brand_enabled pg (B_field fe) = show_modal pg"
| "brand_enabled pg (B_logo has r) = show_modal pg"
| "brand_enabled pg (B_submit r rf) = (show_modal pg \<and> f_name (form pg) \<noteq> [])"
| "brand_enabled pg B_close_details = (viewing pg \<noteq> None)"
| "brand_enabled pg B_edit_from_details = (viewing pg \<noteq> None)"
| "brand_enabled pg B_close_preview = (selected_image pg \<noteq> None)"
| "brand_enabled pg e = (\<not> loading pg)"

inductive brand_reach :: "catalog_cfg \<Rightarrow> string option \<Rightarrow> string option \<Rightarrow> brand_page \<Rightarrow> bool"
  for cfg env tok where
  start: "brand_reach cfg env tok init_brand_page"
| step: "brand_reach cfg env tok pg \<Longrightarrow> brand_enabled pg e
         \<Longrightarrow> brand_reach cfg env tok (fst (brand_step cfg env tok e pg))"

text \<open>The manufacturer page is the brand page with the manufacturer endpoint and noun.\<close>

definition manufacturer_step :: "string option \<Rightarrow> string option \<Rightarrow> brand_event \<Rightarrow> brand_page
    \<Rightarrow> brand_page \<times> string option" where
  "manufacturer_step env tok e pg = brand_step (manufacturers_cfg env) env tok e pg"

definition manufacturer_view :: "string option \<Rightarrow> (string \<Rightarrow> string) \<Rightarrow> brand_page \<Rightarrow> brand_screen" where
  "manufacturer_view env fmt pg = brand_view (manufacturers_cfg env) env fmt pg"

definition manufacturer_modal_view :: "string option \<Rightarrow> brand_page \<Rightarrow> brand_modal option" where
  "manufacturer_modal_view env pg = brand_modal_view (manufacturers_cfg env) env pg"

definition manufacturer_submit_request :: "string option \<Rightarrow> brand_page \<Rightarrow> string option \<Rightarrow> string + http_request" where
  "manufacturer_submit_request env pg tok = brand_submit_request (manufacturers_cfg env) pg tok"

type_synonym manufacturer = brand

type_synonym manufacturer_page = brand_page

definition manufacturer_image_url :: "string option \<Rightarrow> string option \<Rightarrow> string" where
  "manufacturer_image_url env u = get_image_url env u"

definition manufacturer_details_view :: "string option \<Rightarrow> (string \<Rightarrow> string) \<Rightarrow> manufacturer \<Rightarrow> brand_details" where
  "manufacturer_details_view env fmt m = brand_details_view env fmt m"

definition sample_brand :: brand where
  "sample_brand =
     \<lparr>b_id = ''b7'', b_name = ''Acme'', b_description = ''Tools'', b_slug = ''acme'', b_logo = None,
      b_published = True, b_homepage = False, b_order = Finite 3, b_products = 12,
      b_meta_title = None, b_meta_description = None, b_meta_keywords = None,
      b_created_at = None, b_updated_at = None, b_created_by = None, b_updated_by = None\<rparr>"

subsection \<open>Lemmas\<close>

lemmas brand_dialog_defs = brand_close_modal_def brand_edit_from_details_def brand_close_details_def
  brand_close_preview_def

lemma parse_int_empty: "parse_int [] = NaN"
  by (simp add: parse_int_def sign_split_def)

lemma brand_step_editing:
  "editing pg \<noteq> None \<longrightarrow> show_modal pg \<Longrightarrow>
   editing (fst (brand_step cfg env tok e pg)) \<noteq> None \<longrightarrow> show_modal (fst (brand_step cfg env tok e pg))"
  by (cases e)
     (auto simp: brand_dialog_defs brand_handle_edit_def brand_reset_form_def fetch_brands_def brand_handle_delete_def
        brand_handle_submit_def brand_submit_reply_def logo_upload_def Let_def
        split: option.splits load_reply.splits save_reply.splits sum.splits upload_reply.splits prod.splits)

subsection \<open>Properties of the brand and manufacturer pages\<close>

text \<open>
  C29. Saving from the modal while editing a brand sends a PUT to the brand's own URL with the
  brand's id in the body; creating sends a POST to the collection URL with no id. Either way
  the token from local storage is sent as a bearer token.
\<close>

theorem brand_save_targets_edited:
  assumes "brand_submit_request cfg pg tok = Inr r"
  shows "(case editing pg of
            Some b \<Rightarrow> http_method r = ''PUT'' \<and> url r = endpoint cfg @ ''/'' @ b_id b
                      \<and> map_of (the (body r)) ''id'' = Some (JStr (b_id b))
          | None \<Rightarrow> http_method r = ''POST'' \<and> url r = endpoint cfg \<and> map_of (the (body r)) ''id'' = None)
         \<and> (''Authorization'', ''Bearer '' @ the tok) \<in> set (headers r)"
  using assms
  by (cases "editing pg") (auto simp: brand_submit_request_def brand_payload_def split: if_splits)

theorem brand_save_targets_edited_witness:
  "\<exists>r. brand_submit_request (brands_cfg None) (brand_handle_edit sample_brand init_brand_page) (Some ''abc'') = Inr r
     \<and> http_method r = ''PUT'' \<and> url r = ''http://localhost:5285/api/brands/b7''"
proof -
  obtain r where r: "brand_submit_request (brands_cfg None) (brand_handle_edit sample_brand init_brand_page) (Some ''abc'') = Inr r"
    by (simp add: brand_submit_request_def)
  then show ?thesis using brand_save_targets_edited[OF r]
    by (simp add: brand_handle_edit_def sample_brand_def brands_cfg_def api_base_url_def)
qed

text \<open>
  C30. Clearing the display-order input stores \<open>parseInt('')\<close>, i.e. NaN, in the form, and the
  next save sends \<open>displayOrder: null\<close> (JSON has no NaN).
\<close>

theorem cleared_order_sent_null:
  assumes "brand_submit_request cfg (pg\<lparr>form := brand_edit_field (Order_in []) (form pg)\<rparr>) tok = Inr r"
  shows "map_of (the (body r)) ''displayOrder'' = Some JNull"
  using assms by (auto simp: brand_submit_request_def brand_payload_def parse_int_empty split: if_splits)

theorem cleared_order_sent_null_witness:
  "\<exists>r. brand_submit_request (manufacturers_cfg None)
         (init_brand_page\<lparr>form := brand_edit_field (Order_in []) (form init_brand_page)\<rparr>) (Some ''abc'') = Inr r
     \<and> map_of (the (body r)) ''displayOrder'' = Some JNull"
proof -
  obtain r where r: "brand_submit_request (manufacturers_cfg None)
         (init_brand_page\<lparr>form := brand_edit_field (Order_in []) (form init_brand_page)\<rparr>) (Some ''abc'') = Inr r"
    by (simp add: brand_submit_request_def)
  then show ?thesis using cleared_order_sent_null[OF r] by blast
qed

text \<open>
  C31. Without a token in local storage the save shows "Please login first", sends nothing and
  leaves the page unchanged.
\<close>

theorem brand_save_needs_token:
  assumes "\<not> truthy tok"
  shows "brand_handle_submit cfg pg tok server rf = (pg, Some ''Please login first'', None)"
  using assms by (simp add: brand_handle_submit_def brand_submit_request_def)

theorem brand_save_needs_token_witness:
  "brand_handle_submit (brands_cfg None) init_brand_page None (\<lambda>_. Save_reply 200) Load_failed
     = (init_brand_page, Some ''Please login first'', None)"
  by (rule brand_save_needs_token) simp

text \<open>
  C32. A save the API rejects (other than 201) leaves the page as it was, modal and typed values
  included, and tells the user; a 401 gets its own message.
\<close>

theorem brand_failed_save_keeps_form:
  assumes "\<not> status_ok st" and "st \<noteq> 201"
  shows "brand_submit_reply cfg (Save_reply st) rf pg
     = (pg, Some (if st = 401 then ''Unauthorized. Please login again.'' else ''Failed to save '' @ noun cfg))"
  using assms by (simp add: brand_submit_reply_def)

theorem brand_failed_save_keeps_form_witness:
  "brand_submit_reply (brands_cfg None) (Save_reply 500) Load_failed init_brand_page
     = (init_brand_page, Some ''Failed to save brand'')"
  using brand_failed_save_keeps_form[of 500] by (simp add: status_ok_def brands_cfg_def)

text \<open>
  C33. On every reachable state of the page a brand is being edited only while the modal is
  open, so the "Update" modal is the only way a PUT is sent.
\<close>

theorem brand_editing_only_in_modal:
  assumes "brand_reach cfg env tok pg"
  shows "editing pg \<noteq> None \<longrightarrow> show_modal pg"
  using assms
  by (induction rule: brand_reach.induct) (simp_all add: init_brand_page_def brand_step_editing)

theorem brand_editing_only_in_modal_witness:
  "editing (brand_handle_edit sample_brand init_brand_page) \<noteq> None
   \<and> show_modal (brand_handle_edit sample_brand init_brand_page)"
proof -
  have "brand_reach (brands_cfg None) None None (fst (brand_step (brands_cfg None) None None (B_edit sample_brand)
          (fst (brand_step (brands_cfg None) None None (B_loaded (Load_reply 200 (Some [sample_brand]))) init_brand_page))))"
    by (intro brand_reach.step brand_reach.start)
       (simp_all add: fetch_brands_def init_brand_page_def status_ok_def filtered_brands_def sample_brand_def to_lower_def)
  then have "editing (brand_handle_edit sample_brand init_brand_page) \<noteq> None
      \<longrightarrow> show_modal (brand_handle_edit sample_brand init_brand_page)"
    using brand_editing_only_in_modal
    by (simp add: brand_handle_edit_def fetch_brands_def init_brand_page_def status_ok_def)
  then show ?thesis by (simp add: brand_handle_edit_def)
qed

end
