(* ===== verification/Categories.thy ===== *)
theory Categories
  imports Catalog
begin

text \<open>
  The category administration page \<open>src/app/admin/categories/page.tsx\<close>. It has the
  structure of the brand page (\<open>Catalog\<close>, whose request, reply and image-URL helpers it
  reuses) with a parent category, an image upload that authenticates, a save without a
  token check, and a loading state shown inside the table. The image upload is
  asynchronous and its completion writes the \<open>formData\<close> captured when the upload
  started: pending uploads are kept as those captured forms, so that edits made while an
  upload runs can be interleaved with its completion.
\<close>

subsection \<open>State\<close>

record category =
  c_id :: string
  c_name :: string
  c_description :: string
  c_slug :: string
  c_image :: "string option"
  c_active :: bool
  c_sort :: js_num
  c_products :: nat
  c_meta_title :: "string option"
  c_meta_description :: "string option"
  c_meta_keywords :: "string option"
  c_parent :: "string option"
  c_created_at :: "string option"
  c_updated_at :: "string option"
  c_created_by :: "string option"
  c_updated_by :: "string option"

record category_form =
  cf_name :: string
  cf_description :: string
  cf_image :: string
  cf_active :: bool
  cf_sort :: js_num
  cf_meta_title :: string
  cf_meta_description :: string
  cf_meta_keywords :: string
  cf_parent :: string

record category_page =
  categories :: "category list"
  c_loading :: bool
  c_search :: string
  c_show_modal :: bool
  c_editing :: "category option"
  c_selected_image :: "string option"
  c_viewing :: "category option"
  c_form :: category_form
  uploads :: "category_form list"

definition init_category_form :: category_form where
  "init_category_form =
     \<lparr>cf_name = [], cf_description = [], cf_image = [], cf_active = True, cf_sort = Finite 1,
      cf_meta_title = [], cf_meta_description = [], cf_meta_keywords = [], cf_parent = []\<rparr>"

definition init_category_page :: category_page where
  "init_category_page =
     \<lparr>categories = [], c_loading = True, c_search = [], c_show_modal = False, c_editing = None,
      c_selected_image = None, c_viewing = None, c_form = init_category_form, uploads = []\<rparr>"

subsection \<open>Handlers\<close>

definition categories_url :: "string option \<Rightarrow> string" where
  "categories_url env = api_endpoint env Categories_res"

definition fetch_categories_request :: "string option \<Rightarrow> string option \<Rightarrow> http_request" where
  "fetch_categories_request env tok =
     \<lparr>http_method = ''GET'', url = categories_url env @ ''?includeInactive=true&includeSubCategories=false'',
      headers = auth_headers tok, body = None\<rparr>"

definition fetch_categories :: "category load_reply \<Rightarrow> category_page \<Rightarrow> category_page" where
  "fetch_categories r pg =
     (case r of Load_reply st d \<Rightarrow>
        if status_ok st then pg\<lparr>categories := (case d of Some xs \<Rightarrow> xs | None \<Rightarrow> []), c_loading := False\<rparr>
        else pg\<lparr>c_loading := False\<rparr>
      | Load_failed \<Rightarrow> pg\<lparr>c_loading := False\<rparr>)"

definition category_payload :: "category_form \<Rightarrow> category option \<Rightarrow> (string \<times> json) list" where
  "category_payload f ed =
     [(''name'', JStr (cf_name f)), (''description'', JStr (cf_description f)), (''imageUrl'', JStr (cf_image f)),
      (''isActive'', JBool (cf_active f)), (''sortOrder'', num_json (cf_sort f)),
      (''metaTitle'', JStr (cf_meta_title f)), (''metaDescription'', JStr (cf_meta_description f)),
      (''metaKeywords'', JStr (cf_meta_keywords f)),
      (''parentCategoryId'', if cf_parent f \<noteq> [] then JStr (cf_parent f) else JNull)]
     @ (case ed of Some c \<Rightarrow> [(''id'', JStr (c_id c))] | None \<Rightarrow> [])"

definition category_submit_request :: "string option \<Rightarrow> category_page \<Rightarrow> string option \<Rightarrow> http_request" where
  "category_submit_request env pg tok =
     \<lparr>http_method = (if c_editing pg \<noteq> None then ''PUT'' else ''POST''),
      url = (case c_editing pg of Some c \<Rightarrow> categories_url env @ ''/'' @ c_id c | None \<Rightarrow> categories_url env),
      headers = (''Content-Type'', ''application/json'') # auth_headers tok,
      body = Some (category_payload (c_form pg) (c_editing pg))\<rparr>"

definition category_reset_form :: "category_page \<Rightarrow> category_page" where
  "category_reset_form pg = pg\<lparr>c_form := init_category_form, c_editing := None\<rparr>"

definition save_failed_msg :: "category_page \<Rightarrow> string" where
  "save_failed_msg pg = ''Failed to '' @ (if c_editing pg \<noteq> None then ''update'' else ''create'') @ '' category''"

definition category_submit_reply :: "save_reply \<Rightarrow> category load_reply \<Rightarrow> category_page \<Rightarrow> category_page \<times> string option" where
  "category_submit_reply r refetch pg =
     (case r of
        Save_reply st \<Rightarrow>
          if status_ok st then (category_reset_form ((fetch_categories refetch pg)\<lparr>c_show_modal := False\<rparr>), None)
          else (pg, Some (save_failed_msg pg))
      | Save_failed \<Rightarrow> (pg, Some (save_failed_msg pg)))"

definition category_handle_edit :: "category \<Rightarrow> category_page \<Rightarrow> category_page" where
  "category_handle_edit c pg =
     pg\<lparr>c_editing := Some c,
        c_form := \<lparr>cf_name = c_name c, cf_description = c_description c, cf_image = js_or_opt (c_image c) [],
                   cf_active = c_active c, cf_sort = c_sort c, cf_meta_title = js_or_opt (c_meta_title c) [],
                   cf_meta_description = js_or_opt (c_meta_description c) [],
                   cf_meta_keywords = js_or_opt (c_meta_keywords c) [], cf_parent = js_or_opt (c_parent c) []\<rparr>,
        c_show_modal := True\<rparr>"

definition category_handle_delete :: "string option \<Rightarrow> string \<Rightarrow> bool \<Rightarrow> string option \<Rightarrow> save_reply
    \<Rightarrow> category load_reply \<Rightarrow> category_page \<Rightarrow> category_page \<times> string option \<times> http_request option" where
  "category_handle_delete env i confirmed tok r refetch pg =
     (if \<not> confirmed then (pg, None, None)
      else let req = \<lparr>http_method = ''DELETE'', url = categories_url env @ ''/'' @ i, headers = auth_headers tok, body = None\<rparr>
           in (case r of
                 Save_reply st \<Rightarrow>
                   if status_ok st then (fetch_categories refetch pg, None, Some req)
                   else (pg, Some ''Failed to delete category'', Some req)
               | Save_failed \<Rightarrow> (pg, Some ''Failed to delete category'', Some req)))"

text \<open>\<open>getParentCategoryOptions\<close>: its comment says it excludes the current category and
  its children; the code excludes the current category only.\<close>

definition parent_options :: "category_page \<Rightarrow> category list" where
  "parent_options pg =
     filter (\<lambda>cat. \<not> (c_editing pg \<noteq> None \<and> c_id cat = c_id (the (c_editing pg)))) (categories pg)"

definition filtered_categories :: "string \<Rightarrow> category list \<Rightarrow> category list" where
  "filtered_categories s cs = filter (\<lambda>c. str_includes (to_lower (c_name c)) (to_lower s)) cs"

datatype category_field = CName_in string | CParent_in string | CDescription_in string
  | CImage_url_in string | CMeta_title_in string | CMeta_description_in string
  | CMeta_keywords_in string | CActive_in bool | CSort_in string

fun category_edit_field :: "category_field \<Rightarrow> category_form \<Rightarrow> category_form" where
  "category_edit_field (CName_in v) f = f\<lparr>cf_name := v\<rparr>"
| "category_edit_field (CParent_in v) f = f\<lparr>cf_parent := v\<rparr>"
| "category_edit_field (CDescription_in v) f = f\<lparr>cf_description := v\<rparr>"
| "category_edit_field (CImage_url_in v) f = f\<lparr>cf_image := v\<rparr>"
| "category_edit_field (CMeta_title_in v) f = f\<lparr>cf_meta_title := v\<rparr>"
| "category_edit_field (CMeta_description_in v) f = f\<lparr>cf_meta_description := v\<rparr>"
| "category_edit_field (CMeta_keywords_in v) f = f\<lparr>cf_meta_keywords := v\<rparr>"
| "category_edit_field (CActive_in b) f = f\<lparr>cf_active := b\<rparr>"
| "category_edit_field (CSort_in v) f = f\<lparr>cf_sort := parse_int v\<rparr>"

text \<open>The image input's \<open>onChange\<close>: choosing a file starts an upload whose handler
  closes over the current \<open>formData\<close>; when the reply arrives it writes
  \<open>{...formData, imageUrl: result.data}\<close> with that captured object.\<close>

definition upload_start :: "bool \<Rightarrow> category_page \<Rightarrow> category_page" where
  "upload_start has_file pg = (if has_file then pg\<lparr>uploads := uploads pg @ [c_form pg]\<rparr> else pg)"

definition upload_done :: "nat \<Rightarrow> upload_reply \<Rightarrow> category_page \<Rightarrow> category_page \<times> string option" where
  "upload_done k r pg =
     (let snap = uploads pg ! k; pg' = pg\<lparr>uploads := drop_index k (uploads pg)\<rparr> in
      case r of
        Upload_reply st d \<Rightarrow>
          if status_ok st then (pg'\<lparr>c_form := snap\<lparr>cf_image := d\<rparr>\<rparr>, None) else (pg', Some ''Failed to upload image'')
      | Upload_failed \<Rightarrow> (pg', Some ''Failed to upload image''))"

definition upload_request :: "string option \<Rightarrow> string option \<Rightarrow> http_request" where
  "upload_request env tok =
     \<lparr>http_method = ''POST'', url = categories_url env @ ''/upload-image'', headers = auth_headers tok, body = None\<rparr>"

subsection \<open>Rendering\<close>

record category_row =
  cr_image :: "string option"
  cr_name :: string
  cr_slug :: string
  cr_parent :: string
  cr_products :: nat
  cr_status :: string
  cr_sort :: js_num
  cr_created :: string
  cr_updated :: string
  cr_updated_by :: string

text \<open>The parent column: \<open>categories.find(c => c.id === parentId)?.name || '-'\<close>, or
  "Root Category" without a parent.\<close>

definition parent_label :: "category list \<Rightarrow> category \<Rightarrow> string" where
  "parent_label cs c =
     (if truthy (c_parent c) then
        (case find (\<lambda>x. c_id x = the (c_parent c)) cs of Some p \<Rightarrow> js_or (c_name p) ''-'' | None \<Rightarrow> ''-'')
      else ''Root Category'')"

definition category_row_view :: "string option \<Rightarrow> (string \<Rightarrow> string) \<Rightarrow> category list \<Rightarrow> category \<Rightarrow> category_row" where
  "category_row_view env fmt cs c =
     \<lparr>cr_image = (if truthy (c_image c) then Some (get_image_url env (c_image c)) else None),
      cr_name = c_name c, cr_slug = c_slug c, cr_parent = parent_label cs c, cr_products = c_products c,
      cr_status = (if c_active c then ''Active'' else ''Inactive''), cr_sort = c_sort c,
      cr_created = date_or fmt (c_created_at c) ''-'', cr_updated = date_or fmt (c_updated_at c) ''-'',
      cr_updated_by = js_or_opt (c_updated_by c) ''-''\<rparr>"

record category_modal =
  cm_title :: string
  cm_subtitle :: string
  cm_parent_choices :: "(string \<times> string) list"
  cm_preview :: "string option"
  cm_submit :: string

definition category_modal_view :: "string option \<Rightarrow> category_page \<Rightarrow> category_modal option" where
  "category_modal_view env pg =
     (if c_show_modal pg then
        Some \<lparr>cm_title = (if c_editing pg \<noteq> None then ''Edit Category'' else ''Create New Category''),
              cm_subtitle = (if c_editing pg \<noteq> None then ''Update category information''
                             else ''Add a new category to your store''),
              cm_parent_choices = ([], ''None (Root Category)'') # map (\<lambda>c. (c_id c, c_name c)) (parent_options pg),
              cm_preview = (if cf_image (c_form pg) \<noteq> [] then Some (get_image_url env (Some (cf_image (c_form pg))))
                            else None),
              cm_submit = (if c_editing pg \<noteq> None then ''Update Category'' else ''+ Create Category'')\<rparr>
      else None)"

record category_details =
  cd_image :: "string option"
  cd_name :: string
  cd_slug :: string
  cd_sort :: js_num
  cd_description :: string
  cd_meta_title :: string
  cd_meta_description :: string
  cd_meta_keywords :: string
  cd_products :: nat
  cd_status :: string
  cd_created :: string
  cd_created_by :: string
  cd_updated :: string
  cd_updated_by :: string

definition category_details_view :: "string option \<Rightarrow> (string \<Rightarrow> string) \<Rightarrow> category \<Rightarrow> category_details" where
  "category_details_view env fmt c =
     \<lparr>cd_image = (if truthy (c_image c) then Some (get_image_url env (c_image c)) else None),
      cd_name = c_name c, cd_slug = c_slug c, cd_sort = c_sort c,
      cd_description = js_or (c_description c) ''No description'',
      cd_meta_title = js_or_opt (c_meta_title c) ''Not set'',
      cd_meta_description = js_or_opt (c_meta_description c) ''Not set'',
      cd_meta_keywords = js_or_opt (c_meta_keywords c) ''Not set'', cd_products = c_products c,
      cd_status = (if c_active c then ''Active'' else ''Inactive''),
      cd_created = date_or fmt (c_created_at c) ''N/A'', cd_created_by = js_or_opt (c_created_by c) ''N/A'',
      cd_updated = date_or fmt (c_updated_at c) ''N/A'', cd_updated_by = js_or_opt (c_updated_by c) ''N/A''\<rparr>"

datatype category_table = Table_loading | No_categories | Category_rows "category_row list"

definition category_table_view :: "string option \<Rightarrow> (string \<Rightarrow> string) \<Rightarrow> category_page \<Rightarrow> category_table" where
  "category_table_view env fmt pg =
     (if c_loading pg then Table_loading
      else let shown = filtered_categories (c_search pg) (categories pg) in
        if shown = [] then No_categories
        else Category_rows (map (category_row_view env fmt (categories pg)) shown))"

subsection \<open>Events\<close>

datatype category_event =
    C_loaded "category load_reply"
  | C_search string
  | C_add
  | C_view category
  | C_edit category
  | C_delete string bool save_reply "category load_reply"
  | C_preview string
  | C_close_modal
  | C_field category_field
  | C_upload_start bool
  | C_upload_done nat upload_reply
  | C_submit save_reply "category load_reply"
  | C_close_details
  | C_edit_from_details
  | C_close_preview

text \<open>The dialogs' inline handlers, as on the brand page; the details dialog's Edit
  closes the dialog before \<open>handleEdit\<close>.\<close>

definition category_close_modal :: "category_page \<Rightarrow> category_page" where
  "category_close_modal pg = category_reset_form (pg\<lparr>c_show_modal := False\<rparr>)"

definition category_edit_from_details :: "category_page \<Rightarrow> category_page" where
  "category_edit_from_details pg =
     (case c_viewing pg of Some c \<Rightarrow> category_handle_edit c (pg\<lparr>c_viewing := None\<rparr>) | None \<Rightarrow> pg)"

definition category_close_details :: "category_page \<Rightarrow> category_page" where
  "category_close_details pg = pg\<lparr>c_viewing := None\<rparr>"

definition category_close_preview :: "category_page \<Rightarrow> category_page" where
  "category_close_preview pg = pg\<lparr>c_selected_image := None\<rparr>"

fun category_step :: "string option \<Rightarrow> string option \<Rightarrow> category_event \<Rightarrow> category_page
    \<Rightarrow> category_page \<times> string option" where
  "category_step env tok (C_loaded r) pg = (fetch_categories r pg, None)"
| "category_step env tok (C_search v) pg = (pg\<lparr>c_search := v\<rparr>, None)"
| "category_step env tok C_add pg = ((category_reset_form pg)\<lparr>c_show_modal := True\<rparr>, None)"
| "category_step env tok (C_view c) pg = (pg\<lparr>c_viewing := Some c\<rparr>, None)"
| "category_step env tok (C_edit c) pg = (category_handle_edit c pg, None)"
| "category_step env tok (C_delete i cf r rf) pg =
     (let (pg', msg, _) = category_handle_delete env i cf tok r rf pg in (pg', msg))"
| "category_step env tok (C_preview u) pg = (pg\<lparr>c_selected_image := Some u\<rparr>, None)"
| "category_step env tok C_close_modal pg = (category_close_modal pg, None)"
| "category_step env tok (C_field fe) pg = (pg\<lparr>c_form := category_edit_field fe (c_form pg)\<rparr>, None)"
| "category_step env tok (C_upload_start has) pg = (upload_start has pg, None)"
| "category_step env tok (C_upload_done k r) pg = upload_done k r pg"
| "category_step env tok (C_submit r rf) pg = category_submit_reply r rf pg"
| "category_step env tok C_close_details pg = (category_close_details pg, None)"
| "category_step env tok C_edit_from_details pg = (category_edit_from_details pg, None)"
| "category_step env tok C_close_preview pg = (category_close_preview pg, None)"

fun category_enabled :: "string option \<Rightarrow> category_page \<Rightarrow> category_event \<Rightarrow> bool" where
  "category_enabled env pg (C_view c) = (\<not> c_loading pg \<and> c \<in> set (filtered_categories (c_search pg) (categories pg)))"
| "category_enabled env pg (C_edit c) = (\<not> c_loading pg \<and> c \<in> set (filtered_categories (c_search pg) (categories pg)))"
| "category_enabled env pg (C_delete i cf r rf) =
     (\<not> c_loading pg \<and> i \<in> set (map c_id (filtered_categories (c_search pg) (categories pg))))"
| "category_enabled env pg (C_preview u) =
     ((\<exists>c \<in> set (filtered_categories (c_search pg) (categories pg)).
         \<not> c_loading pg \<and> truthy (c_image c) \<and> u = get_image_url env (c_image c))
      \<or> (\<exists>c. c_viewing pg = Some c \<and> truthy (c_image c) \<and> u = get_image_url env (c_image c)))"
| "category_enabled env pg C_close_modal = c_show_modal pg"
| "category_enabled env pg (C_field (CParent_in v)) =
     (c_show_modal pg \<and> v \<in> set ([] # map c_id (parent_options pg)))"
| "category_enabled env pg (C_field fe) = c_show_modal pg"
| "category_enabled env pg (C_upload_start has) = c_show_modal pg"
| "category_enabled env pg (C_upload_done k r) = (k < length (uploads pg))"
| "category_enabled env pg (C_submit r rf) = (c_show_modal pg \<and> cf_name (c_form pg) \<noteq> [])"
| "category_enabled env pg C_close_details = (c_viewing pg \<noteq> None)"
| "category_enabled env pg C_edit_from_details = (c_viewing pg \<noteq> None)"
| "category_enabled env pg C_close_preview = (c_selected_image pg \<noteq> None)"
| "category_enabled env pg e = True"

inductive category_reach :: "string option \<Rightarrow> string option \<Rightarrow> category_page \<Rightarrow> bool" for env tok where
  start: "category_reach env tok init_category_page"
| step: "category_reach env tok pg \<Longrightarrow> category_enabled env pg e
         \<Longrightarrow> category_reach env tok (fst (category_step env tok e pg))"

definition sample_root :: category where
  "sample_root =
     \<lparr>c_id = ''c1'', c_name = ''Audio'', c_description = [], c_slug = ''audio'', c_image = None,
      c_active = True, c_sort = Finite 1, c_products = 4, c_meta_title = None, c_meta_description = None,
      c_meta_keywords = None, c_parent = None, c_created_at = None, c_updated_at = None,
      c_created_by = None, c_updated_by = None\<rparr>"

definition sample_child :: category where
  "sample_child = sample_root\<lparr>c_id := ''c2'', c_name := ''Headphones'', c_slug := ''headphones'',
     c_parent := Some ''c1''\<rparr>"

subsection \<open>Properties of the category page\<close>

text \<open>
  C34. While a category is edited, every other loaded category is offered as its parent,
  its own children included, although the code's comment says children are excluded:
  choosing a child makes the two categories each other's parent.
\<close>

theorem child_offered_as_parent:
  assumes "c_editing pg = Some a" and "c \<in> set (categories pg)" and "c_id c \<noteq> c_id a"
  shows "c \<in> set (parent_options pg)"
  using assms by (simp add: parent_options_def)

theorem child_offered_as_parent_witness:
  "sample_child \<in> set (parent_options (category_handle_edit sample_root
      (init_category_page\<lparr>categories := [sample_root, sample_child]\<rparr>)))
   \<and> c_parent sample_child = Some (c_id sample_root)"
proof -
  have "sample_child \<in> set (parent_options (category_handle_edit sample_root
      (init_category_page\<lparr>categories := [sample_root, sample_child]\<rparr>)))"
    by (rule child_offered_as_parent) (auto simp: category_handle_edit_def sample_child_def sample_root_def)
  then show ?thesis by (simp add: sample_child_def sample_root_def)
qed

text \<open>
  C35. Interleaving an edit with an image upload: the category page's upload completes with
  the form captured when it started, so a name typed while the upload runs is lost;
  the brand page's logo upload updates the current form (\<open>prev => ...\<close>) and keeps it.
\<close>

theorem upload_overwrites_concurrent_edit:
  "let pg1 = upload_start True pg;
       pg2 = fst (category_step env tok (C_field (CName_in v)) pg1);
       pg3 = fst (upload_done (length (uploads pg)) (Upload_reply 200 d) pg2)
   in cf_name (c_form pg3) = cf_name (c_form pg) \<and> cf_image (c_form pg3) = d
      \<and> cf_name (c_form pg2) = v"
  by (simp add: upload_start_def upload_done_def status_ok_def Let_def)

text \<open>
  C36. The saved category sends the parent chosen in the select, or null for "None (Root
  Category)", the id of the edited category when editing, and the token only when there is
  one (the save itself does not check for it).
\<close>

theorem category_save_request:
  "map_of (the (body (category_submit_request env pg tok))) ''parentCategoryId''
     = Some (if cf_parent (c_form pg) = [] then JNull else JStr (cf_parent (c_form pg)))
   \<and> map_of (the (body (category_submit_request env pg tok))) ''id'' = map_option (JStr \<circ> c_id) (c_editing pg)
   \<and> headers (category_submit_request env pg tok) = (''Content-Type'', ''application/json'') # auth_headers tok"
  by (cases "c_editing pg") (simp_all add: category_submit_request_def category_payload_def)

end
