(* ===== verification/Home.thy ===== *)
theory Home
  imports JsNumber "HOL-Library.Multiset"
begin

text \<open>
  The storefront home page \<open>src/app/page.tsx\<close>: its four server-side loaders
  (\<open>getHomeBanners\<close>, \<open>getProducts\<close>, \<open>getCategories\<close>, \<open>getBrands\<close>) and the page
  they feed. \<open>Array.prototype.sort\<close> with a comparator is a built-in, modelled from its
  specification (a stable sort that orders by the sign of the comparator) as the merge
  sort an engine runs, \<open>js_sort\<close>; \<open>js_sort_sort_key\<close> shows that with the code's
  comparator \<open>(a, b) => k a - k b\<close> it is HOL's stable \<open>sort_key k\<close>. A loader's reply is
  the parsed JSON (\<open>success\<close> and \<open>data\<close>), or \<open>Json_failed\<close> when \<open>fetch\<close> or
  \<open>res.json()\<close> throws. Rendering that dereferences a missing value throws a
  \<open>TypeError\<close>, a value \<open>Inl\<close> of the render.
\<close>

subsection \<open>Array.prototype.sort\<close>

fun merge_by :: "('a \<Rightarrow> 'a \<Rightarrow> rat) \<Rightarrow> 'a list \<Rightarrow> 'a list \<Rightarrow> 'a list" where
  "merge_by c [] ys = ys"
| "merge_by c xs [] = xs"
| "merge_by c (x # xs) (y # ys) =
     (if c x y \<le> 0 then x # merge_by c xs (y # ys) else y # merge_by c (x # xs) ys)"

function js_sort :: "('a \<Rightarrow> 'a \<Rightarrow> rat) \<Rightarrow> 'a list \<Rightarrow> 'a list" where
  "js_sort c xs =
     (let n = length xs in
      if n \<le> 1 then xs else merge_by c (js_sort c (take (n div 2) xs)) (js_sort c (drop (n div 2) xs)))"
  by pat_completeness auto
termination
  by (relation "measure (\<lambda>(c, xs). length xs)") auto

declare js_sort.simps [simp del]

definition by_key :: "('a \<Rightarrow> rat) \<Rightarrow> 'a \<Rightarrow> 'a \<Rightarrow> rat" where
  "by_key k a b = k a - k b"

subsection \<open>Loaded data\<close>

datatype 'a api_json = Json_failed | Json_reply bool "'a list option"

record home_banner =
  hb_id :: string
  hb_title :: string
  hb_description :: string
  hb_image :: string
  hb_link :: "string option"

record home_product =
  hp_id :: string
  hp_name :: string
  hp_price :: rat
  hp_old_price :: "rat option"
  hp_rating :: "rat option"
  hp_reviews :: "nat option"
  hp_images :: "string option list option"

record home_category =
  hc_id :: string
  hc_name :: string
  hc_slug :: string
  hc_image :: "string option"
  hc_count :: nat
  hc_sort :: "rat option"

record home_brand =
  hbr_id :: string
  hbr_name :: string
  hbr_slug :: string
  hbr_logo :: "string option"
  hbr_homepage :: bool
  hbr_order :: rat
  hbr_count :: nat

text \<open>\<open>result.success ? result.data : []\<close>: with \<open>success\<close> the data is passed on as it
  is, \<open>None\<close> (not an array) included.\<close>

definition get_home_banners :: "home_banner api_json \<Rightarrow> home_banner list option" where
  "get_home_banners r = (case r of Json_reply True d \<Rightarrow> d | _ \<Rightarrow> Some [])"

text \<open>\<open>result.success ? result.data.items : []\<close>, with the items as the reply's list.\<close>

definition get_products :: "home_product api_json \<Rightarrow> home_product list option" where
  "get_products r = (case r of Json_reply True d \<Rightarrow> d | _ \<Rightarrow> Some [])"

definition sort_order_key :: "home_category \<Rightarrow> rat" where
  "sort_order_key c = (case hc_sort c of None \<Rightarrow> 0 | Some x \<Rightarrow> x)"

definition get_categories :: "home_category api_json \<Rightarrow> home_category list" where
  "get_categories r =
     (case r of Json_reply True (Some cs) \<Rightarrow> js_sort (by_key sort_order_key) cs | _ \<Rightarrow> [])"

text \<open>\<open>result.data.filter(...)\<close> on a missing \<open>data\<close> throws inside the \<open>try\<close>, so
  the loader returns \<open>[]\<close> then as well.\<close>

definition get_brands :: "home_brand api_json \<Rightarrow> home_brand list" where
  "get_brands r =
     (case r of Json_reply True (Some bs) \<Rightarrow> js_sort (by_key hbr_order) (filter hbr_homepage bs) | _ \<Rightarrow> [])"

subsection \<open>Rendering\<close>

text \<open>\<open>Number.prototype.toFixed(1)\<close>: the multiple of a tenth nearest to the value, the
  larger one on a tie, with the sign written in front.\<close>

definition to_fixed1 :: "rat \<Rightarrow> string" where
  "to_fixed1 x =
     (let n = nat \<lfloor>\<bar>x\<bar> * 10 + 1 / 2\<rfloor>
      in (if x < 0 then ''-'' else []) @ decimal (n div 10) @ ''.'' @ [digit_char (n mod 10)])"

record product_card =
  pc_src :: string
  pc_name :: string
  pc_rating :: string
  pc_reviews :: nat
  pc_price :: rat
  pc_old_price :: "rat option"

definition product_card :: "string \<Rightarrow> home_product \<Rightarrow> product_card" where
  "product_card base p =
     (let first = (case hp_images p of Some (Some u # _) \<Rightarrow> Some u | _ \<Rightarrow> None) in
      \<lparr>pc_src = (case first of Some u \<Rightarrow> if starts_with u ''http'' then u else base @ u | None \<Rightarrow> base),
       pc_name = hp_name p,
       pc_rating = (case hp_rating p of Some r \<Rightarrow> to_fixed1 r | None \<Rightarrow> ''0.0''),
       pc_reviews = (case hp_reviews p of Some n \<Rightarrow> n | None \<Rightarrow> 0),
       pc_price = hp_price p,
       pc_old_price = (case hp_old_price p of Some r \<Rightarrow> if r \<noteq> 0 then Some r else None | None \<Rightarrow> None)\<rparr>)"

text \<open>A brand or category card reads \<open>logoUrl.startsWith\<close> / \<open>imageUrl.startsWith\<close>;
  on a missing URL that throws, and the whole page fails to render.\<close>

definition image_src :: "string \<Rightarrow> string option \<Rightarrow> string + string" where
  "image_src base u =
     (case u of None \<Rightarrow> Inl ''TypeError'' | Some s \<Rightarrow> Inr (if starts_with s ''http'' then s else base @ s))"

record link_card =
  lc_href :: string
  lc_src :: string
  lc_name :: string
  lc_count :: nat

definition brand_card :: "string \<Rightarrow> home_brand \<Rightarrow> string + link_card" where
  "brand_card base b =
     (case image_src base (hbr_logo b) of Inl e \<Rightarrow> Inl e
      | Inr s \<Rightarrow> Inr \<lparr>lc_href = ''/brand/'' @ hbr_slug b, lc_src = s, lc_name = hbr_name b, lc_count = hbr_count b\<rparr>)"

definition category_card :: "string \<Rightarrow> home_category \<Rightarrow> string + link_card" where
  "category_card base c =
     (case image_src base (hc_image c) of Inl e \<Rightarrow> Inl e
      | Inr s \<Rightarrow> Inr \<lparr>lc_href = ''/category/'' @ hc_slug c, lc_src = s, lc_name = hc_name c, lc_count = hc_count c\<rparr>)"

fun map_sum :: "('a \<Rightarrow> string + 'b) \<Rightarrow> 'a list \<Rightarrow> string + 'b list" where
  "map_sum f [] = Inr []"
| "map_sum f (x # xs) =
     (case f x of Inl e \<Rightarrow> Inl e | Inr y \<Rightarrow> (case map_sum f xs of Inl e \<Rightarrow> Inl e | Inr ys \<Rightarrow> Inr (y # ys)))"

text \<open>The static parts of the page: the features strip (each with an icon, omitted)
  and the newsletter box, whose email input and Subscribe button have no handler.\<close>

definition home_features :: "(string \<times> string) list" where
  "home_features =
     [(''Fast Delivery'', ''Get your orders in 24-48 hours''), (''Secure Payment'', ''100% secure transactions''),
      (''Gift Cards'', ''Perfect for any occasion''), (''Best Prices'', ''Competitive pricing guaranteed'')]"

definition newsletter_box :: "string \<times> string \<times> string" where
  "newsletter_box = (''Join Our Newsletter'', ''Enter your email'', ''Subscribe'')"

record home_view =
  hv_banners :: "home_banner list option"
  hv_products :: "product_card list"
  hv_brands :: "link_card list"
  hv_categories :: "link_card list"

text \<open>\<open>Home()\<close>: the four loaders, then the page; an empty section shows its "No ...
  found." line (an empty list here); \<open>products.length\<close> on a missing list, and the
  cards above, throw.\<close>

definition home_page :: "string \<Rightarrow> home_product api_json \<Rightarrow> home_category api_json \<Rightarrow> home_brand api_json
    \<Rightarrow> home_banner api_json \<Rightarrow> string + home_view" where
  "home_page base rp rc rb rbn =
     (case get_products rp of None \<Rightarrow> Inl ''TypeError'' | Some ps \<Rightarrow>
      (case map_sum (brand_card base) (get_brands rb) of Inl e \<Rightarrow> Inl e | Inr bcs \<Rightarrow>
        (case map_sum (category_card base) (get_categories rc) of Inl e \<Rightarrow> Inl e | Inr ccs \<Rightarrow>
         Inr \<lparr>hv_banners = get_home_banners rbn, hv_products = map (product_card base) ps,
              hv_brands = bcs, hv_categories = ccs\<rparr>)))"

subsection \<open>Lemmas\<close>

lemma mset_merge_by: "mset (merge_by c xs ys) = mset xs + mset ys"
  by (induction c xs ys rule: merge_by.induct) simp_all

lemma set_merge_by: "set (merge_by c xs ys) = set xs \<union> set ys"
  by (metis mset_merge_by set_mset_mset set_mset_union)

lemma sorted_merge_by:
  "sorted (map k xs) \<Longrightarrow> sorted (map k ys) \<Longrightarrow> sorted (map k (merge_by (by_key k) xs ys))"
  by (induction "by_key k" xs ys rule: merge_by.induct) (auto simp: by_key_def set_merge_by)

lemma filter_merge_by:
  "sorted (map k xs) \<Longrightarrow> sorted (map k ys) \<Longrightarrow>
   filter (\<lambda>x. k x = v) (merge_by (by_key k) xs ys) = filter (\<lambda>x. k x = v) xs @ filter (\<lambda>x. k x = v) ys"
proof (induction "by_key k" xs ys rule: merge_by.induct)
  case (3 x xs y ys)
  show ?case
  proof (cases "k x \<le> k y")
    case True
    then show ?thesis using 3 by (simp add: by_key_def)
  next
    case False
    then have "filter (\<lambda>z. k z = v) (x # xs) = []" if "k y = v"
      using "3.prems"(1) that by (auto simp: filter_empty_conv)
    then show ?thesis using 3 False by (auto simp: by_key_def)
  qed
qed simp_all

lemma merge_by_sort_key:
  "merge_by (by_key k) (sort_key k xs) (sort_key k ys) = sort_key k (xs @ ys)"
proof (rule properties_for_sort_key [symmetric])
  show "mset (merge_by (by_key k) (sort_key k xs) (sort_key k ys)) = mset (xs @ ys)"
    by (simp add: mset_merge_by)
  show "sorted (map k (merge_by (by_key k) (sort_key k xs) (sort_key k ys)))"
    by (simp add: sorted_merge_by)
  fix a
  show "filter (\<lambda>x. k a = k x) (merge_by (by_key k) (sort_key k xs) (sort_key k ys))
      = filter (\<lambda>x. k a = k x) (xs @ ys)"
    using filter_merge_by[of k "sort_key k xs" "sort_key k ys" "k a"] sort_key_stable[of k "k a"]
    by (simp add: eq_commute[of "k a"])
qed

lemma js_sort_sort_key: "js_sort (by_key k) xs = sort_key k xs"
proof (induction "by_key k" xs rule: js_sort.induct)
  case (1 xs)
  show ?case
  proof (cases "length xs \<le> 1")
    case True
    then have "js_sort (by_key k) xs = xs" by (simp add: js_sort.simps [of _ xs])
    with True show ?thesis by (cases xs) auto
  next
    case False
    then have "js_sort (by_key k) xs
        = merge_by (by_key k) (sort_key k (take (length xs div 2) xs)) (sort_key k (drop (length xs div 2) xs))"
      using "1" by (simp add: js_sort.simps [of _ xs] Let_def)
    then show ?thesis by (simp add: merge_by_sort_key)
  qed
qed

lemma map_sum_fail:
  "x \<in> set xs \<Longrightarrow> f x = Inl e \<Longrightarrow> \<exists>e'. map_sum f xs = Inl e'"
  by (induction xs) (auto split: sum.split)

lemma map_sum_Inl: "map_sum f xs = Inl e \<Longrightarrow> \<exists>y\<in>set xs. f y = Inl e"
  by (induction xs) (auto split: sum.splits)

lemma brand_card_fails: "brand_card base b = Inl e \<Longrightarrow> e = ''TypeError''"
  by (cases "hbr_logo b") (simp_all add: brand_card_def image_src_def)

lemma home_page_brand_without_logo:
  assumes "b \<in> set bs" and "hbr_homepage b" and "hbr_logo b = None" and "get_products rp \<noteq> None"
  shows "home_page base rp rc (Json_reply True (Some bs)) rbn = Inl ''TypeError''"
proof -
  let ?bs = "js_sort (by_key hbr_order) (filter hbr_homepage bs)"
  have m: "b \<in> set ?bs"
    using assms(1,2) by (simp add: js_sort_sort_key)
  have c: "brand_card base b = Inl ''TypeError''"
    using assms(3) by (simp add: brand_card_def image_src_def)
  obtain e where e: "map_sum (brand_card base) ?bs = Inl e"
    using map_sum_fail [where f = "brand_card base", OF m c] by blast
  have "e = ''TypeError''"
    using map_sum_Inl [OF e] brand_card_fails by blast
  with e have err: "map_sum (brand_card base) ?bs = Inl ''TypeError''"
    by simp
  obtain ps where ps: "get_products rp = Some ps"
    using assms(4) by blast
  have "get_brands (Json_reply True (Some bs)) = ?bs"
    by (simp add: get_brands_def)
  with ps err show ?thesis
    by (simp add: home_page_def)
qed

subsection \<open>Properties of the home page\<close>

lemma mset_js_sort: "mset (js_sort c xs) = mset xs"
proof (induction c xs rule: js_sort.induct)
  case (1 c xs)
  show ?case
  proof (cases "length xs \<le> 1")
    case True
    then show ?thesis by (simp add: js_sort.simps [of _ xs])
  next
    case False
    then have "mset (js_sort c xs)
        = mset (take (length xs div 2) xs) + mset (drop (length xs div 2) xs)"
      using "1" by (simp add: js_sort.simps [of _ xs] Let_def mset_merge_by)
    then show ?thesis by (simp add: mset_append [symmetric] del: mset_append)
  qed
qed

text \<open>
  C37. The loaders order what they return exactly as a stable sort by key does:
  \<open>getCategories\<close> returns the categories sorted by \<open>sortOrder\<close> (a missing one counts
  as 0), ties in the API's order, and \<open>getBrands\<close> the homepage brands sorted by
  \<open>displayOrder\<close>, which is the same as sorting all brands first and filtering after.
  The engine's merge sort under the code's comparator \<open>(a, b) => k a - k b\<close> is HOL's
  \<open>sort_key k\<close>.
\<close>

theorem loaders_stable_sorted:
  "get_categories (Json_reply True (Some cs)) = sort_key sort_order_key cs
   \<and> get_brands (Json_reply True (Some bs)) = filter hbr_homepage (sort_key hbr_order bs)"
  by (simp add: get_categories_def get_brands_def js_sort_sort_key filter_sort)

end
