(* ===== verification/Storefront.thy ===== *)
theory Storefront
  imports Home
begin

text \<open>
  The storefront chrome: the category loading of the server components
  (\<open>src/components/HeaderServer.tsx\<close> and \<open>src/app/layout.tsx\<close>), the header
  \<open>src/components/Header.tsx\<close> (top bar hidden and shown on scroll, rotating delivery
  message, desktop category bar with its mega menu, mobile drawer with nested
  accordions, client-side category fetch, search box), the mega menu
  \<open>src/components/MegaMenu.tsx\<close> and the footer's collapsible sections
  \<open>src/components/Footer.tsx\<close>. The header's effects are a step function on its state
  (\<open>header_step\<close>) over the events that reach it: scrolls (position and maximum), ticks
  of the 3-second interval, pointer and click events; \<open>header_reach\<close> are its reachable
  states. Scroll positions are rationals (CSS pixels need not be whole).
\<close>

subsection \<open>Categories and their server-side loading\<close>

datatype nav_category =
  NavCat (nc_id: string) (nc_name: string) (nc_slug: "string option") (nc_parent: "string option")
    (nc_subs: "nav_category list option")

definition has_subs :: "nav_category \<Rightarrow> bool" where
  "has_subs c = (case nc_subs c of Some (_ # _) \<Rightarrow> True | _ \<Rightarrow> False)"

definition subs_of :: "nav_category \<Rightarrow> nav_category list" where
  "subs_of c = (case nc_subs c of Some cs \<Rightarrow> cs | None \<Rightarrow> [])"

text \<open>\<open>json.success ? json.data.filter(cat => !cat.parentCategoryId) : []\<close>, with no
  \<open>try\<close>: a failed \<open>fetch\<close> or \<open>res.json()\<close>, or a successful reply without data, throws
  out of the server component (\<open>Inl\<close>).\<close>

definition server_categories :: "nav_category api_json \<Rightarrow> string + nav_category list" where
  "server_categories r =
     (case r of
        Json_failed \<Rightarrow> Inl ''fetch failed''
      | Json_reply True None \<Rightarrow> Inl ''TypeError''
      | Json_reply True (Some cs) \<Rightarrow> Inr (filter (\<lambda>c. \<not> truthy (nc_parent c)) cs)
      | Json_reply False _ \<Rightarrow> Inr [])"

definition header_server :: "nav_category api_json \<Rightarrow> string + nav_category list" where
  "header_server r = server_categories r"

definition root_layout :: "nav_category api_json \<Rightarrow> string + nav_category list" where
  "root_layout r = server_categories r"

subsection \<open>Header state and handlers\<close>

datatype direction = Up | Down

record header =
  menu_open :: bool
  search_value :: string
  h_categories :: "nav_category list"
  active_category :: "nav_category option"
  hovered :: bool
  show_top_bar :: bool
  last_scroll :: rat
  scroll_dir :: "direction option"
  current_msg :: nat
  open_parents :: "string \<Rightarrow> bool option"
  open_children :: "string \<Rightarrow> bool option"

definition init_header :: "nav_category list \<Rightarrow> header" where
  "init_header ssr =
     \<lparr>menu_open = False, search_value = [], h_categories = ssr, active_category = None, hovered = False,
      show_top_bar = True, last_scroll = 0, scroll_dir = None, current_msg = 0,
      open_parents = (\<lambda>_. None), open_children = (\<lambda>_. None)\<rparr>"

record top_message =
  tm_title :: string
  tm_subtitle :: string
  tm_link :: string

definition mobile_top_messages :: "top_message list" where
  "mobile_top_messages =
     [\<lparr>tm_title = ''NEXT DAY DELIVERY'', tm_subtitle = ''GET IT JUST FOR '' @ [CHR 0xA3] @ ''4.49'',
       tm_link = ''/delivery/next-day''\<rparr>,
      \<lparr>tm_title = ''STANDARD DELIVERY'', tm_subtitle = ''FREE SHIPPING OVER '' @ [CHR 0xA3] @ ''35'',
       tm_link = ''/delivery/standard''\<rparr>,
      \<lparr>tm_title = ''CLICK & COLLECT'', tm_subtitle = ''FREE ON ORDERS OVER '' @ [CHR 0xA3] @ ''30'',
       tm_link = ''/delivery/click-and-collect''\<rparr>,
      \<lparr>tm_title = ''SPECIAL DELIVERY GUARANTEED-1PM'',
       tm_subtitle = ''ROYAL MAIL SPECIAL DELIVERY FOR '' @ [CHR 0xA3] @ ''18.99'', tm_link = ''/delivery/special''\<rparr>]"

text \<open>The interval callback \<open>setCurrentMsg(p => (p + 1) % mobileTopMessages.length)\<close>.\<close>

definition msg_tick :: "header \<Rightarrow> header" where
  "msg_tick h = h\<lparr>current_msg := (current_msg h + 1) mod length mobile_top_messages\<rparr>"

text \<open>\<open>handleScroll\<close>, with \<open>current = window.scrollY\<close> and \<open>maxScroll\<close> the scrollable
  height; the direction and the last position are refs, the top bar is state.\<close>

definition handle_scroll :: "rat \<Rightarrow> rat \<Rightarrow> header \<Rightarrow> header" where
  "handle_scroll cur max_scroll h =
     (let d1 = (if cur > last_scroll h + 1 then Some Down
                else if cur < last_scroll h - 8 then Some Up else scroll_dir h);
          d2 = (if cur \<ge> max_scroll - 2 then Some Down else d1);
          bar = (if d2 = Some Down then (if cur > 5 then False else show_top_bar h)
                 else if d2 = Some Up then (if cur < max_scroll - 80 then True else show_top_bar h)
                 else show_top_bar h)
      in h\<lparr>scroll_dir := d2, show_top_bar := bar, last_scroll := cur\<rparr>)"

text \<open>The client-side fetch, run only without server categories; a failure is logged.\<close>

definition client_categories :: "nav_category api_json \<Rightarrow> header \<Rightarrow> header" where
  "client_categories r h =
     (case r of Json_reply True (Some cs) \<Rightarrow> h\<lparr>h_categories := filter (\<lambda>c. \<not> truthy (nc_parent c)) cs\<rparr>
      | _ \<Rightarrow> h)"

definition handle_search :: "header \<Rightarrow> header" where
  "handle_search h = h"

definition open_menu :: "nav_category \<Rightarrow> header \<Rightarrow> header" where
  "open_menu c h = h\<lparr>active_category := Some c, hovered := True\<rparr>"

definition close_menu :: "header \<Rightarrow> header" where
  "close_menu h = h\<lparr>hovered := False, active_category := None\<rparr>"

text \<open>\<open>setOpenParents(s => ({ ...s, [id]: !s[id] }))\<close>: an absent entry is falsy.\<close>

definition toggle_entry :: "string \<Rightarrow> (string \<Rightarrow> bool option) \<Rightarrow> string \<Rightarrow> bool option" where
  "toggle_entry i s = s(i \<mapsto> \<not> (s i = Some True))"

definition toggle_parent :: "string \<Rightarrow> header \<Rightarrow> header" where
  "toggle_parent i h = h\<lparr>open_parents := toggle_entry i (open_parents h)\<rparr>"

definition toggle_child :: "string \<Rightarrow> header \<Rightarrow> header" where
  "toggle_child i h = h\<lparr>open_children := toggle_entry i (open_children h)\<rparr>"

text \<open>Pointer entering a category of the desktop bar.\<close>

definition hover_category :: "nav_category \<Rightarrow> header \<Rightarrow> header" where
  "hover_category c h = (if has_subs c then open_menu c h else h\<lparr>hovered := False, active_category := None\<rparr>)"

definition mega_shown :: "header \<Rightarrow> bool" where
  "mega_shown h = (hovered h \<and> (case active_category h of Some c \<Rightarrow> has_subs c | None \<Rightarrow> False))"

subsection \<open>Header events\<close>

datatype header_event =
    Scroll rat rat
  | Msg_tick
  | Categories_loaded "nav_category api_json"
  | Search_input string
  | Search_submit
  | Hover_category nav_category
  | Leave_menu
  | Enter_mega
  | Open_drawer
  | Close_drawer
  | Toggle_parent string
  | Toggle_child string
  | Drawer_link

fun header_step :: "header_event \<Rightarrow> header \<Rightarrow> header" where
  "header_step (Scroll cur mx) h = handle_scroll cur mx h"
| "header_step Msg_tick h = msg_tick h"
| "header_step (Categories_loaded r) h = client_categories r h"
| "header_step (Search_input v) h = h\<lparr>search_value := v\<rparr>"
| "header_step Search_submit h = handle_search h"
| "header_step (Hover_category c) h = hover_category c h"
| "header_step Leave_menu h = close_menu h"
| "header_step Enter_mega h = h\<lparr>hovered := True\<rparr>"
| "header_step Open_drawer h = h\<lparr>menu_open := True\<rparr>"
| "header_step Close_drawer h = h\<lparr>menu_open := False\<rparr>"
| "header_step (Toggle_parent i) h = toggle_parent i h"
| "header_step (Toggle_child i) h = toggle_child i h"
| "header_step Drawer_link h = h\<lparr>menu_open := False\<rparr>"

text \<open>The controls on screen: a category of the bar is hovered only if listed, the mega
  menu is entered only while it is shown, the client fetch only runs without server
  categories (checked by \<open>header_reach\<close>), a scroll has its position within the page.\<close>

fun header_enabled :: "header \<Rightarrow> header_event \<Rightarrow> bool" where
  "header_enabled h (Scroll cur mx) = (0 \<le> cur \<and> cur \<le> mx)"
| "header_enabled h (Hover_category c) = (c \<in> set (h_categories h))"
| "header_enabled h Enter_mega = mega_shown h"
| "header_enabled h e = True"

inductive header_reach :: "nav_category list \<Rightarrow> header \<Rightarrow> bool" for ssr where
  start: "header_reach ssr (init_header ssr)"
| step: "header_reach ssr h \<Longrightarrow> header_enabled h e \<Longrightarrow> (\<forall>r. e = Categories_loaded r \<longrightarrow> ssr = [])
         \<Longrightarrow> header_reach ssr (header_step e h)"

inductive_cases header_reach_stepE: "header_reach ssr h'"

subsection \<open>Header rendering\<close>

definition top_bar_view :: "header \<Rightarrow> top_message option" where
  "top_bar_view h = (if show_top_bar h then Some (mobile_top_messages ! current_msg h) else None)"

text \<open>The desktop half of the same bar: four links with the same destinations and
  prices, always all on screen while the bar is.\<close>

definition desktop_delivery_links :: "top_message list" where
  "desktop_delivery_links =
     [\<lparr>tm_title = ''NEXT DAY DELIVERY'', tm_subtitle = ''GET IT JUST FOR '' @ [CHR 0xA3] @ ''4.49'',
       tm_link = ''/delivery/next-day''\<rparr>,
      \<lparr>tm_title = ''STANDARD DELIVERY'', tm_subtitle = ''FREE SHIPPING OVER '' @ [CHR 0xA3] @ ''35'',
       tm_link = ''/delivery/standard''\<rparr>,
      \<lparr>tm_title = ''CLICK & COLLECT'', tm_subtitle = ''FREE ON ORDERS OVER '' @ [CHR 0xA3] @ ''30'',
       tm_link = ''/delivery/click-and-collect''\<rparr>,
      \<lparr>tm_title = ''SPECIAL DELIVERY 1PM'',
       tm_subtitle = ''ROYAL MAIL SPECIAL DELIVERY FOR '' @ [CHR 0xA3] @ ''18.99'', tm_link = ''/delivery/special''\<rparr>]"

definition desktop_top_bar_view :: "header \<Rightarrow> top_message list" where
  "desktop_top_bar_view h = (if show_top_bar h then desktop_delivery_links else [])"

record nav_item =
  ni_name :: string
  ni_href :: string
  ni_active :: bool

definition category_href :: "string option \<Rightarrow> string" where
  "category_href slug = ''/category/'' @ (case slug of Some s \<Rightarrow> s | None \<Rightarrow> ''undefined'')"

definition nav_bar_view :: "header \<Rightarrow> nav_item list" where
  "nav_bar_view h =
     map (\<lambda>c. \<lparr>ni_name = nc_name c, ni_href = category_href (nc_slug c),
               ni_active = (case active_category h of Some a \<Rightarrow> nc_id a = nc_id c | None \<Rightarrow> False)\<rparr>)
         (h_categories h)"

text \<open>The drawer: a category with subcategories is an accordion button, one without is a
  link to \<open>/category/${slug ?? "#"}\<close>; an open accordion lists its subcategories the same
  way one level down.\<close>

datatype drawer_entry =
    Drawer_link_to string string
  | Drawer_accordion string bool "drawer_entry list"

definition drawer_href :: "nav_category \<Rightarrow> string" where
  "drawer_href c = ''/category/'' @ (case nc_slug c of Some s \<Rightarrow> s | None \<Rightarrow> ''#'')"

definition drawer_child :: "header \<Rightarrow> nav_category \<Rightarrow> drawer_entry" where
  "drawer_child h sub =
     (if has_subs sub then
        Drawer_accordion (nc_name sub) (open_children h (nc_id sub) = Some True)
          (if open_children h (nc_id sub) = Some True
           then map (\<lambda>c. Drawer_link_to (nc_name c) (drawer_href c)) (subs_of sub) else [])
      else Drawer_link_to (nc_name sub) (drawer_href sub))"

definition drawer_view :: "header \<Rightarrow> drawer_entry list" where
  "drawer_view h =
     map (\<lambda>p. if has_subs p then
                Drawer_accordion (nc_name p) (open_parents h (nc_id p) = Some True)
                  (if open_parents h (nc_id p) = Some True then map (drawer_child h) (subs_of p) else [])
              else Drawer_link_to (nc_name p) (drawer_href p))
         (h_categories h)"

text \<open>The drawer's footer: quick links to the account, orders and cart pages.\<close>

definition drawer_quick_links :: "(string \<times> string) list" where
  "drawer_quick_links = [(''/account'', ''My Account''), (''/orders'', ''Orders''), (''/cart'', ''Cart'')]"

subsection \<open>Mega menu\<close>

record mega_menu =
  mm_brands :: "(string \<times> string \<times> string option) list"
  active_sub :: "nav_category option"

text \<open>\<open>setBrands(json.data || [])\<close> after the brand fetch; a failure is logged.\<close>

definition load_brands :: "(string \<times> string \<times> string option) api_json \<Rightarrow> mega_menu \<Rightarrow> mega_menu" where
  "load_brands r m =
     (case r of Json_reply ok d \<Rightarrow> m\<lparr>mm_brands := (case d of Some bs \<Rightarrow> bs | None \<Rightarrow> [])\<rparr> | Json_failed \<Rightarrow> m)"

text \<open>The effect on a new main category: its first subcategory is active, or none.\<close>

definition default_sub :: "nav_category \<Rightarrow> mega_menu \<Rightarrow> mega_menu" where
  "default_sub main m = m\<lparr>active_sub := (case subs_of main of s # _ \<Rightarrow> Some s | [] \<Rightarrow> None)\<rparr>"

text \<open>Pointer entering a subcategory of the left column.\<close>

definition hover_sub :: "nav_category \<Rightarrow> mega_menu \<Rightarrow> mega_menu" where
  "hover_sub sub m = m\<lparr>active_sub := Some sub\<rparr>"

record mega_view =
  left_column :: "(string \<times> string \<times> bool) list"
  middle_column :: "(string \<times> string) list"
  brand_logos :: "(string \<times> string) list"

text \<open>Brand logos are \<open>${NEXT_PUBLIC_API_URL}${brand.logoUrl}\<close>, with no test for an
  absolute URL; a missing one prints as \<open>undefined\<close>.\<close>

definition mega_menu_view :: "string \<Rightarrow> nav_category \<Rightarrow> mega_menu \<Rightarrow> mega_view" where
  "mega_menu_view base main m =
     (let mslug = (case nc_slug main of Some s \<Rightarrow> s | None \<Rightarrow> ''undefined'');
          sslug = (\<lambda>c. case nc_slug c of Some s \<Rightarrow> s | None \<Rightarrow> ''undefined'') in
      \<lparr>left_column = map (\<lambda>sub. (nc_name sub, ''/category/'' @ mslug @ ''/'' @ sslug sub,
                                   (case active_sub m of Some a \<Rightarrow> nc_id a = nc_id sub | None \<Rightarrow> False)))
                        (subs_of main),
       middle_column = (case active_sub m of
                          Some a \<Rightarrow> map (\<lambda>c. (nc_name c, ''/category/'' @ mslug @ ''/'' @ sslug a @ ''/'' @ sslug c))
                                       (subs_of a)
                        | None \<Rightarrow> []),
       brand_logos = map (\<lambda>(n, slug, logo). (''/brand/'' @ slug,
                           base @ (case logo of Some l \<Rightarrow> l | None \<Rightarrow> ''undefined''))) (mm_brands m)\<rparr>)"

subsection \<open>Footer\<close>

definition footer_sections :: "string list" where
  "footer_sections = [''help'', ''about'', ''services'', ''subscribe'', ''social'']"

definition init_footer :: "string \<Rightarrow> bool option" where
  "init_footer = [''help'' \<mapsto> False, ''about'' \<mapsto> False, ''services'' \<mapsto> False, ''subscribe'' \<mapsto> True,
                  ''social'' \<mapsto> False]"

definition footer_toggle :: "string \<Rightarrow> (string \<Rightarrow> bool option) \<Rightarrow> string \<Rightarrow> bool option" where
  "footer_toggle k s = toggle_entry k s"

text \<open>On a small screen a section's list is shown exactly when its entry is true.\<close>

definition footer_view :: "(string \<Rightarrow> bool option) \<Rightarrow> (string \<times> bool) list" where
  "footer_view s = map (\<lambda>k. (k, s k = Some True)) footer_sections"

text \<open>Nesting depth of a drawer entry, to state how deep the drawer renders the tree.\<close>

fun entry_depth :: "drawer_entry \<Rightarrow> nat" where
  "entry_depth (Drawer_link_to n u) = 1"
| "entry_depth (Drawer_accordion n b es) = Suc (foldr max (map entry_depth es) 0)"

subsection \<open>Lemmas\<close>

lemma length_mobile_top_messages [simp]: "length mobile_top_messages = 4"
  by (simp add: mobile_top_messages_def)

definition top_level :: "nav_category list \<Rightarrow> bool" where
  "top_level cs = list_all (\<lambda>c. \<not> truthy (nc_parent c)) cs"

lemma top_level_filter [simp]: "top_level (filter (\<lambda>c. \<not> truthy (nc_parent c)) cs)"
  by (simp add: top_level_def list_all_iff)

text \<open>The header's invariant: the message index is in range, the pointer flag is set
  exactly when a category with subcategories is active, and the category bar only ever
  lists top-level categories when the server did.\<close>

definition header_inv :: "nav_category list \<Rightarrow> header \<Rightarrow> bool" where
  "header_inv ssr h =
     (current_msg h < length mobile_top_messages
      \<and> hovered h = (case active_category h of Some c \<Rightarrow> has_subs c | None \<Rightarrow> False)
      \<and> (top_level ssr \<longrightarrow> top_level (h_categories h)))"

lemma header_inv_init: "header_inv ssr (init_header ssr)"
  by (simp add: header_inv_def init_header_def)

lemma header_step_inv:
  assumes "header_inv ssr h" and "header_enabled h e"
  shows "header_inv ssr (header_step e h)"
proof (cases e)
  case (Categories_loaded r)
  then show ?thesis using assms(1)
    by (auto simp: header_inv_def client_categories_def split: api_json.split bool.split option.split)
next
  case Enter_mega
  then show ?thesis using assms by (auto simp: header_inv_def mega_shown_def)
next
  case (Hover_category c)
  then show ?thesis using assms(1) by (simp add: header_inv_def hover_category_def open_menu_def)
qed (use assms(1) in \<open>simp_all add: header_inv_def msg_tick_def handle_scroll_def Let_def handle_search_def
       close_menu_def toggle_parent_def toggle_child_def\<close>)

lemma header_reach_inv: "header_reach ssr h \<Longrightarrow> header_inv ssr h"
  by (induction rule: header_reach.induct) (simp_all add: header_inv_init header_step_inv)

lemma msg_tick_funpow:
  "current_msg ((msg_tick ^^ k) h) = (if k = 0 then current_msg h else (current_msg h + k) mod 4)
   \<and> show_top_bar ((msg_tick ^^ k) h) = show_top_bar h"
  by (induction k) (auto simp: msg_tick_def mod_Suc_eq)

text \<open>While the pointer is on the mega menu it stays open; leaving the menu area
  always closes it.\<close>

lemma mega_shown_iff_hovered: "header_reach ssr h \<Longrightarrow> mega_shown h = hovered h"
  using header_reach_inv by (auto simp: header_inv_def mega_shown_def split: option.split)

lemma leave_menu_closes: "\<not> mega_shown (header_step Leave_menu h)"
  by (simp add: close_menu_def mega_shown_def)

text \<open>On a page scrollable by at most 80 pixels the top bar, once hidden, never comes
  back: showing it needs \<open>current < maxScroll - 80\<close>.\<close>

lemma short_page_bar_stays_hidden:
  "max_scroll \<le> 80 \<Longrightarrow> 0 \<le> cur \<Longrightarrow> \<not> show_top_bar h \<Longrightarrow> \<not> show_top_bar (handle_scroll cur max_scroll h)"
  by (simp add: handle_scroll_def Let_def)

lemma bottom_hides_bar:
  "max_scroll - 2 \<le> cur \<Longrightarrow> 5 < cur \<Longrightarrow> \<not> show_top_bar (handle_scroll cur max_scroll h)"
  by (simp add: handle_scroll_def Let_def)

lemma toggle_entry_twice: "(toggle_entry i (toggle_entry i s) j = Some True) = (s j = Some True)"
  by (simp add: toggle_entry_def)

lemma root_layout_top_level: "root_layout r = Inr ssr \<Longrightarrow> top_level ssr"
  by (auto simp: root_layout_def server_categories_def top_level_def list_all_iff split: api_json.splits bool.splits option.splits)

lemma foldr_max_le: "(\<forall>x\<in>set xs. x \<le> n) \<Longrightarrow> foldr max xs 0 \<le> (n::nat)"
  by (induction xs) auto

text \<open>The drawer renders a fixed three levels of the category tree (parent, child,
  grandchild links); subcategories of a grandchild are never on screen.\<close>

lemma drawer_depth_three: "e \<in> set (drawer_view h) \<Longrightarrow> entry_depth e \<le> 3"
proof -
  have child: "entry_depth (drawer_child h c) \<le> 2" for c
    by (auto simp: drawer_child_def comp_def intro: foldr_max_le)
  show "e \<in> set (drawer_view h) \<Longrightarrow> entry_depth e \<le> 3"
    using child by (auto simp: drawer_view_def comp_def intro!: foldr_max_le)
qed

lemma layout_header_top_level:
  "root_layout r = Inr ssr \<Longrightarrow> header_reach ssr h \<Longrightarrow> top_level (h_categories h)"
  using root_layout_top_level header_reach_inv by (simp add: header_inv_def)

text \<open>The desktop strip and the mobile messages announce the same four options with
  the same links and prices, but name the last one differently.\<close>

lemma desktop_mobile_titles:
  "map tm_link desktop_delivery_links = map tm_link mobile_top_messages
   \<and> map tm_subtitle desktop_delivery_links = map tm_subtitle mobile_top_messages
   \<and> take 3 desktop_delivery_links = take 3 mobile_top_messages
   \<and> tm_title (desktop_delivery_links ! 3) = ''SPECIAL DELIVERY 1PM''
   \<and> tm_title (mobile_top_messages ! 3) = ''SPECIAL DELIVERY GUARANTEED-1PM''"
  by (simp add: desktop_delivery_links_def mobile_top_messages_def)

subsection \<open>Properties of the header\<close>

text \<open>
  C38. The delivery messages rotate: from every reachable header state whose top bar is
  shown, each of the four messages is on screen within fewer than four ticks of the
  3-second interval, whatever happened before.
\<close>

theorem every_message_shown:
  assumes "header_reach ssr h" and "show_top_bar h" and "m < length mobile_top_messages"
  shows "\<exists>k < length mobile_top_messages.
           top_bar_view ((msg_tick ^^ k) h) = Some (mobile_top_messages ! m)"
proof -
  have c: "current_msg h < 4"
    using header_reach_inv [OF assms(1)] by (simp add: header_inv_def)
  define k where "k = (m + 4 - current_msg h) mod 4"
  have "current_msg ((msg_tick ^^ k) h) = m"
  proof (cases "k = 0")
    case True
    then show ?thesis using mod_rotate_to [OF c, of m] assms(3) c by (simp add: msg_tick_funpow k_def)
  next
    case False
    then show ?thesis using mod_rotate_to [OF c, of m] assms(3) by (simp add: msg_tick_funpow k_def)
  qed
  then have "top_bar_view ((msg_tick ^^ k) h) = Some (mobile_top_messages ! m)"
    using assms(2) by (simp only: top_bar_view_def msg_tick_funpow if_True)
  moreover have "k < length mobile_top_messages"
    by (simp add: k_def)
  ultimately show ?thesis by blast
qed

theorem every_message_shown_witness:
  "\<exists>k < length mobile_top_messages.
     top_bar_view ((msg_tick ^^ k) (init_header [])) = Some (mobile_top_messages ! 3)"
  using every_message_shown [OF header_reach.start, of "[]" 3] by (simp add: init_header_def)

end
