(* ===== verification/AdminLists.thy ===== *)
theory AdminLists
  imports Session Catalog
begin

text \<open>
  The admin list pages: the orders page \<open>src/app/admin/orders/page.tsx\<close> (a static
  order table with a search box, a status filter and counters), the product list
  \<open>src/app/admin/products/page.tsx\<close> (the fetch of \<open>/api/Products\<close>, the formatting of
  each product with its stock status, the details and delete dialogs), the customers
  page \<open>src/app/admin/customers/page.tsx\<close> and the dashboard \<open>src/app/admin/page.tsx\<close>
  (static data and the views computed from it). Dates are formatted by the browser's
  \<open>toLocaleDateString('en-US', ...)\<close>, a parameter \<open>fmt\<close> here.
\<close>

subsection \<open>Orders page\<close>

record order =
  o_id :: string
  customer :: string
  email :: string
  o_items :: nat
  o_total :: string
  o_status :: string
  o_date :: string
  payment :: string

definition orders :: "order list" where
  "orders =
     [\<lparr>o_id = ''#3210'', customer = ''John Doe'', email = ''john@example.com'', o_items = 3, o_total = ''$299'',
       o_status = ''Delivered'', o_date = ''Oct 1, 2025'', payment = ''Paid''\<rparr>,
      \<lparr>o_id = ''#3209'', customer = ''Jane Smith'', email = ''jane@example.com'', o_items = 1, o_total = ''$399'',
       o_status = ''Processing'', o_date = ''Oct 1, 2025'', payment = ''Paid''\<rparr>,
      \<lparr>o_id = ''#3208'', customer = ''Bob Johnson'', email = ''bob@example.com'', o_items = 2, o_total = ''$149'',
       o_status = ''Pending'', o_date = ''Sep 30, 2025'', payment = ''Pending''\<rparr>,
      \<lparr>o_id = ''#3207'', customer = ''Alice Brown'', email = ''alice@example.com'', o_items = 1, o_total = ''$79'',
       o_status = ''Delivered'', o_date = ''Sep 30, 2025'', payment = ''Paid''\<rparr>,
      \<lparr>o_id = ''#3206'', customer = ''Charlie Wilson'', email = ''charlie@example.com'', o_items = 4,
       o_total = ''$449'', o_status = ''Shipped'', o_date = ''Sep 29, 2025'', payment = ''Paid''\<rparr>,
      \<lparr>o_id = ''#3205'', customer = ''Diana Prince'', email = ''diana@example.com'', o_items = 2, o_total = ''$199'',
       o_status = ''Cancelled'', o_date = ''Sep 29, 2025'', payment = ''Refunded''\<rparr>]"

record orders_page =
  search_term :: string
  status_filter :: string

definition init_orders_page :: orders_page where
  "init_orders_page = \<lparr>search_term = [], status_filter = ''All Status''\<rparr>"

definition matches_search :: "string \<Rightarrow> order \<Rightarrow> bool" where
  "matches_search t od =
     (str_includes (to_lower (o_id od)) (to_lower t) \<or> str_includes (to_lower (customer od)) (to_lower t)
      \<or> str_includes (to_lower (email od)) (to_lower t))"

definition matches_status :: "string \<Rightarrow> order \<Rightarrow> bool" where
  "matches_status f od = (f = ''All Status'' \<or> o_status od = f)"

definition filtered_orders :: "orders_page \<Rightarrow> order list" where
  "filtered_orders st = filter (\<lambda>od. matches_search (search_term st) od \<and> matches_status (status_filter st) od) orders"

definition count_status :: "string \<Rightarrow> order list \<Rightarrow> nat" where
  "count_status s os = length (filter (\<lambda>od. o_status od = s) os)"

text \<open>The select's options; the select is controlled, so only these values reach
  \<open>setStatusFilter\<close>.\<close>

definition status_options :: "string list" where
  "status_options = [''All Status'', ''Pending'', ''Processing'', ''Shipped'', ''Delivered'', ''Cancelled'']"

datatype orders_event = Search_orders string | Filter_status string

fun orders_step :: "orders_event \<Rightarrow> orders_page \<Rightarrow> orders_page" where
  "orders_step (Search_orders t) st = st\<lparr>search_term := t\<rparr>"
| "orders_step (Filter_status f) st = st\<lparr>status_filter := f\<rparr>"

inductive orders_reach :: "orders_page \<Rightarrow> bool" where
  start: "orders_reach init_orders_page"
| search: "orders_reach st \<Longrightarrow> orders_reach (orders_step (Search_orders t) st)"
| choose: "orders_reach st \<Longrightarrow> f \<in> set status_options \<Longrightarrow> orders_reach (orders_step (Filter_status f) st)"

text \<open>\<open>{n} order{n !== 1 ? 's' : ''}\<close>, and the same for products.\<close>

definition plural_label :: "string \<Rightarrow> nat \<Rightarrow> string" where
  "plural_label thing n = decimal n @ '' '' @ thing @ (if n \<noteq> 1 then ''s'' else [])"

text \<open>The badge colours, by the code's chains of comparisons.\<close>

definition order_status_tone :: "string \<Rightarrow> string" where
  "order_status_tone s =
     (if s = ''Delivered'' then ''green'' else if s = ''Processing'' then ''cyan''
      else if s = ''Shipped'' then ''blue'' else if s = ''Pending'' then ''yellow''
      else if s = ''Cancelled'' then ''red'' else ''slate'')"

definition payment_tone :: "string \<Rightarrow> string" where
  "payment_tone p = (if p = ''Paid'' then ''violet'' else if p = ''Refunded'' then ''orange'' else ''slate'')"

record orders_view =
  ov_total :: nat
  ov_pending :: nat
  ov_processing :: nat
  ov_completed :: nat
  ov_label :: string
  ov_rows :: "(order \<times> string \<times> string) list option"

text \<open>The counters read the whole table; the label and the rows the filtered one; an
  empty result shows "No orders found" (\<open>None\<close>).\<close>

text \<open>A row of the table: the order with the tones of its status and payment badges.\<close>

definition order_row :: "order \<Rightarrow> order \<times> string \<times> string" where
  "order_row od = (od, order_status_tone (o_status od), payment_tone (payment od))"

definition orders_view :: "orders_page \<Rightarrow> orders_view" where
  "orders_view st =
     (let fs = filtered_orders st in
      \<lparr>ov_total = length orders, ov_pending = count_status ''Pending'' orders,
       ov_processing = count_status ''Processing'' orders, ov_completed = count_status ''Delivered'' orders,
       ov_label = plural_label ''order'' (length fs),
       ov_rows = (if fs = [] then None
                  else Some (map order_row fs))\<rparr>)"

subsection \<open>Product list\<close>

text \<open>A product of the reply's \<open>data.items\<close>, with the fields \<open>fetchProducts\<close> reads; a
  missing or null field is \<open>None\<close>.\<close>

record api_product =
  ap_id :: string
  ap_name :: string
  ap_category_name :: "string option"
  ap_price :: "rat option"
  ap_stock_quantity :: "rat option"
  ap_short_description :: "string option"
  ap_sku :: "string option"
  ap_created_at :: string
  ap_updated_at :: "string option"
  ap_updated_by :: "string option"

text \<open>The formatted product of the page (the icon is omitted).\<close>

record list_product =
  lp_id :: string
  lp_name :: string
  lp_category_name :: string
  lp_price :: rat
  lp_stock :: rat
  lp_status :: string
  lp_sales :: nat
  lp_short_description :: string
  lp_sku :: string
  lp_created_at :: string
  lp_updated_at :: string
  lp_updated_by :: string

text \<open>\<open>x || 0\<close> on a JSON number: \<open>0\<close>, \<open>null\<close> and a missing value all give 0.\<close>

definition num_or_zero :: "rat option \<Rightarrow> rat" where
  "num_or_zero x = (case x of Some r \<Rightarrow> r | None \<Rightarrow> 0)"

text \<open>\<open>p.stockQuantity > 10 ? 'In Stock' : p.stockQuantity > 0 ? 'Low Stock' :
  'Out of Stock'\<close>; a comparison with \<open>null\<close> or \<open>undefined\<close> is false.\<close>

definition stock_status :: "rat option \<Rightarrow> string" where
  "stock_status q =
     (case q of Some r \<Rightarrow> if r > 10 then ''In Stock'' else if r > 0 then ''Low Stock'' else ''Out of Stock''
      | None \<Rightarrow> ''Out of Stock'')"

definition format_product :: "(string \<Rightarrow> string) \<Rightarrow> api_product \<Rightarrow> list_product" where
  "format_product fmt p =
     \<lparr>lp_id = ap_id p, lp_name = ap_name p,
      lp_category_name = js_or_opt (ap_category_name p) ''Uncategorized'',
      lp_price = num_or_zero (ap_price p), lp_stock = num_or_zero (ap_stock_quantity p),
      lp_status = stock_status (ap_stock_quantity p), lp_sales = 0,
      lp_short_description = js_or_opt (ap_short_description p) [],
      lp_sku = js_or_opt (ap_sku p) [],
      lp_created_at = fmt (ap_created_at p),
      lp_updated_at = (if truthy (ap_updated_at p) then fmt (the (ap_updated_at p)) else []),
      lp_updated_by = js_or_opt (ap_updated_by p) ''N/A''\<rparr>"

text \<open>The reply: \<open>fetch\<close> or \<open>response.json()\<close> threw, or the HTTP status was not ok,
  or the body with \<open>success\<close> and \<open>data.items\<close> (\<open>None\<close> when \<open>data\<close> or its
  \<open>items\<close> is missing).\<close>

datatype products_reply =
    Products_failed
  | Products_not_ok
  | Products_body bool "api_product list option"

record products_page =
  pp_products :: "list_product list"
  pp_loading :: bool
  viewing_product :: "list_product option"
  delete_confirm :: "string option"

definition init_products_page :: products_page where
  "init_products_page = \<lparr>pp_products = [], pp_loading = True, viewing_product = None, delete_confirm = None\<rparr>"

definition products_api_url :: "string option \<Rightarrow> string" where
  "products_api_url env = js_or_opt env ''http://localhost:5285''"

definition products_request :: "string option \<Rightarrow> (string \<Rightarrow> ls_value option) \<Rightarrow> http_request" where
  "products_request env ls =
     \<lparr>http_method = ''GET'', url = products_api_url env @ ''/api/Products'',
      headers = [(''Authorization'', products_auth_header ls), (''Content-Type'', ''application/json'')],
      body = None\<rparr>"

definition fetch_products :: "(string \<Rightarrow> string) \<Rightarrow> products_reply \<Rightarrow> products_page \<Rightarrow> products_page" where
  "fetch_products fmt r pg =
     (case r of
        Products_body True (Some items) \<Rightarrow> pg\<lparr>pp_products := map (format_product fmt) items\<rparr>
      | _ \<Rightarrow> pg)\<lparr>pp_loading := False\<rparr>"

definition count_stock :: "string \<Rightarrow> list_product list \<Rightarrow> nat" where
  "count_stock s ps = length (filter (\<lambda>p. lp_status p = s) ps)"

datatype products_event =
    View_product list_product
  | Close_view
  | Ask_delete string
  | Cancel_delete
  | Confirm_delete

text \<open>The Delete button of the dialog only closes it ("Add delete logic here").\<close>

fun products_step :: "products_event \<Rightarrow> products_page \<Rightarrow> products_page" where
  "products_step (View_product p) pg = pg\<lparr>viewing_product := Some p\<rparr>"
| "products_step Close_view pg = pg\<lparr>viewing_product := None\<rparr>"
| "products_step (Ask_delete i) pg = pg\<lparr>delete_confirm := Some i\<rparr>"
| "products_step Cancel_delete pg = pg\<lparr>delete_confirm := None\<rparr>"
| "products_step Confirm_delete pg = pg\<lparr>delete_confirm := None\<rparr>"

text \<open>Rows are clickable only for listed products; the fetch runs once, on mount.\<close>

fun products_enabled :: "products_page \<Rightarrow> products_event \<Rightarrow> bool" where
  "products_enabled pg (View_product p) = (p \<in> set (pp_products pg))"
| "products_enabled pg (Ask_delete i) = (i \<in> lp_id ` set (pp_products pg))"
| "products_enabled pg Cancel_delete = (delete_confirm pg \<noteq> None)"
| "products_enabled pg Confirm_delete = (delete_confirm pg \<noteq> None)"
| "products_enabled pg Close_view = (viewing_product pg \<noteq> None)"

inductive products_reach :: "(string \<Rightarrow> string) \<Rightarrow> products_page \<Rightarrow> bool" for fmt where
  start: "products_reach fmt (fetch_products fmt r init_products_page)"
| step: "products_reach fmt pg \<Longrightarrow> products_enabled pg e \<Longrightarrow> products_reach fmt (products_step e pg)"

record products_view =
  pv_total :: nat
  pv_low :: nat
  pv_out :: nat
  pv_label :: string
  pv_rows :: "(list_product \<times> string) list"

text \<open>The header's link to the creation form, and the delete confirmation dialog, open
  while \<open>deleteConfirm\<close> holds an id.\<close>

definition products_add_link :: string where
  "products_add_link = ''/admin/products/add''"

definition delete_dialog_view :: "products_page \<Rightarrow> (string \<times> string) option" where
  "delete_dialog_view pg =
     (case delete_confirm pg of
        Some i \<Rightarrow> Some (''Delete Product'',
                        ''Are you sure you want to delete this product? This action cannot be undone.'')
      | None \<Rightarrow> None)"

definition stock_tone :: "string \<Rightarrow> string" where
  "stock_tone s = (if s = ''In Stock'' then ''green'' else if s = ''Low Stock'' then ''orange'' else ''red'')"

definition products_view :: "products_page \<Rightarrow> products_view" where
  "products_view pg =
     \<lparr>pv_total = length (pp_products pg), pv_low = count_stock ''Low Stock'' (pp_products pg),
      pv_out = count_stock ''Out of Stock'' (pp_products pg),
      pv_label = plural_label ''product'' (length (pp_products pg)),
      pv_rows = map (\<lambda>p. (p, stock_tone (lp_status p))) (pp_products pg)\<rparr>"

text \<open>The details dialog also prints \<open>description\<close> and \<open>category\<close>, which the
  formatted product does not have: \<open>undefined\<close> renders as nothing.\<close>

record details_view =
  dv_name :: string
  dv_description :: string
  dv_category :: string
  dv_status :: string
  dv_tone :: string
  dv_sku :: string
  dv_price :: rat
  dv_stock :: rat
  dv_sales :: nat
  dv_created :: string
  dv_updated :: string
  dv_updated_by :: string

definition details_view :: "products_page \<Rightarrow> details_view option" where
  "details_view pg =
     (case viewing_product pg of None \<Rightarrow> None | Some p \<Rightarrow>
        Some \<lparr>dv_name = lp_name p, dv_description = [], dv_category = [], dv_status = lp_status p,
              dv_tone = stock_tone (lp_status p), dv_sku = lp_sku p, dv_price = lp_price p,
              dv_stock = lp_stock p, dv_sales = lp_sales p, dv_created = lp_created_at p,
              dv_updated = lp_updated_at p, dv_updated_by = lp_updated_by p\<rparr>)"

subsection \<open>Customers page\<close>

record customer_row =
  c_id :: string
  c_name :: string
  c_email :: string
  c_phone :: string
  c_orders :: nat
  c_spent :: string
  c_status :: string
  c_joined :: string
  c_avatar :: string

definition customers :: "customer_row list" where
  "customers =
     [\<lparr>c_id = ''1'', c_name = ''John Doe'', c_email = ''john@example.com'', c_phone = ''+1 234-567-8901'',
       c_orders = 12, c_spent = ''$3,456'', c_status = ''Active'', c_joined = ''Jan 2025'', c_avatar = ''JD''\<rparr>,
      \<lparr>c_id = ''2'', c_name = ''Jane Smith'', c_email = ''jane@example.com'', c_phone = ''+1 234-567-8902'',
       c_orders = 8, c_spent = ''$2,890'', c_status = ''Active'', c_joined = ''Feb 2025'', c_avatar = ''JS''\<rparr>,
      \<lparr>c_id = ''3'', c_name = ''Bob Johnson'', c_email = ''bob@example.com'', c_phone = ''+1 234-567-8903'',
       c_orders = 15, c_spent = ''$4,120'', c_status = ''Active'', c_joined = ''Dec 2024'', c_avatar = ''BJ''\<rparr>,
      \<lparr>c_id = ''4'', c_name = ''Alice Brown'', c_email = ''alice@example.com'', c_phone = ''+1 234-567-8904'',
       c_orders = 3, c_spent = ''$890'', c_status = ''New'', c_joined = ''Mar 2025'', c_avatar = ''AB''\<rparr>,
      \<lparr>c_id = ''5'', c_name = ''Charlie Wilson'', c_email = ''charlie@example.com'', c_phone = ''+1 234-567-8905'',
       c_orders = 0, c_spent = ''$0'', c_status = ''Inactive'', c_joined = ''Mar 2025'', c_avatar = ''CW''\<rparr>]"

text \<open>The four stat cards: the first counts the table, the other three are literals.\<close>

definition customer_stats :: "(string \<times> string) list" where
  "customer_stats =
     [(''Total Customers'', decimal (length customers)), (''Active Customers'', ''3''),
      (''New This Month'', ''2''), (''Avg. Lifetime Value'', ''$2,271'')]"

definition customer_badge :: "string \<Rightarrow> string" where
  "customer_badge s = (if s = ''Active'' then ''default'' else if s = ''New'' then ''secondary'' else ''outline'')"

text \<open>The search box and the status select are uncontrolled and have no handler: the
  table is always the whole list.\<close>

definition customers_view :: "(customer_row \<times> string) list" where
  "customers_view = map (\<lambda>c. (c, customer_badge (c_status c))) customers"

subsection \<open>Dashboard\<close>

record sales_point =
  sp_name :: string
  sp_sales :: nat
  sp_orders :: nat
  sp_revenue :: nat

definition sales_data :: "sales_point list" where
  "sales_data =
     [\<lparr>sp_name = ''Jan'', sp_sales = 4000, sp_orders = 240, sp_revenue = 3200\<rparr>,
      \<lparr>sp_name = ''Feb'', sp_sales = 3000, sp_orders = 198, sp_revenue = 2800\<rparr>,
      \<lparr>sp_name = ''Mar'', sp_sales = 5000, sp_orders = 300, sp_revenue = 4200\<rparr>,
      \<lparr>sp_name = ''Apr'', sp_sales = 4500, sp_orders = 278, sp_revenue = 3900\<rparr>,
      \<lparr>sp_name = ''May'', sp_sales = 6000, sp_orders = 389, sp_revenue = 5100\<rparr>,
      \<lparr>sp_name = ''Jun'', sp_sales = 5500, sp_orders = 340, sp_revenue = 4800\<rparr>,
      \<lparr>sp_name = ''Jul'', sp_sales = 6200, sp_orders = 410, sp_revenue = 5400\<rparr>]"

text \<open>The area chart plots \<open>revenue\<close> and \<open>orders\<close> against \<open>name\<close>; \<open>sales\<close> is not
  plotted.\<close>

definition area_series :: "(string \<times> nat \<times> nat) list" where
  "area_series = map (\<lambda>d. (sp_name d, sp_revenue d, sp_orders d)) sales_data"

record category_slice =
  cs_name :: string
  cs_value :: nat
  cs_color :: string

definition category_data :: "category_slice list" where
  "category_data =
     [\<lparr>cs_name = ''Electronics'', cs_value = 400, cs_color = ''#8b5cf6''\<rparr>,
      \<lparr>cs_name = ''Fashion'', cs_value = 300, cs_color = ''#06b6d4''\<rparr>,
      \<lparr>cs_name = ''Home'', cs_value = 200, cs_color = ''#ec4899''\<rparr>,
      \<lparr>cs_name = ''Books'', cs_value = 100, cs_color = ''#f59e0b''\<rparr>]"

text \<open>\<open>Number.prototype.toFixed(0)\<close>: the nearest integer, the larger on a tie, with the
  sign written in front.\<close>

definition to_fixed0 :: "rat \<Rightarrow> string" where
  "to_fixed0 x = (if x < 0 then ''-'' else []) @ decimal (nat \<lfloor>\<bar>x\<bar> + 1 / 2\<rfloor>)"

text \<open>The pie's label \<open>`${name} ${(percent * 100).toFixed(0)}%`\<close>, with the share
  \<open>percent\<close> of the slice in the total that the chart library passes.\<close>

definition pie_labels :: "category_slice list \<Rightarrow> string list" where
  "pie_labels cs =
     (let total = sum_list (map cs_value cs) in
      map (\<lambda>c. cs_name c @ '' '' @ to_fixed0 (of_nat (cs_value c) / of_nat total * 100) @ ''%'') cs)"

record recent_order =
  ro_id :: string
  ro_customer :: string
  ro_email :: string
  ro_product :: string
  ro_amount :: string
  ro_status :: string
  ro_date :: string
  ro_avatar :: string

definition recent_orders :: "recent_order list" where
  "recent_orders =
     [\<lparr>ro_id = ''#3210'', ro_customer = ''John Doe'', ro_email = ''john@example.com'',
       ro_product = ''Wireless Headphones'', ro_amount = ''$299'', ro_status = ''Delivered'', ro_date = ''2 mins ago'',
       ro_avatar = ''JD''\<rparr>,
      \<lparr>ro_id = ''#3209'', ro_customer = ''Jane Smith'', ro_email = ''jane@example.com'',
       ro_product = ''Smart Watch Pro'', ro_amount = ''$399'', ro_status = ''Processing'', ro_date = ''1 hour ago'',
       ro_avatar = ''JS''\<rparr>,
      \<lparr>ro_id = ''#3208'', ro_customer = ''Bob Johnson'', ro_email = ''bob@example.com'',
       ro_product = ''Laptop Stand'', ro_amount = ''$49'', ro_status = ''Pending'', ro_date = ''3 hours ago'',
       ro_avatar = ''BJ''\<rparr>,
      \<lparr>ro_id = ''#3207'', ro_customer = ''Alice Brown'', ro_email = ''alice@example.com'',
       ro_product = ''USB-C Hub'', ro_amount = ''$79'', ro_status = ''Delivered'', ro_date = ''5 hours ago'',
       ro_avatar = ''AB''\<rparr>]"

text \<open>The dashboard's badge has three colours; every status but Delivered and
  Processing is orange.\<close>

definition recent_status_tone :: "string \<Rightarrow> string" where
  "recent_status_tone s = (if s = ''Delivered'' then ''green'' else if s = ''Processing'' then ''cyan'' else ''orange'')"

record top_product =
  tp_name :: string
  tp_sales :: nat
  tp_revenue :: string
  tp_trend :: string
  tp_stock :: nat
  tp_rating :: rat

definition top_products :: "top_product list" where
  "top_products =
     [\<lparr>tp_name = ''Wireless Headphones'', tp_sales = 234, tp_revenue = ''$69,866'', tp_trend = ''+12%'',
       tp_stock = 45, tp_rating = 48 / 10\<rparr>,
      \<lparr>tp_name = ''Designer T-Shirt'', tp_sales = 567, tp_revenue = ''$27,783'', tp_trend = ''+8%'',
       tp_stock = 120, tp_rating = 45 / 10\<rparr>,
      \<lparr>tp_name = ''USB-C Hub'', tp_sales = 345, tp_revenue = ''$20,355'', tp_trend = ''+15%'',
       tp_stock = 89, tp_rating = 49 / 10\<rparr>,
      \<lparr>tp_name = ''Premium Yoga Mat'', tp_sales = 234, tp_revenue = ''$9,126'', tp_trend = ''+5%'',
       tp_stock = 67, tp_rating = 47 / 10\<rparr>]"

record stat_card =
  sc_title :: string
  sc_value :: string
  sc_change :: string
  sc_trend :: string
  sc_color :: string
  sc_description :: string

definition stats_cards :: "stat_card list" where
  "stats_cards =
     [\<lparr>sc_title = ''Total Revenue'', sc_value = ''$45,231.89'', sc_change = ''+20.1%'', sc_trend = ''up'',
       sc_color = ''violet'', sc_description = ''from last month''\<rparr>,
      \<lparr>sc_title = ''Total Orders'', sc_value = ''1,745'', sc_change = ''+12.5%'', sc_trend = ''up'',
       sc_color = ''cyan'', sc_description = ''from last month''\<rparr>,
      \<lparr>sc_title = ''Active Products'', sc_value = ''573'', sc_change = ''-2%'', sc_trend = ''down'',
       sc_color = ''pink'', sc_description = ''from last month''\<rparr>,
      \<lparr>sc_title = ''Total Customers'', sc_value = ''2,350'', sc_change = ''+18.2%'', sc_trend = ''up'',
       sc_color = ''orange'', sc_description = ''from last month''\<rparr>]"

text \<open>A rendered stat card: title, value, the change with its arrow (\<open>isPositive\<close>), and
  the colour family of the \<open>stat.color\<close> chains (anything else is orange).\<close>

definition stat_card_view :: "stat_card \<Rightarrow> string \<times> string \<times> string \<times> bool \<times> string" where
  "stat_card_view c =
     (sc_title c, sc_value c, sc_change c, sc_trend c = ''up'',
      (if sc_color c = ''violet'' then ''violet'' else if sc_color c = ''cyan'' then ''cyan''
       else if sc_color c = ''pink'' then ''pink'' else ''orange''))"

text \<open>A row of the Recent Orders list: avatar, customer, status badge with its tone,
  product, date, amount and order id (the email is not shown).\<close>

record recent_row =
  rr_avatar :: string
  rr_customer :: string
  rr_tone :: string
  rr_status :: string
  rr_product :: string
  rr_date :: string
  rr_amount :: string
  rr_id :: string

definition recent_order_row :: "recent_order \<Rightarrow> recent_row" where
  "recent_order_row od =
     \<lparr>rr_avatar = ro_avatar od, rr_customer = ro_customer od, rr_tone = recent_status_tone (ro_status od),
      rr_status = ro_status od, rr_product = ro_product od, rr_date = ro_date od,
      rr_amount = ro_amount od, rr_id = ro_id od\<rparr>"

text \<open>A row of the Top Selling Products list.\<close>

record top_row =
  tr_name :: string
  tr_rating :: rat
  tr_sold :: string
  tr_left :: string
  tr_revenue :: string
  tr_trend :: string

definition top_product_row :: "top_product \<Rightarrow> top_row" where
  "top_product_row p =
     \<lparr>tr_name = tp_name p, tr_rating = tp_rating p, tr_sold = decimal (tp_sales p) @ '' sold'',
      tr_left = decimal (tp_stock p) @ '' left'', tr_revenue = tp_revenue p, tr_trend = tp_trend p\<rparr>"

text \<open>\<open>AdminDashboard\<close>: a page without state; its buttons (Last 30 days, View Reports,
  the two View All, Add Product, View Analytics) have no handler.\<close>

record dashboard_view =
  dv_stats :: "(string \<times> string \<times> string \<times> bool \<times> string) list"
  dv_area :: "(string \<times> nat \<times> nat) list"
  dv_pie :: "string list"
  dv_recent :: "recent_row list"
  dv_top :: "top_row list"
  dv_inert_buttons :: "string list"

definition dashboard_page :: dashboard_view where
  "dashboard_page =
     \<lparr>dv_stats = map stat_card_view stats_cards, dv_area = area_series, dv_pie = pie_labels category_data,
      dv_recent = map recent_order_row recent_orders, dv_top = map top_product_row top_products,
      dv_inert_buttons = [''Last 30 days'', ''View Reports'', ''View All'', ''View All'', ''Add Product'',
                          ''View Analytics'']\<rparr>"

subsection \<open>Lemmas: orders\<close>

lemma matches_search_empty [simp]: "matches_search [] od"
  by (simp add: matches_search_def to_lower_def)

text \<open>With an empty search box, choosing a status in the select lists exactly the orders
  of that status, in table order; "All Status" lists them all.\<close>

lemma status_filter_exact:
  "filtered_orders \<lparr>search_term = [], status_filter = f\<rparr>
     = (if f = ''All Status'' then orders else filter (\<lambda>od. o_status od = f) orders)"
  by (simp add: filtered_orders_def matches_status_def)

lemma filtered_orders_subseq: "subseq (filtered_orders st) orders"
  by (simp add: filtered_orders_def)

text \<open>The "Completed" counter counts Delivered orders only: the six orders are
  one Pending, one Processing, two Delivered, one Shipped and one Cancelled, so two of
  them appear in no counter.\<close>

lemma order_counters:
  "count_status ''Pending'' orders = 1 \<and> count_status ''Processing'' orders = 1
   \<and> count_status ''Delivered'' orders = 2 \<and> count_status ''Shipped'' orders = 1
   \<and> count_status ''Cancelled'' orders = 1 \<and> length orders = 6"
  by (simp add: count_status_def orders_def)

subsection \<open>Lemmas: product list\<close>

lemma format_product_status:
  "lp_status (format_product fmt p) =
     (if 10 < lp_stock (format_product fmt p) then ''In Stock''
      else if 0 < lp_stock (format_product fmt p) then ''Low Stock'' else ''Out of Stock'')"
  by (cases "ap_stock_quantity p") (simp_all add: format_product_def stock_status_def num_or_zero_def)

lemma products_step_products [simp]: "pp_products (products_step e pg) = pp_products pg"
  by (cases e) simp_all

lemma fetch_products_products:
  "set (pp_products (fetch_products fmt r pg)) \<subseteq> set (pp_products pg) \<union> range (format_product fmt)"
  by (auto simp: fetch_products_def split: products_reply.split bool.split option.split)

lemma products_reach_formatted:
  "products_reach fmt pg \<Longrightarrow> set (pp_products pg) \<subseteq> range (format_product fmt)"
proof (induction rule: products_reach.induct)
  case (start r)
  then show ?case using fetch_products_products [of fmt r init_products_page]
    by (simp add: init_products_page_def)
qed simp

lemma formatted_status:
  "p \<in> range (format_product fmt) \<Longrightarrow>
   lp_status p = (if 10 < lp_stock p then ''In Stock'' else if 0 < lp_stock p then ''Low Stock'' else ''Out of Stock'')"
  using format_product_status by blast

lemma reach_status:
  "products_reach fmt pg \<Longrightarrow> p \<in> set (pp_products pg) \<Longrightarrow>
   lp_status p = (if 10 < lp_stock p then ''In Stock'' else if 0 < lp_stock p then ''Low Stock'' else ''Out of Stock'')"
  using products_reach_formatted formatted_status by blast

lemma count_stock_partition:
  "\<forall>p\<in>set ps. lp_status p \<in> {''In Stock'', ''Low Stock'', ''Out of Stock''} \<Longrightarrow>
   count_stock ''In Stock'' ps + count_stock ''Low Stock'' ps + count_stock ''Out of Stock'' ps = length ps"
  by (induction ps) (auto simp: count_stock_def)

text \<open>The stat cards and the table agree: every listed product is counted by exactly
  one of In Stock, Low Stock and Out of Stock.\<close>

lemma stock_counts_partition:
  "products_reach fmt pg \<Longrightarrow>
   count_stock ''In Stock'' (pp_products pg) + count_stock ''Low Stock'' (pp_products pg)
   + count_stock ''Out of Stock'' (pp_products pg) = length (pp_products pg)"
  by (rule count_stock_partition) (simp add: reach_status)

text \<open>Confirming a deletion only closes the dialog: the list is unchanged and no
  request is sent.\<close>

lemma confirm_delete_keeps_products:
  "products_step Confirm_delete pg = pg\<lparr>delete_confirm := None\<rparr>"
  by simp

lemma details_without_description:
  "details_view pg = Some d \<Longrightarrow> dv_description d = [] \<and> dv_category d = []"
  by (auto simp: details_view_def split: option.splits)

subsection \<open>Lemmas: customers and dashboard\<close>

text \<open>The Active Customers card's literal 3 matches the table; the New This Month
  card's literal 2 does not match the one customer with status New.\<close>

lemma customer_literals:
  "length (filter (\<lambda>c. c_status c = ''Active'') customers) = 3
   \<and> length (filter (\<lambda>c. c_status c = ''New'') customers) = 1"
  by (simp add: customers_def)

lemma pie_labels_category_data:
  "pie_labels category_data = [''Electronics 40%'', ''Fashion 30%'', ''Home 20%'', ''Books 10%'']"
  by code_simp

subsection \<open>Properties of the product list\<close>

text \<open>
  C23. Every product the admin list holds, after its fetch and any dialog events, has a
  stock status that is one of "In Stock", "Low Stock" and "Out of Stock", and it agrees
  with the stock shown beside it (\<open>stockQuantity || 0\<close>): In Stock exactly above 10,
  Low Stock exactly from just above 0 to 10, Out of Stock exactly at 0 or below, a
  missing or null quantity included.
\<close>

theorem product_status_typed:
  assumes "products_reach fmt pg" and "p \<in> set (pp_products pg)"
  shows "lp_status p \<in> {''In Stock'', ''Low Stock'', ''Out of Stock''}
         \<and> (lp_status p = ''In Stock'' \<longleftrightarrow> 10 < lp_stock p)
         \<and> (lp_status p = ''Low Stock'' \<longleftrightarrow> 0 < lp_stock p \<and> lp_stock p \<le> 10)
         \<and> (lp_status p = ''Out of Stock'' \<longleftrightarrow> lp_stock p \<le> 0)"
  using reach_status [OF assms] by auto

theorem product_status_typed_witness:
  "(let p = format_product (\<lambda>s. s)
              \<lparr>ap_id = ''p1'', ap_name = ''Mat'', ap_category_name = None, ap_price = Some 20,
               ap_stock_quantity = Some 10, ap_short_description = None, ap_sku = Some ''M1'',
               ap_created_at = ''Jan 1, 2025'', ap_updated_at = None, ap_updated_by = None\<rparr>
    in lp_status p \<in> {''In Stock'', ''Low Stock'', ''Out of Stock''}
       \<and> (lp_status p = ''In Stock'' \<longleftrightarrow> 10 < lp_stock p)
       \<and> (lp_status p = ''Low Stock'' \<longleftrightarrow> 0 < lp_stock p \<and> lp_stock p \<le> 10)
       \<and> (lp_status p = ''Out of Stock'' \<longleftrightarrow> lp_stock p \<le> 0))"
  unfolding Let_def
  by (rule product_status_typed [OF products_reach.start [of "\<lambda>s. s"
        "Products_body True (Some [\<lparr>ap_id = ''p1'', ap_name = ''Mat'', ap_category_name = None, ap_price = Some 20,
               ap_stock_quantity = Some 10, ap_short_description = None, ap_sku = Some ''M1'',
               ap_created_at = ''Jan 1, 2025'', ap_updated_at = None, ap_updated_by = None\<rparr>])"]])
     (simp add: fetch_products_def init_products_page_def)

end
