(* ===== verification/StorePages.thy ===== *)
theory StorePages
  imports RouteGuard Storefront
begin

text \<open>
  The storefront's page frame and its two static pages: \<open>src/app/ClientLayout.tsx\<close>
  (header and footer on every page that is not an admin page), the product catalogue
  \<open>src/app/products/page.tsx\<close> (a static grid with filter, search, sort and pagination
  controls that have no handlers) and the cart \<open>src/app/cart/page.tsx\<close> (an empty cart
  that renders a header of its own). The product icons are emoji and are omitted.
\<close>

subsection \<open>Page frame\<close>

record page_frame =
  frame_header :: "header option"
  frame_footer :: "(string \<Rightarrow> bool option) option"

text \<open>\<open>ClientLayout\<close>: on a path that is not an admin route the header, given the
  server's categories, and the footer, both in their initial state, around the page.\<close>

definition client_layout :: "path \<Rightarrow> nav_category list \<Rightarrow> page_frame" where
  "client_layout p cats =
     (if is_admin_route p then \<lparr>frame_header = None, frame_footer = None\<rparr>
      else \<lparr>frame_header = Some (init_header cats), frame_footer = Some init_footer\<rparr>)"

subsection \<open>Product catalogue\<close>

record shop_product =
  sh_id :: nat
  sh_name :: string
  sh_price :: nat
  sh_original_price :: nat
  sh_rating :: rat
  sh_reviews :: nat
  sh_badge :: string
  sh_discount :: nat
  sh_category :: string

definition shop_products :: "shop_product list" where
  "shop_products =
     [\<lparr>sh_id = 1, sh_name = ''Wireless Headphones Pro'', sh_price = 299, sh_original_price = 399,
       sh_rating = 48 / 10, sh_reviews = 234, sh_badge = ''Best Seller'', sh_discount = 25, sh_category = ''Electronics''\<rparr>,
      \<lparr>sh_id = 2, sh_name = ''Smart Watch Series 5'', sh_price = 399, sh_original_price = 499,
       sh_rating = 49 / 10, sh_reviews = 189, sh_badge = ''New'', sh_discount = 20, sh_category = ''Electronics''\<rparr>,
      \<lparr>sh_id = 3, sh_name = ''Premium Yoga Mat'', sh_price = 39, sh_original_price = 59,
       sh_rating = 47 / 10, sh_reviews = 567, sh_badge = ''Hot Deal'', sh_discount = 34, sh_category = ''Sports''\<rparr>,
      \<lparr>sh_id = 4, sh_name = ''Laptop Stand Pro'', sh_price = 79, sh_original_price = 99,
       sh_rating = 46 / 10, sh_reviews = 89, sh_badge = ''Sale'', sh_discount = 20, sh_category = ''Accessories''\<rparr>,
      \<lparr>sh_id = 5, sh_name = ''Designer T-Shirt'', sh_price = 49, sh_original_price = 79,
       sh_rating = 45 / 10, sh_reviews = 345, sh_badge = ''Trending'', sh_discount = 38, sh_category = ''Fashion''\<rparr>,
      \<lparr>sh_id = 6, sh_name = ''USB-C Hub 7-in-1'', sh_price = 59, sh_original_price = 89,
       sh_rating = 47 / 10, sh_reviews = 256, sh_badge = ''Popular'', sh_discount = 34, sh_category = ''Electronics''\<rparr>,
      \<lparr>sh_id = 7, sh_name = ''Coffee Maker Deluxe'', sh_price = 129, sh_original_price = 179,
       sh_rating = 48 / 10, sh_reviews = 178, sh_badge = ''Featured'', sh_discount = 28, sh_category = ''Home''\<rparr>,
      \<lparr>sh_id = 8, sh_name = ''Running Shoes Pro'', sh_price = 89, sh_original_price = 129,
       sh_rating = 46 / 10, sh_reviews = 423, sh_badge = ''Best Seller'', sh_discount = 31, sh_category = ''Sports''\<rparr>,
      \<lparr>sh_id = 9, sh_name = ''Bluetooth Speaker'', sh_price = 79, sh_original_price = 119,
       sh_rating = 47 / 10, sh_reviews = 312, sh_badge = ''Hot'', sh_discount = 34, sh_category = ''Electronics''\<rparr>,
      \<lparr>sh_id = 10, sh_name = ''Desk Lamp LED'', sh_price = 45, sh_original_price = 69,
       sh_rating = 45 / 10, sh_reviews = 234, sh_badge = ''New'', sh_discount = 35, sh_category = ''Home''\<rparr>,
      \<lparr>sh_id = 11, sh_name = ''Water Bottle Steel'', sh_price = 29, sh_original_price = 45,
       sh_rating = 48 / 10, sh_reviews = 567, sh_badge = ''Eco-Friendly'', sh_discount = 36, sh_category = ''Sports''\<rparr>,
      \<lparr>sh_id = 12, sh_name = ''Backpack Premium'', sh_price = 69, sh_original_price = 99,
       sh_rating = 46 / 10, sh_reviews = 189, sh_badge = ''Sale'', sh_discount = 30, sh_category = ''Fashion''\<rparr>]"

text \<open>The sidebar's checkboxes, the sort select and the pagination buttons: rendered,
  uncontrolled, with no handler.\<close>

definition category_filters :: "string list" where
  "category_filters = [''All'', ''Electronics'', ''Fashion'', ''Sports'', ''Home'', ''Accessories'']"

definition price_ranges :: "string list" where
  "price_ranges = [''Under $50'', ''$50 - $100'', ''$100 - $200'', ''Over $200'']"

definition rating_filters :: "string list" where
  "rating_filters = map (\<lambda>r. decimal r @ ''+ Stars'') [4, 3, 2, 1]"

definition sort_options :: "string list" where
  "sort_options = [''Sort by: Featured'', ''Price: Low to High'', ''Price: High to Low'', ''Rating: High to Low'',
                   ''Newest First'']"

record shop_card =
  card_badge :: string
  card_discount :: "string option"
  card_category :: string
  card_name :: string
  card_rating :: rat
  card_reviews :: string
  card_price :: string
  card_original :: string

definition shop_card :: "shop_product \<Rightarrow> shop_card" where
  "shop_card p =
     \<lparr>card_badge = sh_badge p,
      card_discount = (if sh_discount p > 0 then Some (''-'' @ decimal (sh_discount p) @ ''%'') else None),
      card_category = sh_category p, card_name = sh_name p, card_rating = sh_rating p,
      card_reviews = ''('' @ decimal (sh_reviews p) @ '')'',
      card_price = ''$'' @ decimal (sh_price p), card_original = ''$'' @ decimal (sh_original_price p)\<rparr>"

definition products_grid :: "shop_card list" where
  "products_grid = map shop_card shop_products"

text \<open>\<open>ProductsPage\<close>: the title, the sidebar's checkboxes with their initial state
  (uncontrolled: only \<open>defaultChecked\<close> for "All"), the search box, the sort select, the
  grid and the pagination row, where page 1 is drawn as the current one. No control has
  a handler.\<close>

record catalogue_view =
  cv_title :: string
  cv_category_boxes :: "(string \<times> bool) list"
  cv_price_boxes :: "(string \<times> bool) list"
  cv_rating_boxes :: "(string \<times> bool) list"
  cv_search_placeholder :: string
  cv_sort :: "string list"
  cv_grid :: "shop_card list"
  cv_pages :: "(string \<times> bool) list"

definition products_page_view :: catalogue_view where
  "products_page_view =
     \<lparr>cv_title = ''All Products'',
      cv_category_boxes = map (\<lambda>c. (c, c = ''All'')) category_filters,
      cv_price_boxes = map (\<lambda>r. (r, False)) price_ranges,
      cv_rating_boxes = map (\<lambda>r. (r, False)) rating_filters,
      cv_search_placeholder = ''Search products...'', cv_sort = sort_options, cv_grid = products_grid,
      cv_pages = [(''Previous'', False), (''1'', True), (''2'', False), (''3'', False), (''Next'', False)]\<rparr>"

subsection \<open>Cart\<close>

record cart_view =
  cart_header :: header
  cart_items :: "shop_product list"
  cart_subtotal :: string
  cart_shipping :: string
  cart_total :: string
  checkout_enabled :: bool
  continue_link :: string

text \<open>\<open>CartPage\<close>: its own \<open>Header\<close> with the default \<open>ssrCategories = []\<close>, an empty
  cart, zero amounts and a disabled checkout button.\<close>

definition cart_page :: cart_view where
  "cart_page =
     \<lparr>cart_header = init_header [], cart_items = [], cart_subtotal = ''$0.00'', cart_shipping = ''$0.00'',
      cart_total = ''$0.00'', checkout_enabled = False, continue_link = ''/products''\<rparr>"

text \<open>The headers on screen at a storefront path whose page is \<open>page_headers\<close>: the
  layout's and the page's own.\<close>

definition headers_on_screen :: "path \<Rightarrow> nav_category list \<Rightarrow> header list \<Rightarrow> header list" where
  "headers_on_screen p cats page_headers =
     (case frame_header (client_layout p cats) of Some h \<Rightarrow> [h] | None \<Rightarrow> []) @ page_headers"

subsection \<open>Lemmas\<close>

text \<open>Every displayed discount is the saving in per cent of the original price,
  rounded to the nearest integer.\<close>

lemma discounts_are_rounded_savings:
  "list_all (\<lambda>p. sh_discount p =
       nat \<lfloor>of_nat (sh_original_price p - sh_price p) * 100 / of_nat (sh_original_price p) + (1 / 2 :: rat)\<rfloor>)
     shop_products"
  by code_simp

text \<open>The cart shows two headers: the layout's, with the server's categories, and its own,
  which starts without categories and fetches them again.\<close>

lemma cart_two_headers:
  "headers_on_screen ''/cart'' cats [cart_header cart_page] = [init_header cats, init_header []]"
  by (simp add: headers_on_screen_def client_layout_def is_admin_route_def cart_page_def)

text \<open>The layout's header is the start of the header's runs, so every storefront
  page's category bar lists only top-level categories when they come from the root
  layout.\<close>

lemma frame_header_reach:
  "frame_header (client_layout p cats) = Some h \<Longrightarrow> header_reach cats h"
  by (auto simp: client_layout_def split: if_splits intro: header_reach.start)

end
