(* ===== verification/Services.thy ===== *)
theory Services
  imports JsNumber
begin

text \<open>
  The REST service wrappers under \<open>src/lib/services\<close>: \<open>categoriesService\<close>,
  \<open>productsService\<close>, \<open>ordersService\<close> and \<open>customersService\<close>. Each method is one
  call of \<open>apiClient\<close> from \<open>../api\<close>, a module that is not in the repository, so a
  method is modelled as the call it makes: the verb, the path and the body. What
  \<open>apiClient\<close> does with the call is not known. No page imports these services.
\<close>

subsection \<open>Calls\<close>

datatype api_verb = Api_get | Api_post | Api_put | Api_delete

text \<open>JSON bodies, with the arrays and objects the order DTOs need.\<close>

datatype sjson = SNull | SBool bool | SStr string | SNum rat | SArr "sjson list" | SObj "(string \<times> sjson) list"

record api_call =
  ac_verb :: api_verb
  ac_path :: string
  ac_body :: "sjson option"

definition get_all :: "string \<Rightarrow> api_call" where
  "get_all base = \<lparr>ac_verb = Api_get, ac_path = base, ac_body = None\<rparr>"

definition get_by_id :: "string \<Rightarrow> string \<Rightarrow> api_call" where
  "get_by_id base i = \<lparr>ac_verb = Api_get, ac_path = base @ ''/'' @ i, ac_body = None\<rparr>"

definition create_call :: "string \<Rightarrow> sjson \<Rightarrow> api_call" where
  "create_call base d = \<lparr>ac_verb = Api_post, ac_path = base, ac_body = Some d\<rparr>"

definition update_call :: "string \<Rightarrow> string \<Rightarrow> sjson \<Rightarrow> api_call" where
  "update_call base i d = \<lparr>ac_verb = Api_put, ac_path = base @ ''/'' @ i, ac_body = Some d\<rparr>"

definition delete_call :: "string \<Rightarrow> string \<Rightarrow> api_call" where
  "delete_call base i = \<lparr>ac_verb = Api_delete, ac_path = base @ ''/'' @ i, ac_body = None\<rparr>"

text \<open>A \<open>Partial<Dto>\<close>: the fields present, in declaration order.\<close>

definition partial_obj :: "(string \<times> sjson option) list \<Rightarrow> sjson" where
  "partial_obj fs = SObj (List.map_filter (\<lambda>(k, v). map_option (Pair k) v) fs)"

subsection \<open>Categories\<close>

record create_category_dto =
  ccd_name :: string
  ccd_description :: string

definition category_dto_json :: "create_category_dto \<Rightarrow> sjson" where
  "category_dto_json d = SObj [(''name'', SStr (ccd_name d)), (''description'', SStr (ccd_description d))]"

definition categories_get_all :: api_call where
  "categories_get_all = get_all ''/categories''"

definition categories_get_by_id :: "string \<Rightarrow> api_call" where
  "categories_get_by_id i = get_by_id ''/categories'' i"

definition categories_create :: "create_category_dto \<Rightarrow> api_call" where
  "categories_create d = create_call ''/categories'' (category_dto_json d)"

definition categories_update :: "string \<Rightarrow> string option \<Rightarrow> string option \<Rightarrow> api_call" where
  "categories_update i name descr =
     update_call ''/categories'' i (partial_obj [(''name'', map_option SStr name), (''description'', map_option SStr descr)])"

definition categories_delete :: "string \<Rightarrow> api_call" where
  "categories_delete i = delete_call ''/categories'' i"

subsection \<open>Products\<close>

record create_product_dto =
  cpd_name :: string
  cpd_description :: string
  cpd_price :: rat
  cpd_image_url :: string
  cpd_category_id :: string
  cpd_stock :: rat

definition product_dto_json :: "create_product_dto \<Rightarrow> sjson" where
  "product_dto_json d =
     SObj [(''name'', SStr (cpd_name d)), (''description'', SStr (cpd_description d)), (''price'', SNum (cpd_price d)),
           (''imageUrl'', SStr (cpd_image_url d)), (''categoryId'', SStr (cpd_category_id d)),
           (''stock'', SNum (cpd_stock d))]"

definition products_get_all :: api_call where
  "products_get_all = get_all ''/products''"

definition products_get_by_id :: "string \<Rightarrow> api_call" where
  "products_get_by_id i = get_by_id ''/products'' i"

definition products_create :: "create_product_dto \<Rightarrow> api_call" where
  "products_create d = create_call ''/products'' (product_dto_json d)"

definition products_update :: "string \<Rightarrow> (string \<times> sjson option) list \<Rightarrow> api_call" where
  "products_update i fs = update_call ''/products'' i (partial_obj fs)"

definition products_delete :: "string \<Rightarrow> api_call" where
  "products_delete i = delete_call ''/products'' i"

definition products_get_by_category :: "string \<Rightarrow> api_call" where
  "products_get_by_category c = get_by_id ''/products/category'' c"

subsection \<open>Orders\<close>

datatype order_status = Pending | Processing | Shipped | Delivered | Cancelled

fun status_name :: "order_status \<Rightarrow> string" where
  "status_name Pending = ''Pending''"
| "status_name Processing = ''Processing''"
| "status_name Shipped = ''Shipped''"
| "status_name Delivered = ''Delivered''"
| "status_name Cancelled = ''Cancelled''"

record order_item =
  oi_product_id :: string
  oi_quantity :: rat
  oi_price :: rat

record create_order_dto =
  cod_customer_id :: string
  cod_items :: "order_item list"

definition order_item_json :: "order_item \<Rightarrow> sjson" where
  "order_item_json it =
     SObj [(''productId'', SStr (oi_product_id it)), (''quantity'', SNum (oi_quantity it)), (''price'', SNum (oi_price it))]"

definition order_dto_json :: "create_order_dto \<Rightarrow> sjson" where
  "order_dto_json d = SObj [(''customerId'', SStr (cod_customer_id d)), (''items'', SArr (map order_item_json (cod_items d)))]"

definition orders_get_all :: api_call where
  "orders_get_all = get_all ''/orders''"

definition orders_get_by_id :: "string \<Rightarrow> api_call" where
  "orders_get_by_id i = get_by_id ''/orders'' i"

definition orders_create :: "create_order_dto \<Rightarrow> api_call" where
  "orders_create d = create_call ''/orders'' (order_dto_json d)"

definition orders_update_status :: "string \<Rightarrow> order_status \<Rightarrow> api_call" where
  "orders_update_status i s =
     \<lparr>ac_verb = Api_put, ac_path = ''/orders/'' @ i @ ''/status'', ac_body = Some (SObj [(''status'', SStr (status_name s))])\<rparr>"

definition orders_delete :: "string \<Rightarrow> api_call" where
  "orders_delete i = delete_call ''/orders'' i"

definition orders_get_by_customer :: "string \<Rightarrow> api_call" where
  "orders_get_by_customer c = get_by_id ''/orders/customer'' c"

subsection \<open>Customers\<close>

record create_customer_dto =
  ccu_name :: string
  ccu_email :: string
  ccu_phone :: string
  ccu_address :: string

definition customer_dto_json :: "create_customer_dto \<Rightarrow> sjson" where
  "customer_dto_json d =
     SObj [(''name'', SStr (ccu_name d)), (''email'', SStr (ccu_email d)), (''phone'', SStr (ccu_phone d)),
           (''address'', SStr (ccu_address d))]"

definition customers_get_all :: api_call where
  "customers_get_all = get_all ''/customers''"

definition customers_get_by_id :: "string \<Rightarrow> api_call" where
  "customers_get_by_id i = get_by_id ''/customers'' i"

definition customers_create :: "create_customer_dto \<Rightarrow> api_call" where
  "customers_create d = create_call ''/customers'' (customer_dto_json d)"

definition customers_update :: "string \<Rightarrow> (string \<times> sjson option) list \<Rightarrow> api_call" where
  "customers_update i fs = update_call ''/customers'' i (partial_obj fs)"

definition customers_delete :: "string \<Rightarrow> api_call" where
  "customers_delete i = delete_call ''/customers'' i"

subsection \<open>Lemmas\<close>

text \<open>An id is read back from the path of the call that names it: the path is the base,
  a slash and the id.\<close>

lemma id_from_path:
  "drop (length base + 1) (ac_path (get_by_id base i)) = i"
  "drop (length base + 1) (ac_path (update_call base i d)) = i"
  "drop (length base + 1) (ac_path (delete_call base i)) = i"
  by (simp_all add: get_by_id_def update_call_def delete_call_def)

text \<open>A status update sends exactly the status name of the union type, and the five
  names are distinct.\<close>

lemma status_name_inj: "status_name s = status_name s' \<Longrightarrow> s = s'"
  by (cases s; cases s') simp_all

text \<open>The services address \<open>/categories\<close>, \<open>/products\<close>, \<open>/orders\<close> and
  \<open>/customers\<close>, while the admin pages call \<open>${API_BASE_URL}/api/Categories\<close> and the
  like: no service path starts with \<open>/api\<close>.\<close>

lemma service_paths_not_api:
  "\<not> starts_with (ac_path categories_get_all) ''/api'' \<and> \<not> starts_with (ac_path products_get_all) ''/api''
   \<and> \<not> starts_with (ac_path orders_get_all) ''/api'' \<and> \<not> starts_with (ac_path customers_get_all) ''/api''"
  by (simp add: categories_get_all_def products_get_all_def orders_get_all_def customers_get_all_def get_all_def)

end
