(* ===== verification/BackupForm.thy ===== *)
theory BackupForm
  imports ProductView Services
begin

text \<open>
  The earlier product form kept beside the current one,
  \<open>src/app/admin/products/add/page_old_backup.tsx\<close>. Its handlers for the form fields,
  the related and cross-sell products and the attributes are the same code as the
  current form's, so they are the functions of \<open>ProductForm\<close> and the events are
  \<open>page_step\<close> of \<open>ProductView\<close>. It differs in its initial \<open>formData\<close>, in the controls
  it renders (four shared tabs, the related and attribute tabs, and a side column with
  the SEO and product-type inputs; no pictures, videos or specifications) and in
  \<open>handleSubmit\<close>, which validates nothing, sends no token and posts a different body
  to a fixed URL.
\<close>

subsection \<open>State\<close>

definition backup_form_fields :: "(string \<times> fval) list" where
  "backup_form_fields =
     [(''name'', FStr ''''),
      (''shortDescription'', FStr ''''),
      (''fullDescription'', FStr ''''),
      (''sku'', FStr ''''),
      (''categories'', FStr ''''),
      (''manufacturer'', FStr ''''),
      (''published'', FBool True),
      (''productType'', FStr ''simple''),
      (''visibleIndividually'', FBool True),
      (''customerRoles'', FStr ''all''),
      (''limitedToStores'', FBool False),
      (''vendorId'', FStr ''''),
      (''requireOtherProducts'', FBool False),
      (''requiredProductIds'', FStr ''''),
      (''automaticallyAddProducts'', FBool False),
      (''showOnHomepage'', FBool False),
      (''displayOrder'', FStr ''1''),
      (''productTags'', FStr ''''),
      (''gtin'', FStr ''''),
      (''manufacturerPartNumber'', FStr ''''),
      (''adminComment'', FStr ''''),
      (''price'', FStr ''''),
      (''oldPrice'', FStr ''''),
      (''cost'', FStr ''''),
      (''disableBuyButton'', FBool False),
      (''disableWishlistButton'', FBool False),
      (''availableForPreOrder'', FBool False),
      (''preOrderAvailabilityStartDate'', FStr ''''),
      (''callForPrice'', FBool False),
      (''customerEntersPrice'', FBool False),
      (''minimumCustomerEnteredPrice'', FStr ''''),
      (''maximumCustomerEnteredPrice'', FStr ''''),
      (''basepriceEnabled'', FBool False),
      (''basepriceAmount'', FStr ''''),
      (''basepriceUnit'', FStr ''''),
      (''basepriceBaseAmount'', FStr ''''),
      (''basepriceBaseUnit'', FStr ''''),
      (''markAsNew'', FBool False),
      (''markAsNewStartDate'', FStr ''''),
      (''markAsNewEndDate'', FStr ''''),
      (''hasDiscountsApplied'', FBool False),
      (''availableStartDate'', FStr ''''),
      (''availableEndDate'', FStr ''''),
      (''taxExempt'', FBool False),
      (''taxCategoryId'', FStr ''''),
      (''telecommunicationsBroadcastingElectronicServices'', FBool False),
      (''metaTitle'', FStr ''''),
      (''metaKeywords'', FStr ''''),
      (''metaDescription'', FStr ''''),
      (''searchEngineFriendlyPageName'', FStr ''''),
      (''manageInventory'', FStr ''track''),
      (''stockQuantity'', FStr ''''),
      (''displayStockAvailability'', FBool True),
      (''displayStockQuantity'', FBool False),
      (''minStockQuantity'', FStr ''''),
      (''lowStockActivity'', FStr ''nothing''),
      (''notifyAdminForQuantityBelow'', FStr ''''),
      (''backorders'', FStr ''no-backorders''),
      (''allowBackInStockSubscriptions'', FBool False),
      (''productAvailabilityRange'', FStr ''''),
      (''minCartQuantity'', FStr ''1''),
      (''maxCartQuantity'', FStr ''10000''),
      (''allowedQuantities'', FStr ''''),
      (''allowAddingOnlyExistingAttributeCombinations'', FBool False),
      (''notReturnable'', FBool False),
      (''isShipEnabled'', FBool True),
      (''isFreeShipping'', FBool False),
      (''shipSeparately'', FBool False),
      (''additionalShippingCharge'', FStr ''''),
      (''deliveryDateId'', FStr ''''),
      (''weight'', FStr ''''),
      (''length'', FStr ''''),
      (''width'', FStr ''''),
      (''height'', FStr ''''),
      (''isGiftCard'', FBool False),
      (''giftCardType'', FStr ''virtual''),
      (''overriddenGiftCardAmount'', FStr ''''),
      (''isDownload'', FBool False),
      (''downloadId'', FStr ''''),
      (''unlimitedDownloads'', FBool True),
      (''maxNumberOfDownloads'', FStr ''''),
      (''downloadExpirationDays'', FStr ''''),
      (''downloadActivationType'', FStr ''when-order-is-paid''),
      (''hasUserAgreement'', FBool False),
      (''userAgreementText'', FStr ''''),
      (''hasSampleDownload'', FBool False),
      (''sampleDownloadId'', FStr ''''),
      (''isRecurring'', FBool False),
      (''recurringCycleLength'', FStr ''''),
      (''recurringCyclePeriod'', FStr ''days''),
      (''recurringTotalCycles'', FStr ''''),
      (''isRental'', FBool False),
      (''rentalPriceLength'', FStr ''''),
      (''rentalPricePeriod'', FStr ''days'')]"

definition init_backup_page :: product_page where
  "init_backup_page = init_product_page\<lparr>form_data := map_of backup_form_fields\<rparr>"

subsection \<open>Rendered controls\<close>

text \<open>The right-hand column: SEO inputs and the product-type checkboxes, always on
  screen (named by the \<open>Seo\<close> tab here).\<close>

definition backup_side_inputs :: "(string \<times> input_kind) list" where
  "backup_side_inputs =
     [(''metaTitle'', Text_input), (''metaDescription'', Text_area), (''searchEngineFriendlyPageName'', Text_input),
      (''isDownload'', Check_box), (''isRecurring'', Check_box), (''isRental'', Check_box), (''isGiftCard'', Check_box)]"

text \<open>The six tabs of the main column. Apart from their class names and their use of
  the \<open>Button\<close>, \<open>Badge\<close> and \<open>Card\<close> components the four form tabs render the
  same controls as the current form's, and the related-products and attributes tabs
  offer the same events.\<close>

definition backup_basic_info_inputs :: "(string \<times> input_kind) list" where
  "backup_basic_info_inputs = basic_info_inputs"

definition backup_publishing_inputs :: "(string \<times> input_kind) list" where
  "backup_publishing_inputs = publishing_inputs"

definition backup_admin_comment_inputs :: "(string \<times> input_kind) list" where
  "backup_admin_comment_inputs = admin_comment_inputs"

definition backup_product_info_inputs :: "(string \<times> input_kind) list" where
  "backup_product_info_inputs = backup_basic_info_inputs @ backup_publishing_inputs @ backup_admin_comment_inputs"

definition backup_price_inputs :: "form \<Rightarrow> (string \<times> input_kind) list" where
  "backup_price_inputs f = price_inputs f"

definition backup_pre_order_inputs :: "form \<Rightarrow> (string \<times> input_kind) list" where
  "backup_pre_order_inputs f = pre_order_inputs f"

definition backup_mark_as_new_inputs :: "form \<Rightarrow> (string \<times> input_kind) list" where
  "backup_mark_as_new_inputs f = mark_as_new_inputs f"

definition backup_tax_inputs :: "(string \<times> input_kind) list" where
  "backup_tax_inputs = tax_inputs"

definition backup_prices_inputs :: "form \<Rightarrow> (string \<times> input_kind) list" where
  "backup_prices_inputs f =
     backup_price_inputs f @ backup_pre_order_inputs f @ backup_mark_as_new_inputs f @ backup_tax_inputs"

definition backup_inventory_method_inputs :: "(string \<times> input_kind) list" where
  "backup_inventory_method_inputs = inventory_method_inputs"

definition backup_stock_quantity_inputs :: "(string \<times> input_kind) list" where
  "backup_stock_quantity_inputs = stock_quantity_inputs"

definition backup_warehouse_inputs :: "(string \<times> input_kind) list" where
  "backup_warehouse_inputs = warehouse_inputs"

definition backup_cart_settings_inputs :: "(string \<times> input_kind) list" where
  "backup_cart_settings_inputs = cart_settings_inputs"

definition backup_inventory_inputs :: "form \<Rightarrow> (string \<times> input_kind) list" where
  "backup_inventory_inputs f =
     backup_inventory_method_inputs
     @ (if f ''manageInventory'' = Some (FStr ''track'') then backup_stock_quantity_inputs @ backup_warehouse_inputs
        else [])
     @ backup_cart_settings_inputs"

definition backup_shipping_inputs :: "form \<Rightarrow> (string \<times> input_kind) list" where
  "backup_shipping_inputs f = shipping_inputs f"

definition backup_related_section_enabled :: "product_page \<Rightarrow> page_event \<Rightarrow> bool" where
  "backup_related_section_enabled pg e = related_section_enabled pg e"

definition backup_cross_sell_section_enabled :: "product_page \<Rightarrow> page_event \<Rightarrow> bool" where
  "backup_cross_sell_section_enabled pg e = cross_sell_section_enabled pg e"

definition backup_related_enabled :: "product_page \<Rightarrow> page_event \<Rightarrow> bool" where
  "backup_related_enabled pg e = (backup_related_section_enabled pg e \<and> backup_cross_sell_section_enabled pg e)"

definition backup_attributes_enabled :: "product_page \<Rightarrow> page_event \<Rightarrow> bool" where
  "backup_attributes_enabled pg e = attributes_enabled pg e"

fun backup_inputs :: "tab \<Rightarrow> form \<Rightarrow> (string \<times> input_kind) list" where
  "backup_inputs Product_info f = backup_product_info_inputs"
| "backup_inputs Prices f = backup_prices_inputs f"
| "backup_inputs Inventory f = backup_inventory_inputs f"
| "backup_inputs Shipping f = backup_shipping_inputs f"
| "backup_inputs Seo f = backup_side_inputs"
| "backup_inputs t f = []"

text \<open>The events the backup page can receive: a change of a rendered input, and the
  related-product and attribute events under the same conditions as the current form.
  It has no media controls.\<close>

fun backup_enabled :: "product_page \<Rightarrow> page_event \<Rightarrow> bool" where
  "backup_enabled pg (Change t n k v c) =
     ((n, k) \<in> set (backup_inputs t (form_data pg)) \<and> (case k of Select opts \<Rightarrow> v \<in> set opts | _ \<Rightarrow> True))"
| "backup_enabled pg (Upload urls) = False"
| "backup_enabled pg (Image_alt i v) = False"
| "backup_enabled pg (Image_order i v) = False"
| "backup_enabled pg (Remove_img i) = False"
| "backup_enabled pg (Video_url k v) = False"
| "backup_enabled pg (Remove_video k) = False"
| "backup_enabled pg Add_video = False"
| "backup_enabled pg Add_spec = False"
| "backup_enabled pg (Spec_name i v) = False"
| "backup_enabled pg (Spec_value i v) = False"
| "backup_enabled pg (Spec_order i v) = False"
| "backup_enabled pg (Remove_spec i) = False"
| "backup_enabled pg e = (backup_related_enabled pg e \<and> backup_attributes_enabled pg e)"

inductive backup_reach :: "nat \<Rightarrow> product_page \<Rightarrow> bool" where
  start: "backup_reach 0 init_backup_page"
| step: "backup_reach t pg \<Longrightarrow> t < now \<Longrightarrow> backup_enabled pg e \<Longrightarrow> backup_reach now (page_step now e pg)"

subsection \<open>Submission\<close>

definition fv_sjson :: "fval option \<Rightarrow> sjson option" where
  "fv_sjson v = (case v of None \<Rightarrow> None | Some (FStr s) \<Rightarrow> Some (SStr s) | Some (FBool b) \<Rightarrow> Some (SBool b))"

text \<open>A number in \<open>JSON.stringify\<close>: \<open>NaN\<close> and the infinities become \<open>null\<close>.\<close>

definition num_sjson :: "js_num \<Rightarrow> sjson" where
  "num_sjson x = (case x of Finite r \<Rightarrow> SNum r | _ \<Rightarrow> SNull)"

text \<open>\<open>parseFloat(s) || null\<close>.\<close>

definition float_or_null :: "string \<Rightarrow> sjson" where
  "float_or_null s = (let x = parse_float s in if num_truthy x then num_sjson x else SNull)"

definition backup_product_data :: "product_page \<Rightarrow> (string \<times> sjson option) list" where
  "backup_product_data pg =
     (let f = form_data pg in
      [(''name'', fv_sjson (f ''name'')),
       (''description'', if fv_truthy (f ''fullDescription'') then fv_sjson (f ''fullDescription'')
                         else fv_sjson (f ''shortDescription'')),
       (''shortDescription'', fv_sjson (f ''shortDescription'')),
       (''price'', Some (num_sjson (float_or (fv_str (f ''price'')) 0))),
       (''sku'', fv_sjson (f ''sku'')),
       (''stockQuantity'', Some (num_sjson (int_or (fv_str (f ''stockQuantity'')) 0))),
       (''categoryId'', if fv_truthy (f ''categories'') then fv_sjson (f ''categories'') else Some SNull),
       (''images'', Some (SArr [])),
       (''isPublished'', fv_sjson (f ''published'')),
       (''isFeatured'', fv_sjson (f ''showOnHomepage'')),
       (''oldPrice'', Some (float_or_null (fv_str (f ''oldPrice'')))),
       (''cost'', Some (float_or_null (fv_str (f ''cost'')))),
       (''weight'', Some (float_or_null (fv_str (f ''weight'')))),
       (''length'', Some (float_or_null (fv_str (f ''length'')))),
       (''width'', Some (float_or_null (fv_str (f ''width'')))),
       (''height'', Some (float_or_null (fv_str (f ''height'')))),
       (''manufacturer'', fv_sjson (f ''manufacturer'')),
       (''tags'', fv_sjson (f ''productTags'')),
       (''metaTitle'', fv_sjson (f ''metaTitle'')),
       (''metaDescription'', fv_sjson (f ''metaDescription'')),
       (''metaKeywords'', fv_sjson (f ''metaKeywords'')),
       (''relatedProductIds'', Some (SArr (map SStr (related_products pg)))),
       (''crossSellProductIds'', Some (SArr (map SStr (cross_sell_products pg)))),
       (''attributes'', Some (SArr (map (\<lambda>a. SObj [(''name'', SStr (attr_name a)),
                                                  (''values'', SArr (map SStr (filter (\<lambda>v. v \<noteq> []) (attr_values a))))])
                                     (attributes pg))))])"

record backup_request =
  bk_url :: string
  bk_headers :: "(string \<times> string) list"
  bk_body :: sjson

definition backup_submit_request :: "product_page \<Rightarrow> backup_request" where
  "backup_submit_request pg =
     \<lparr>bk_url = ''http://localhost:5285/api/products'', bk_headers = [(''Content-Type'', ''application/json'')],
      bk_body = partial_obj (backup_product_data pg)\<rparr>"

text \<open>The reply: \<open>fetch\<close> threw; an ok status with a body that parses or not; or
  another status with the \<open>message\<close> of its JSON body (\<open>None\<close> when the body does
  not parse).\<close>

datatype backup_reply = Backup_fetch_failed | Backup_ok bool | Backup_not_ok "string option option"

definition backup_submit_reply :: "backup_reply \<Rightarrow> string \<times> path option" where
  "backup_submit_reply r =
     (case r of
        Backup_ok True \<Rightarrow> (''Product created successfully!'', Some ''/admin/products'')
      | Backup_not_ok (Some m) \<Rightarrow> (''Error creating product: '' @ js_or_opt m ''Unknown error'', None)
      | _ \<Rightarrow> (submit_failed_alert, None))"

definition handle_submit_backup :: "product_page \<Rightarrow> (backup_request \<Rightarrow> backup_reply)
    \<Rightarrow> string \<times> path option \<times> backup_request" where
  "handle_submit_backup pg server =
     (let req = backup_submit_request pg; (msg, nav) = backup_submit_reply (server req) in (msg, nav, req))"

text \<open>The backup page's header: the back arrow and Cancel leave for the product list,
  Save \& Continue calls \<open>handleSubmit\<close>; its "Draft" is a label, not a button, so
  there is no draft save (\<open>None\<close>).\<close>

definition backup_header_click :: "header_button \<Rightarrow> product_page \<Rightarrow> (backup_request \<Rightarrow> backup_reply)
    \<Rightarrow> (string \<times> path option \<times> backup_request option) option" where
  "backup_header_click b pg server =
     (case b of
        Back_arrow \<Rightarrow> Some ([], Some ''/admin/products'', None)
      | Cancel_button \<Rightarrow> Some ([], Some ''/admin/products'', None)
      | Save_draft_button \<Rightarrow> None
      | Save_continue_button \<Rightarrow>
          (case handle_submit_backup pg server of (msg, nav, req) \<Rightarrow> Some (msg, nav, Some req)))"

subsection \<open>Invariant\<close>

definition backup_inv :: "nat \<Rightarrow> product_page \<Rightarrow> bool" where
  "backup_inv t pg =
     (category_ok (form_data pg) \<and> related_ok (related_products pg) \<and> related_ok (cross_sell_products pg)
      \<and> attr_clock t (attributes pg) \<and> list_all (\<lambda>a. attr_values a \<noteq> []) (attributes pg)
      \<and> product_images pg = [] \<and> video_urls pg = [] \<and> specifications pg = [])"

subsection \<open>Lemmas\<close>

lemmas backup_tab_defs = backup_basic_info_inputs_def backup_publishing_inputs_def
  backup_admin_comment_inputs_def backup_product_info_inputs_def backup_price_inputs_def
  backup_pre_order_inputs_def backup_mark_as_new_inputs_def backup_tax_inputs_def backup_prices_inputs_def
  backup_inventory_method_inputs_def backup_stock_quantity_inputs_def backup_warehouse_inputs_def
  backup_cart_settings_inputs_def backup_inventory_inputs_def backup_shipping_inputs_def
  backup_related_section_enabled_def backup_cross_sell_section_enabled_def backup_related_enabled_def
  backup_attributes_enabled_def

lemma backup_input_category:
  "(n, k) \<in> set (backup_inputs t f) \<Longrightarrow> n = ''categories'' \<Longrightarrow> k = Select category_options"
proof (cases "t \<in> {Seo, Pictures, Videos, Specifications_tab}")
  case True
  then show "(n, k) \<in> set (backup_inputs t f) \<Longrightarrow> n = ''categories'' \<Longrightarrow> k = Select category_options"
    by (auto simp: backup_side_inputs_def)
next
  case False
  then have "backup_inputs t f = tab_inputs t f"
    by (cases t) (auto simp: backup_tab_defs tab_section_defs)
  then show "(n, k) \<in> set (backup_inputs t f) \<Longrightarrow> n = ''categories'' \<Longrightarrow> k = Select category_options"
    using tab_input_open[OF _ open_inputs_category, of n k t f] by auto
qed

lemma backup_media_step:
  "backup_enabled pg e \<Longrightarrow>
   product_images (page_step now e pg) = product_images pg \<and> video_urls (page_step now e pg) = video_urls pg
   \<and> specifications (page_step now e pg) = specifications pg"
  by (cases e) (simp_all add: page_defs Let_def)

lemma backup_category_step:
  assumes "category_ok (form_data pg)" and "backup_enabled pg e"
  shows "category_ok (form_data (page_step now e pg))"
proof (cases e)
  case (Change tb n k v c)
  then have inp: "(n, k) \<in> set (backup_inputs tb (form_data pg))"
    and sel: "case k of Select opts \<Rightarrow> v \<in> set opts | _ \<Rightarrow> True"
    using assms(2) by simp_all
  show ?thesis
  proof (cases "n = ''categories''")
    case True
    then show ?thesis using Change sel backup_input_category[OF inp]
      by (simp add: handle_change_product_def category_ok_def)
  next
    case False
    then show ?thesis using Change assms(1) by (simp add: handle_change_product_def category_ok_def)
  qed
qed (use assms(1) in \<open>simp_all add: page_defs Let_def\<close>)

lemma backup_inv_init: "backup_inv 0 init_backup_page"
proof -
  have "category_ok (map_of backup_form_fields)" by code_simp
  then show ?thesis
    by (simp add: backup_inv_def init_backup_page_def init_product_page_def related_ok_def attr_clock_def)
qed

lemma backup_inv_step:
  assumes inv: "backup_inv t pg" and lt: "t < now" and en: "backup_enabled pg e"
  shows "backup_inv now (page_step now e pg)"
proof -
  have ren: "related_enabled pg e" and aen: "attributes_enabled pg e"
    using en by (cases e; simp add: backup_tab_defs)+
  have rel: "related_ok (related_products (page_step now e pg))"
    using related_page_step[of now e pg] inv ren filtered_products_ids
    by (cases e) (auto simp: backup_inv_def related_ok_def)
  have cross: "related_ok (cross_sell_products (page_step now e pg))"
    using cross_page_step[of now e pg] inv ren filtered_products_ids
    by (cases e) (auto simp: backup_inv_def related_ok_def)
  have clock: "attr_clock now (attributes (page_step now e pg))"
    using inv lt by (intro attr_clock_step) (simp_all add: backup_inv_def)
  have vals: "list_all (\<lambda>a. attr_values a \<noteq> []) (attributes (page_step now e pg))"
    using inv aen attr_clock_distinct[of t "attributes pg"]
    by (intro attr_values_page_step) (simp_all add: backup_inv_def)
  have cat: "category_ok (form_data (page_step now e pg))"
    using inv en backup_category_step by (simp add: backup_inv_def)
  show ?thesis using rel cross clock vals cat backup_media_step[OF en, of now] inv by (simp add: backup_inv_def)
qed

lemma backup_reach_inv: "backup_reach t pg \<Longrightarrow> backup_inv t pg"
  by (induction rule: backup_reach.induct) (simp_all add: backup_inv_init backup_inv_step)

text \<open>The backup form's category select sends its option's slug as \<open>categoryId\<close>, or
  \<open>null\<close> for "Select category": never an id of a stored category.\<close>

lemma backup_category_sent:
  assumes "backup_reach t pg"
  shows "\<exists>c\<in>set category_options.
           map_of (backup_product_data pg) ''categoryId'' = Some (if c = [] then Some SNull else Some (SStr c))"
proof -
  obtain c where c: "form_data pg ''categories'' = Some (FStr c)" "c \<in> set category_options"
    using backup_reach_inv[OF assms] by (auto simp: backup_inv_def category_ok_def split: option.splits fval.splits)
  then show ?thesis
    by (intro bexI[of _ c]) (simp_all add: backup_product_data_def Let_def fv_sjson_def)
qed

text \<open>The backup form posts whatever the fields hold: on the untouched page, whose name
  and SKU are empty, its Save \& Continue button sends the request with no token, where
  both save buttons of the current form refuse with the required-fields alert.\<close>

lemma backup_submits_empty_form:
  "map_of (backup_product_data init_backup_page) ''name'' = Some (Some (SStr []))
   \<and> map_of (backup_product_data init_backup_page) ''sku'' = Some (Some (SStr []))
   \<and> map_option (snd \<circ> snd) (backup_header_click Save_continue_button init_backup_page server)
       = Some (Some (backup_submit_request init_backup_page))
   \<and> list_all (\<lambda>(h, v). h \<noteq> ''Authorization'') (bk_headers (backup_submit_request init_backup_page))
   \<and> header_click Save_continue_button init_product_page api_url ls srv = (required_alert, None, None)
   \<and> header_click Save_draft_button init_product_page api_url ls srv = (required_alert, None, None)"
proof -
  have "map_of backup_form_fields ''name'' = Some (FStr []) \<and> map_of backup_form_fields ''sku'' = Some (FStr [])"
    by code_simp
  moreover have "init_form ''name'' = Some (FStr [])" by code_simp
  ultimately show ?thesis
    by (simp add: backup_product_data_def init_backup_page_def init_product_page_def fv_sjson_def
        handle_submit_backup_def backup_submit_request_def submit_request_def Let_def
        backup_header_click_def header_click_def handle_submit_product_def split: prod.split)
qed

end
