(* ===== verification/AdminShell.thy ===== *)
theory AdminShell
  imports Session
begin

text \<open>
  What the login page and the admin layout render, around the handlers of \<open>Session\<close>:
  the login form \<open>src/app/login/page.tsx\<close> (password visibility toggle, error box,
  submit button) and the admin frame \<open>src/app/admin/layout.tsx\<close> (the sidebar that
  opens and closes on small screens, its navigation entries with their highlighting,
  and the user panels).
\<close>

subsection \<open>Login page\<close>

text \<open>The eye button: \<open>setShowPassword(!showPassword)\<close>.\<close>

definition toggle_show_password :: "login_page \<Rightarrow> login_page" where
  "toggle_show_password pg = pg\<lparr>show_password := \<not> show_password pg\<rparr>"

record login_view =
  lv_email :: string
  lv_password :: string
  lv_password_type :: string
  lv_error :: "string option"
  lv_button :: string
  lv_disabled :: bool

text \<open>The form: the password input's type follows \<open>showPassword\<close>, the error box is
  rendered when \<open>error\<close> is non-empty, the submit button is disabled and reads
  "Signing in..." while \<open>loading\<close>.\<close>

definition login_view :: "login_page \<Rightarrow> login_view" where
  "login_view pg =
     \<lparr>lv_email = email (form_data pg), lv_password = password (form_data pg),
      lv_password_type = (if show_password pg then ''text'' else ''password''),
      lv_error = (if error pg \<noteq> [] then Some (error pg) else None),
      lv_button = (if loading pg then ''Signing in...'' else ''Sign In''),
      lv_disabled = loading pg\<rparr>"

text \<open>The rest of the login page: the branding column with its three figures, the
  card's title and the link back to the store. None of it has a handler but the link.\<close>

record login_chrome =
  lc_brand :: string
  lc_figures :: "(string \<times> string) list"
  lc_card_title :: string
  lc_back_link :: "string \<times> string"

definition login_chrome :: login_chrome where
  "login_chrome =
     \<lparr>lc_brand = ''EcomPanel'',
      lc_figures = [(''99.9%'', ''Uptime''), (''10k+'', ''Merchants''), (''$2M+'', ''Daily Sales'')],
      lc_card_title = ''Sign In'', lc_back_link = (''/'', ''Back to Store'')\<rparr>"

subsection \<open>Admin frame\<close>

definition nav_names :: "string list" where
  "nav_names = [''Dashboard'', ''Products'', ''Categories'', ''Brands'', ''Manufacturers'', ''Orders'', ''Customers'']"

record admin_shell =
  sidebar_open :: bool
  shell_user :: admin_header

definition init_admin_shell :: "admin_header \<Rightarrow> admin_shell" where
  "init_admin_shell u = \<lparr>sidebar_open = False, shell_user = u\<rparr>"

text \<open>The menu button toggles the sidebar; the overlay and every navigation link close it.\<close>

datatype shell_event = Menu_button | Overlay_click | Nav_link path

fun shell_step :: "shell_event \<Rightarrow> admin_shell \<Rightarrow> admin_shell" where
  "shell_step Menu_button s = s\<lparr>sidebar_open := \<not> sidebar_open s\<rparr>"
| "shell_step Overlay_click s = s\<lparr>sidebar_open := False\<rparr>"
| "shell_step (Nav_link h) s = s\<lparr>sidebar_open := False\<rparr>"

record shell_view =
  sv_overlay :: bool
  sv_items :: "(string \<times> path \<times> bool) list"
  sv_initial :: string
  sv_name :: string
  sv_email :: string
  sv_menu_icon :: string

definition shell_view :: "path \<Rightarrow> admin_shell \<Rightarrow> shell_view" where
  "shell_view cur s =
     \<lparr>sv_overlay = sidebar_open s,
      sv_items = map (\<lambda>(n, h). (n, h, nav_active cur h)) (zip nav_names nav_hrefs),
      sv_initial = hdr_initial (shell_user s), sv_name = hdr_name (shell_user s),
      sv_email = hdr_email (shell_user s),
      sv_menu_icon = (if sidebar_open s then ''X'' else ''Menu'')\<rparr>"

subsection \<open>Lemmas\<close>

text \<open>A successful login leaves the page in its loading state: the button stays
  disabled on "Signing in..." while the browser navigates to \<open>/admin\<close>; every failed
  attempt re-enables it and shows an error box.\<close>

lemma login_view_after_submit:
  "login_ok reply \<Longrightarrow> lv_disabled (login_view (fst (handle_submit pg b reply)))
     \<and> lv_button (login_view (fst (handle_submit pg b reply))) = ''Signing in...''
     \<and> lv_error (login_view (fst (handle_submit pg b reply))) = None"
  "\<not> login_ok reply \<Longrightarrow> \<not> lv_disabled (login_view (fst (handle_submit pg b reply)))
     \<and> lv_error (login_view (fst (handle_submit pg b reply))) \<noteq> None"
  by (auto simp: login_view_def handle_submit_def login_ok_def Let_def connect_error_def
      split: http_reply.splits option.splits if_splits bool.splits)

text \<open>Two entries are highlighted on every admin page below the dashboard: Dashboard
  and the page's own entry.\<close>

lemma two_entries_highlighted:
  "list_all (\<lambda>(n, h). map (\<lambda>(n', h', a). n') (filter (\<lambda>(n', h', a). a) (sv_items (shell_view h s)))
                       = [''Dashboard'', n])
     (tl (zip nav_names nav_hrefs))"
  by (simp add: shell_view_def nav_names_def nav_hrefs_def nav_active_def)

lemma menu_button_twice: "shell_step Menu_button (shell_step Menu_button s) = s"
  by simp

end
