(* ===== verification/NextConfig.thy ===== *)
theory NextConfig
  imports Storefront Catalog
begin

text \<open>
  The build configuration \<open>src/next.config.ts\<close> and the one place where it decides what
  the storefront shows: \<open>images.remotePatterns\<close>, the hosts from which \<open>next/image\<close>
  loads a remote picture. Three components render through \<open>next/image\<close>: the header
  and the footer, with local pictures, and the mega menu, whose brand logos are
  \<open>${process.env.NEXT_PUBLIC_API_URL}${brand.logoUrl}\<close>. The check \<open>next/image\<close> makes
  (\<open>matchRemotePattern\<close> of Next.js, after the URL parser of the browser) is library
  code; it is written out here as far as these sources use it.
\<close>

subsection \<open>The configuration\<close>

record remote_pattern =
  rp_protocol :: "string option"
  rp_hostname :: string
  rp_port :: "string option"
  rp_pathname :: "string option"

record build_config =
  eslint_ignore_during_builds :: bool
  typescript_ignore_build_errors :: bool
  remote_patterns :: "remote_pattern list"

definition next_config :: build_config where
  "next_config =
     \<lparr>eslint_ignore_during_builds = False, typescript_ignore_build_errors = False,
      remote_patterns =
        [\<lparr>rp_protocol = Some ''https'', rp_hostname = ''localhost'', rp_port = Some ''7196'',
          rp_pathname = Some ''/**''\<rparr>,
         \<lparr>rp_protocol = Some ''https'', rp_hostname = ''testapi.knowledgemarkg.com'', rp_port = None,
          rp_pathname = Some ''/**''\<rparr>]\<rparr>"

subsection \<open>URLs\<close>

text \<open>The parts of a WHATWG \<open>URL\<close> the pattern test reads: the scheme (without its
  colon), the host, the port (empty when it is the scheme's default) and the path, with
  scheme and host lower-cased. Only absolute URLs \<open>scheme://host[:port][/path]\<close> are
  parsed; anything else is \<open>None\<close>, the \<open>TypeError: Invalid URL\<close> of \<open>new URL(src)\<close>.
  User info and IPv6 hosts do not occur in these sources and are not modelled.\<close>

record url =
  url_protocol :: string
  url_hostname :: string
  url_port :: string
  url_pathname :: string

definition scheme_chars :: string where
  "scheme_chars = ''abcdefghijklmnopqrstuvwxyzABCDEFGHIJKLMNOPQRSTUVWXYZ0123456789+-.''"

definition default_port :: "string \<Rightarrow> string" where
  "default_port p = (if p = ''https'' then ''443'' else if p = ''http'' then ''80'' else [])"

definition parse_url :: "string \<Rightarrow> url option" where
  "parse_url s =
     (let scheme = takeWhile (\<lambda>c. c \<noteq> CHR '':'') s;
          after = drop (Suc (length scheme)) s in
      if length scheme = length s \<or> scheme = [] \<or> \<not> list_all (\<lambda>c. c \<in> set scheme_chars) scheme
         \<or> \<not> starts_with after ''//'' then None
      else
        (let rest = drop 2 after;
             auth = takeWhile (\<lambda>c. c \<notin> set ''/?#'') rest;
             path = takeWhile (\<lambda>c. c \<notin> set ''?#'') (drop (length auth) rest);
             host = takeWhile (\<lambda>c. c \<noteq> CHR '':'') auth;
             port = drop (Suc (length host)) auth;
             proto = to_lower scheme in
         if host = [] \<or> \<not> list_all (\<lambda>c. c \<in> set ''0123456789'') port then None
         else Some \<lparr>url_protocol = proto, url_hostname = to_lower host,
                    url_port = (if port = default_port proto then [] else port),
                    url_pathname = (if path = [] then ''/'' else path)\<rparr>))"

subsection \<open>Glob patterns\<close>

text \<open>The glob test of \<open>makeRe\<close> (picomatch) on the patterns Next.js builds from a
  remote pattern: \<open>**\<close> matches any characters, \<open>*\<close> any characters but \<open>/\<close>, every
  other character itself. Character classes and braces do not occur in the
  configuration.\<close>

function glob_match :: "string \<Rightarrow> string \<Rightarrow> bool" where
  "glob_match [] s = (s = [])"
| "glob_match (c # p) [] =
     (if c = CHR ''*'' \<and> p \<noteq> [] \<and> hd p = CHR ''*'' then glob_match (tl p) []
      else c = CHR ''*'' \<and> glob_match p [])"
| "glob_match (c # p) (d # s) =
     (if c = CHR ''*'' \<and> p \<noteq> [] \<and> hd p = CHR ''*'' then glob_match (tl p) (d # s) \<or> glob_match (c # p) s
      else if c = CHR ''*'' then glob_match p (d # s) \<or> (d \<noteq> CHR ''/'' \<and> glob_match (c # p) s)
      else d = c \<and> glob_match p s)"
  by pat_completeness auto
termination
  by (relation "measures [\<lambda>(p, s). length p, \<lambda>(p, s). length s]") auto

text \<open>\<open>matchRemotePattern(pattern, url)\<close>: protocol and port only when the pattern
  gives them, the host always, the path against \<open>pathname ?? '**'\<close>.\<close>

definition match_remote_pattern :: "remote_pattern \<Rightarrow> url \<Rightarrow> bool" where
  "match_remote_pattern pat u =
     ((case rp_protocol pat of None \<Rightarrow> True | Some pr \<Rightarrow> pr = url_protocol u)
      \<and> (case rp_port pat of None \<Rightarrow> True | Some po \<Rightarrow> po = url_port u)
      \<and> glob_match (rp_hostname pat) (url_hostname u)
      \<and> glob_match (case rp_pathname pat of None \<Rightarrow> ''**'' | Some pn \<Rightarrow> pn) (url_pathname u))"

text \<open>Whether \<open>next/image\<close> loads \<open>src\<close>: a protocol-relative source is refused, a
  path from the root is a local picture, anything else must parse as a URL that one
  remote pattern matches. A refused source throws in development and is answered with
  400 by the image optimiser in production; in both cases no picture is shown.\<close>

definition image_src_ok :: "build_config \<Rightarrow> string \<Rightarrow> bool" where
  "image_src_ok cfg src =
     (if starts_with src ''//'' then False
      else if starts_with src ''/'' then True
      else (case parse_url src of
              None \<Rightarrow> False
            | Some u \<Rightarrow> list_ex (\<lambda>pat. match_remote_pattern pat u) (remote_patterns cfg)))"

subsection \<open>The sources that go through next/image\<close>

text \<open>The mega menu's logo prefix, the template \<open>${process.env.NEXT_PUBLIC_API_URL}\<close>,
  which prints an unset variable as \<open>undefined\<close>.\<close>

definition mega_logo_base :: "string option \<Rightarrow> string" where
  "mega_logo_base env = (case env of None \<Rightarrow> ''undefined'' | Some s \<Rightarrow> s)"

definition drawer_social_images :: "string list" where
  "drawer_social_images = [''/social/facebook.svg'', ''/social/instagram.svg'', ''/social/twitter.svg'']"

definition footer_images :: "string list" where
  "footer_images =
     [''/social/facebook.svg'', ''/social/instagram.svg'', ''/social/linkedin.svg'', ''/social/twitter.svg'',
      ''/social/youtube.svg'', ''/social/tiktok.svg'', ''/payments/visa.png'']"

subsection \<open>Lemmas\<close>

lemma glob_match_any: "glob_match ''**'' s"
  by (induction s) simp_all

lemma glob_match_root: "glob_match ''/**'' (CHR ''/'' # s)"
  by (simp add: glob_match_any)

lemma glob_match_literal: "CHR ''*'' \<notin> set p \<Longrightarrow> glob_match p p"
  by (induction p) auto

lemma parse_url_protocol:
  "parse_url s = Some u \<Longrightarrow> url_protocol u = to_lower (takeWhile (\<lambda>c. c \<noteq> CHR '':'') s)"
  unfolding parse_url_def Let_def
  by (simp only: split: if_split_asm) auto

lemma image_src_ok_https:
  "image_src_ok next_config src \<Longrightarrow> starts_with src ''/'' \<or> (\<exists>u. parse_url src = Some u \<and> url_protocol u = ''https'')"
  by (auto simp: image_src_ok_def next_config_def match_remote_pattern_def split: if_splits option.splits)

lemma lower_https: "to_lower ''https'' = ''https''"
  by (simp add: to_lower_def js_lower_char_def)

lemma parse_url_https:
  assumes h: "h \<noteq> []" "set h \<inter> set '':/?#'' = {}" and p: "starts_with p ''/''"
  shows "parse_url (''https://'' @ h @ p) =
           Some \<lparr>url_protocol = ''https'', url_hostname = to_lower h, url_port = [],
                 url_pathname = takeWhile (\<lambda>c. c \<notin> set ''?#'') p\<rparr>"
proof -
  obtain p' where p': "p = CHR ''/'' # p'" using p by (cases p) auto
  have s: "takeWhile (\<lambda>c. c \<noteq> CHR '':'') (''https://'' @ h @ p) = ''https''" by simp
  have d: "drop (Suc (length ''https'')) (''https://'' @ h @ p) = ''//'' @ h @ p" by simp
  have a: "takeWhile (\<lambda>c. c \<notin> set ''/?#'') (drop 2 (''//'' @ h @ p)) = h"
    using h by (simp add: p' takeWhile_append2 disjoint_iff)
  have r: "drop (length h) (drop 2 (''//'' @ h @ p)) = p" by simp
  have t: "takeWhile (\<lambda>c. c \<noteq> CHR '':'') h = h"
    using h by (auto simp: takeWhile_eq_all_conv disjoint_iff)
  have pt: "takeWhile (\<lambda>c. c \<notin> set ''?#'') p \<noteq> []" by (simp add: p')
  have l: "length (''https://'' @ h @ p) \<noteq> length ''https''" by simp
  show ?thesis
    unfolding parse_url_def Let_def s d a r t
    using l pt h(1) by (simp add: scheme_chars_def default_port_def lower_https)
qed

text \<open>A source whose scheme is not \<open>https\<close> is refused: both patterns name it.\<close>

lemma src_refused_unless_https:
  assumes "\<not> starts_with src ''/''" "to_lower (takeWhile (\<lambda>c. c \<noteq> CHR '':'') src) \<noteq> ''https''"
  shows "\<not> image_src_ok next_config src"
  using assms image_src_ok_https parse_url_protocol by fastforce

lemma undefined_src_refused: "\<not> image_src_ok next_config (''undefined'' @ r)"
  by (rule src_refused_unless_https) (simp_all add: to_lower_def js_lower_char_def)

lemma http_src_refused: "\<not> image_src_ok next_config (''http://'' @ r)"
  by (rule src_refused_unless_https) (simp_all add: to_lower_def js_lower_char_def)

lemma prod_src_accepted:
  assumes "starts_with l ''/''"
  shows "image_src_ok next_config (''https://testapi.knowledgemarkg.com'' @ l)"
proof -
  obtain l' where l': "l = CHR ''/'' # l'" using assms by (cases l) auto
  have lower: "to_lower ''testapi.knowledgemarkg.com'' = ''testapi.knowledgemarkg.com''"
    by code_simp
  have u: "parse_url (''https://'' @ ''testapi.knowledgemarkg.com'' @ l) =
           Some \<lparr>url_protocol = ''https'', url_hostname = ''testapi.knowledgemarkg.com'', url_port = [],
                 url_pathname = CHR ''/'' # takeWhile (\<lambda>c. c \<notin> set ''?#'') l'\<rparr>"
    using parse_url_https [of "''testapi.knowledgemarkg.com''" l] assms by (simp add: lower l')
  have g: "glob_match ''testapi.knowledgemarkg.com'' ''testapi.knowledgemarkg.com''"
    by (rule glob_match_literal) simp
  show ?thesis
    using u g glob_match_root
    by (simp add: image_src_ok_def next_config_def match_remote_pattern_def)
qed

text \<open>The footer's and the drawer's pictures are local paths and load under any
  configuration.\<close>

lemma footer_images_local: "list_all (image_src_ok cfg) (footer_images @ drawer_social_images)"
  by (simp add: footer_images_def drawer_social_images_def image_src_ok_def)

lemma mega_logo_srcs:
  "x \<in> set (brand_logos (mega_menu_view base main m)) \<Longrightarrow> \<exists>r. snd x = base @ r"
  by (auto simp: mega_menu_view_def Let_def)

text \<open>C14. The mega menu's brand logos show only when \<open>NEXT_PUBLIC_API_URL\<close> names a
  host of \<open>images.remotePatterns\<close>: with the variable unset, or set to the API default
  \<open>http://localhost:5285\<close> of \<open>api-config.ts\<close>, next/image refuses every logo; set to the
  production API, every logo with a path from the root is shown.\<close>

theorem mega_logos_need_configured_host:
  "(\<forall>x \<in> set (brand_logos (mega_menu_view (mega_logo_base None) main m)). \<not> image_src_ok next_config (snd x))
   \<and> (\<forall>x \<in> set (brand_logos (mega_menu_view (mega_logo_base (Some (api_base_url None))) main m)).
        \<not> image_src_ok next_config (snd x))
   \<and> (\<forall>n slug l. (n, slug, Some l) \<in> set (mm_brands m) \<and> starts_with l ''/'' \<longrightarrow>
        (''/brand/'' @ slug, ''https://testapi.knowledgemarkg.com'' @ l)
          \<in> set (brand_logos (mega_menu_view (mega_logo_base (Some ''https://testapi.knowledgemarkg.com'')) main m))
        \<and> image_src_ok next_config (''https://testapi.knowledgemarkg.com'' @ l))"
proof (intro conjI ballI allI impI)
  fix x assume "x \<in> set (brand_logos (mega_menu_view (mega_logo_base None) main m))"
  then obtain r where "snd x = ''undefined'' @ r" using mega_logo_srcs by (fastforce simp: mega_logo_base_def)
  then show "\<not> image_src_ok next_config (snd x)" using undefined_src_refused [of r] by simp
next
  fix x assume "x \<in> set (brand_logos (mega_menu_view (mega_logo_base (Some (api_base_url None))) main m))"
  then obtain r where "snd x = ''http://'' @ ''localhost:5285'' @ r"
    using mega_logo_srcs by (fastforce simp: mega_logo_base_def api_base_url_def)
  then show "\<not> image_src_ok next_config (snd x)" using http_src_refused by simp
next
  fix n slug l assume a: "(n, slug, Some l) \<in> set (mm_brands m) \<and> starts_with l ''/''"
  then show "(''/brand/'' @ slug, ''https://testapi.knowledgemarkg.com'' @ l)
          \<in> set (brand_logos (mega_menu_view (mega_logo_base (Some ''https://testapi.knowledgemarkg.com'')) main m))"
    unfolding mega_menu_view_def mega_logo_base_def Let_def by force
next
  fix n slug l assume "(n, slug, Some l) \<in> set (mm_brands m) \<and> starts_with l ''/''"
  then show "image_src_ok next_config (''https://testapi.knowledgemarkg.com'' @ l)"
    using prod_src_accepted by blast
qed

theorem mega_logos_need_configured_host_witness:
  "let m = \<lparr>mm_brands = [(''Acme'', ''acme'', Some ''/uploads/acme.png'')], active_sub = None\<rparr>;
       main = NavCat ''1'' ''Health'' (Some ''health'') None None in
   (''/brand/acme'', ''https://testapi.knowledgemarkg.com/uploads/acme.png'')
     \<in> set (brand_logos (mega_menu_view (mega_logo_base (Some ''https://testapi.knowledgemarkg.com'')) main m))
   \<and> image_src_ok next_config ''https://testapi.knowledgemarkg.com/uploads/acme.png''
   \<and> list_all (\<lambda>x. \<not> image_src_ok next_config (snd x))
       (brand_logos (mega_menu_view (mega_logo_base None) main m))"
  using mega_logos_need_configured_host
          [of "NavCat ''1'' ''Health'' (Some ''health'') None None"
              "\<lparr>mm_brands = [(''Acme'', ''acme'', Some ''/uploads/acme.png'')], active_sub = None\<rparr>"]
  by (simp add: Let_def list_all_iff)

end
