(* ===== verification/Spec2Isabelle.thy ===== *)
theory Spec2Isabelle
  imports Session Slider JsNumber ProductView Categories Storefront AdminLists StorePages Services BackupForm AdminShell NextConfig
begin

text \<open>
  \<^bold>\<open>A verification model of the Ecom-Frontend storefront and admin panel.\<close>

  The program is a Next.js application (TypeScript, under \<open>src/\<close>): a storefront (home
  page, header, mega menu, products, cart, footer) and an admin panel behind a login.
  Its state lives in the browser: cookies and local storage hold the session, and each
  page keeps React state that its handlers update and its JSX renders. Every page talks to
  a REST API whose base URL comes from \<open>src/lib/api-config.ts\<close>. This development
  translates the parts that carry logic into executable HOL. Pages become a record of
  their state, one function per handler and a function per rendered view. Browser
  effects are explicit values: requests, alerts and navigations. The API's replies,
  \<open>Date.now()\<close> and the locale formatting of dates are parameters.

  \<^bold>\<open>Theories and what they model.\<close>
  \<^item> \<open>Prelude\<close>: the JavaScript primitives the code calls on strings and arrays.
    These are \<open>startsWith\<close>, \<open>includes\<close>, \<open>toLowerCase\<close>, \<open>trim\<close>, truthiness and
    \<open>||\<close>, \<open>arr[i]\<close>, \<open>filter((_, i) => i !== k)\<close>, \<open>join\<close> and \<open>replace\<close> with a string
    pattern. Each comes with its link to the HOL library (\<open>prefix\<close>, \<open>sublist\<close>) and
    with shared lemmas on lists and on modular arithmetic.
  \<^item> \<open>RouteGuard\<close>: \<open>src/middleware.ts\<close>. It holds \<open>middleware\<close>, the \<open>config.matcher\<close>
    (\<open>matcher\<close>) and their composition \<open>handle_request\<close>. It also holds the storefront
    layout's admin test \<open>is_admin_route\<close> (\<open>src/app/ClientLayout.tsx\<close>). The
    specification's three-valued decision \<open>decide\<close> is the abstract contract, and
    \<open>guard_refines_decide\<close> is the refinement (C1). C2 to C6 are the guard's
    cases and its prefix over-reach on every path such as \<open>/administrator\<close>.
  \<^item> \<open>Session\<close>: the browser (cookie jar with expiry, local storage, clock, location).
    It also holds the login page \<open>src/app/login/page.tsx\<close> (\<open>handle_change\<close>,
    \<open>handle_submit\<close>, \<open>store_session\<close>) and the admin layout
    \<open>src/app/admin/layout.tsx\<close> (user display, navigation highlighting, logout).
    \<open>session_step\<close>/\<open>reach\<close> are the session as an inductive step relation. The
    invariant \<open>session_inv\<close> says that the cookie mirrors the stored token (C7). C8 to
    C13 cover login, logout, expiry, failure and the admin header.
  \<^item> \<open>Slider\<close>: \<open>src/components/HomeBannerSlider.tsx\<close>. Its state is the index into the
    cloned strip, the animation flag and the pending \<open>setTimeout\<close> callbacks with
    their due times, ordered as the browser fires them. \<open>calm_reach\<close> are the runs in
    which the user acts only while no timer is pending. There the banner shown is
    \<open>abs_pos\<close> and every input rotates it (C15 to C17, a simulation). C18 and C19 are
    about runs that are not calm: during the 700 ms jump-back a move past the clone
    leaves the strip, and no input cancels a pending timer, so a dot click can be
    overridden (\<open>dot_click_overridden\<close>).
  \<^item> \<open>JsNumber\<close>: \<open>parseInt\<close> (with its \<open>0x\<close> prefix), \<open>parseFloat\<close>, number
    truthiness, JSON numbers (\<open>NaN\<close> and the infinities become \<open>null\<close>) and
    \<open>String(n)\<close>. These are built-ins, modelled from their specification. Numbers are
    exact rationals and the rounding to doubles is not modelled, so the properties that
    read a number back (C22) are stated below 2^53, where doubles hold every integer.
    Both parsers read \<open>String(n)\<close> back (\<open>parse_int_decimal\<close>, \<open>parse_float_decimal\<close>).
  \<^item> \<open>ProductForm\<close>: \<open>src/app/admin/products/add/page.tsx\<close>, its state and its
    handlers. The state is the scalar fields of \<open>formData\<close> as a name-to-value map
    (so \<open>handleChange\<close>'s \<open>[name]: value\<close> is a map update), its arrays as lists, the
    search boxes and the attributes. Every handler is modelled, the inline ones of
    the pictures, videos and specifications tabs included. \<open>product_data\<close> is the
    submitted object. \<open>submit_request\<close>, \<open>submit_reply\<close> and
    \<open>handle_submit_product\<close> are \<open>handleSubmit\<close> around the \<open>fetch\<close>;
    \<open>header_click\<close> is the page header's four controls. C20, C22 and C25 cover
    the submission and C28 the image display orders, for every image list numbered by
    uploads.
  \<^item> \<open>ProductView\<close>: the controls each tab of that page renders, one definition per
    card of the tab as the code lays them out (\<open>basic_info_inputs\<close> to
    \<open>cart_settings_inputs\<close>, composed by \<open>tab_inputs\<close>; the \<open>*_enabled\<close> functions
    for the related, cross-sell, attributes, pictures, videos and specifications cards). It also holds the user events (\<open>page_step\<close>) and the
    reachable states \<open>page_reach\<close>, one event per millisecond. The invariant
    \<open>page_inv\<close> is proved by rule induction. It covers the shape of \<open>formData\<close>, the
    category select, duplicate-free related products, distinct attribute ids and
    non-empty values. C21, C26 and C27 follow from it. C24 lists the controls of the
    prices, inventory and shipping tabs that \<open>productData\<close> never reads.
  \<^item> \<open>Catalog\<close>: \<open>src/lib/api-config.ts\<close> and the brand page
    \<open>src/app/admin/brands/page.tsx\<close>. The manufacturer page
    \<open>src/app/admin/manufacturers/page.tsx\<close> is the same code with another endpoint
    and noun, so it is the same model instantiated with \<open>manufacturers_cfg\<close>. The
    model covers fetch, save, edit, delete, reset, the modal inputs, the logo upload,
    the table, the modal, the details dialog and the dialogs' inline handlers
    (\<open>brand_close_modal\<close> and the like), an event step and its reachable states
    (C29 to C33).
  \<^item> \<open>Categories\<close>: \<open>src/app/admin/categories/page.tsx\<close>. It adds parent categories
    and an asynchronous image upload whose completion writes the \<open>formData\<close> it
    captured. Pending uploads are kept as those captured forms, so edits interleave
    with completions (C34 to C36).
  \<^item> \<open>Home\<close>: the storefront home page \<open>src/app/page.tsx\<close>, its four server-side
    loaders and the cards it renders. \<open>Array.prototype.sort\<close> is a built-in, modelled
    from its specification as a stable merge sort \<open>js_sort\<close> over a comparator.
    \<open>js_sort_sort_key\<close> proves that under the code's comparators it is HOL's
    \<open>sort_key\<close> (an equivalence, C37, via \<open>properties_for_sort_key\<close> of
    \<open>HOL-Library.Multiset\<close>). \<open>js_sort\<close> is a \<^theory_text>\<open>function\<close> with a
    measure, and permutes its input (\<open>mset_js_sort\<close>). A render that dereferences a
    missing URL is \<open>Inl\<close>.
  \<^item> \<open>Storefront\<close>: the server-side category loading (\<open>src/app/layout.tsx\<close>,
    \<open>src/components/HeaderServer.tsx\<close>), the header \<open>src/components/Header.tsx\<close>,
    the mega menu \<open>src/components/MegaMenu.tsx\<close> and the footer
    \<open>src/components/Footer.tsx\<close>. The header's state is a record; its handlers are
    functions; scrolls, interval ticks and pointer and click events are a datatype
    with the step function \<open>header_step\<close>; \<open>header_reach\<close> are the reachable
    states from the server's categories. The invariant \<open>header_inv\<close> (message index in
    range, pointer flag consistent with the active category, only top-level categories
    in the bar) is proved by rule induction. C38 is the liveness of the rotating
    delivery message; \<open>desktop_mobile_titles\<close> compares it with the desktop strip
    (\<open>desktop_top_bar_view\<close>).
  \<^item> \<open>AdminLists\<close>: the admin list pages. The orders page
    \<open>src/app/admin/orders/page.tsx\<close> is a static table with search and status filter
    state (\<open>orders_step\<close>, \<open>orders_reach\<close>) and counters. The product list
    \<open>src/app/admin/products/page.tsx\<close> is its fetch (\<open>products_request\<close>,
    \<open>fetch_products\<close>, \<open>format_product\<close>), its dialogs (\<open>products_step\<close>) and its
    reachable states \<open>products_reach\<close>. C23 types the stock status of every listed
    product against its stock. The customers page and the dashboard
    (\<open>dashboard_page\<close>) are static data with the values their views compute (badges,
    stat cards, pie labels, the recent-order and top-product rows).
  \<^item> \<open>StorePages\<close>: the storefront frame \<open>src/app/ClientLayout.tsx\<close>
    (\<open>client_layout\<close>, header and footer on every non-admin path, the header starting
    its \<open>header_reach\<close> runs from the server's categories), the static catalogue
    \<open>src/app/products/page.tsx\<close> (\<open>products_page_view\<close>: controls without
    handlers, checkboxes in their initial state) and the cart \<open>src/app/cart/page.tsx\<close>, which renders
    a second header (\<open>cart_two_headers\<close>).
  \<^item> \<open>Services\<close>: the wrappers under \<open>src/lib/services\<close>, each method as the
    \<open>apiClient\<close> call it makes (verb, path, JSON body). The \<open>apiClient\<close> module
    \<open>../api\<close> is not in the repository, so the replies are not modelled.
  \<^item> \<open>BackupForm\<close>: the earlier product form
    \<open>src/app/admin/products/add/page_old_backup.tsx\<close>, not a route. Its handlers are
    the same code as the current form's and reuse \<open>ProductForm\<close> and \<open>page_step\<close>;
    its own parts are the initial \<open>formData\<close>, the rendered controls (one alias per
    card whose markup matches the current form's up to class names, composed by
    \<open>backup_inputs\<close> and \<open>backup_enabled\<close>), its header (\<open>backup_header_click\<close>), the reachable states \<open>backup_reach\<close> with
    the invariant \<open>backup_inv\<close>, and \<open>handle_submit_backup\<close>.
  \<^item> \<open>AdminShell\<close>: what the login page and the admin layout render around the
    handlers of \<open>Session\<close>: the login form's view (\<open>login_view\<close>) and the admin
    frame's sidebar state, events and view (\<open>shell_step\<close>, \<open>shell_view\<close>).
  \<^item> \<open>NextConfig\<close>: the build configuration \<open>src/next.config.ts\<close>
    (\<open>next_config\<close>) and the check of \<open>next/image\<close> that its
    \<open>images.remotePatterns\<close> feed: the browser's URL parser (\<open>parse_url\<close>, absolute
    URLs only), picomatch globs (\<open>glob_match\<close>, a \<^theory_text>\<open>function\<close> with a
    lexicographic measure) and Next.js's \<open>matchRemotePattern\<close>. These are library
    code, modelled from their documentation and not mapped to lines of the repository.
    C14 applies the check to the mega menu's brand logos: with \<open>NEXT_PUBLIC_API_URL\<close>
    unset, or set to the \<open>http://localhost:5285\<close> default of \<open>api-config.ts\<close>, no
    logo loads.

  \<^bold>\<open>How the parts interact.\<close> The login page writes the token to local storage
  and to the \<open>authToken\<close> cookie. The middleware reads the cookie for every navigation
  to \<open>/admin\<close> and \<open>/login\<close>. The admin pages read the token back from local storage
  for their requests: the catalog pages under \<open>authToken\<close>, the product pages under
  \<open>token\<close>, which nothing writes. \<open>Session\<close> therefore imports \<open>RouteGuard\<close> and
  navigates through \<open>handle_request\<close>. \<open>ProductForm\<close> imports \<open>Session\<close> for local
  storage and the product pages' authorization header.
  The root layout loads the top-level categories on the server and hands them to the
  header (\<open>root_layout\<close>, then \<open>header_reach\<close> from those categories); the header
  passes the hovered category to the mega menu (\<open>mega_menu_view\<close>).
  \<open>layout_header_top_level\<close> composes the two: every category in the bar is
  top-level. \<open>Storefront\<close> imports \<open>Home\<close> for the shape of API replies.
  The build configuration reaches the storefront only through \<open>next/image\<close>, in
  the footer (local pictures, \<open>footer_images_local\<close>) and the mega menu (C14).

  \<^bold>\<open>Bounds and fuel.\<close> No definition uses fuel: every loop of the code is a
  structural recursion or a list function, and the two library recursions
  (\<open>js_sort\<close>, \<open>glob_match\<close>) carry termination proofs by measure. The constants the claims use are the code's
  own:
  \<^item> the cookie's \<open>max-age\<close> of 86400 seconds;
  \<^item> the slider's 5000 ms interval and its 690/700/710 ms timeouts;
  \<^item> the product form's three "\<open>|| default\<close>"s.
  \<^item> the header's 3-second interval over its four messages: C38 bounds the wait for
    any message by four ticks, the length of \<open>mobileTopMessages\<close>;
  \<^item> the header's scroll thresholds (1, 8, 2, 5 and 80 pixels).
  Reachability relations are unbounded; their invariants are proved by rule induction.

  \<^bold>\<open>Not modelled.\<close>
  \<^item> What \<open>apiClient\<close> (\<open>src/lib/api\<close>, absent from the repository) does with
    the services' calls. The eslint and typescript flags of \<open>src/next.config.ts\<close>
    act on the build, not on the running program, and are recorded without properties.
  \<^item> The charts the dashboard draws with recharts (only their data and labels are
    modelled), the decorative backgrounds and keyframes of the login page and the admin
    layout, and the module imports.
  Rendering details (CSS classes, icons, emoji in titles) are omitted throughout, and so
  are the browser's own event plumbing and React's batching beyond the bail-out on an
  unchanged state.
\<close>

end
